(* ===== verification/Prelude.thy ===== *)
theory Prelude
  imports Complex_Main "HOL-Library.Multiset" "HOL-Library.Sublist" "HOL-Library.List_Lexorder"
    "HOL-Library.Char_ord"
begin

text \<open>
  Shared vocabulary of the development: the Python semantics that the two source files
  (\<open>src/ml/email_analyzer.py\<close>, \<open>src/ml/email_analyzer_api.py\<close>) rely on.
  Python exceptions are values of \<open>py_error\<close>; JSON data (task payloads, results) is
  \<open>jval\<close> with Python truthiness; slicing, indexing, \<open>in\<close>, \<open>str.replace(_, _, 1)\<close>,
  \<open>str.strip\<close>, \<open>str.lower\<close> and the regular-expression classes \<open>\w\<close> and \<open>\s\<close> are
  written out on byte strings (ASCII text).  The collection \<open>py_simps\<close> gathers the
  equations that evaluate these helpers on concrete inputs.
\<close>

named_theorems py_simps "evaluation equations of the Python helpers"

type_synonym vec = "real list"
type_synonym matrix = "real list list"
type_synonym timestamp = nat

section \<open>Exceptions\<close>

datatype py_error =
    IndexError
  | KeyError string
  | ValueError string
  | AttributeError string
  | NotFittedError
  | JSONDecodeError string

section \<open>JSON values and truthiness\<close>

datatype jval =
    JNull
  | JBool bool
  | JInt int
  | JFloat real
  | JStr string
  | JList "jval list"
  | JObj "(string \<times> jval) list"

text \<open>\<open>bool(v)\<close> of Python on the value \<open>json.loads\<close> produces.\<close>

fun py_truthy :: "jval \<Rightarrow> bool" where
  "py_truthy JNull = False"
| "py_truthy (JBool b) = b"
| "py_truthy (JInt i) = (i \<noteq> 0)"
| "py_truthy (JFloat r) = (r \<noteq> 0)"
| "py_truthy (JStr s) = (s \<noteq> [])"
| "py_truthy (JList xs) = (xs \<noteq> [])"
| "py_truthy (JObj kvs) = (kvs \<noteq> [])"

text \<open>\<open>type(v).__name__\<close> of a decoded JSON value.\<close>

fun py_type_name :: "jval \<Rightarrow> string" where
  "py_type_name JNull = ''NoneType''"
| "py_type_name (JBool _) = ''bool''"
| "py_type_name (JInt _) = ''int''"
| "py_type_name (JFloat _) = ''float''"
| "py_type_name (JStr _) = ''str''"
| "py_type_name (JList _) = ''list''"
| "py_type_name (JObj _) = ''dict''"

text \<open>A string between single quotes, as \<open>repr\<close> and exception messages print it.\<close>

definition py_quote :: "string \<Rightarrow> string" where
  "py_quote s = CHR 0x27 # s @ [CHR 0x27]"

text \<open>\<open>str(e)\<close> of an exception: the message the CLI prints.\<close>

fun py_error_str :: "py_error \<Rightarrow> string" where
  "py_error_str IndexError = ''list index out of range''"
| "py_error_str (KeyError k) = py_quote k"
| "py_error_str (ValueError m) = m"
| "py_error_str (AttributeError m) = m"
| "py_error_str NotFittedError = ''The TF-IDF vectorizer is not fitted''"
| "py_error_str (JSONDecodeError m) = m"

text \<open>\<open>d.get(k, default)\<close> on a decoded JSON object: a repeated key keeps its last value.\<close>

definition dict_get :: "(string \<times> jval) list \<Rightarrow> string \<Rightarrow> jval \<Rightarrow> jval" where
  "dict_get kvs k d = (case map_of (rev kvs) k of None \<Rightarrow> d | Some v \<Rightarrow> v)"

section \<open>Lists: slicing and indexing\<close>

text \<open>Bound of a slice \<open>xs[i:j]\<close>: negative bounds count from the end, both are clamped.\<close>

definition py_slice_bound :: "int \<Rightarrow> nat \<Rightarrow> nat" where
  "py_slice_bound i n = (if i < 0 then nat (i + int n) else min (nat i) n)"

definition py_slice :: "'a list \<Rightarrow> int \<Rightarrow> int \<Rightarrow> 'a list" where
  "py_slice xs i j =
     (let a = py_slice_bound i (length xs); b = py_slice_bound j (length xs)
      in take (b - a) (drop a xs))"

text \<open>\<open>xs[i]\<close> for a non-negative index: \<open>IndexError\<close> out of range.\<close>

definition py_nth :: "'a list \<Rightarrow> nat \<Rightarrow> py_error + 'a" where
  "py_nth xs i = (if i < length xs then Inr (xs ! i) else Inl IndexError)"

section \<open>Characters and strings\<close>

text \<open>\<open>\w\<close> (letters, digits, underscore) and \<open>\s\<close> / \<open>str.isspace\<close> on ASCII.\<close>

definition is_word_char :: "char \<Rightarrow> bool" where
  "is_word_char c =
     (let n = of_char c :: nat
      in (48 \<le> n \<and> n \<le> 57) \<or> (65 \<le> n \<and> n \<le> 90) \<or> (97 \<le> n \<and> n \<le> 122) \<or> n = 95)"

definition is_space :: "char \<Rightarrow> bool" where
  "is_space c = (let n = of_char c :: nat in (9 \<le> n \<and> n \<le> 13) \<or> (28 \<le> n \<and> n \<le> 32))"

definition lower_char :: "char \<Rightarrow> char" where
  "lower_char c = (let n = of_char c :: nat in if 65 \<le> n \<and> n \<le> 90 then char_of (n + 32) else c)"

definition py_lower :: "string \<Rightarrow> string" where
  "py_lower s = map lower_char s"

text \<open>\<open>str.strip()\<close> with no argument.\<close>

definition py_strip :: "string \<Rightarrow> string" where
  "py_strip s = rev (dropWhile is_space (rev (dropWhile is_space s)))"

text \<open>\<open>p in s\<close> on strings: contiguous occurrence; the empty string occurs everywhere.\<close>

fun py_contains :: "string \<Rightarrow> string \<Rightarrow> bool" where
  "py_contains p [] = (p = [])"
| "py_contains p (c # cs) = (prefix p (c # cs) \<or> py_contains p cs)"

text \<open>\<open>s.replace(old, new, 1)\<close>: the first occurrence, scanning from the left.\<close>

fun replace_first :: "string \<Rightarrow> string \<Rightarrow> string \<Rightarrow> string" where
  "replace_first old new [] = (if old = [] then new else [])"
| "replace_first old new (c # cs) =
     (if prefix old (c # cs) then new @ drop (length old) (c # cs)
      else c # replace_first old new cs)"

text \<open>
  Maximal runs of characters satisfying \<open>P\<close>, left to right (\<open>cur\<close> is the run being
  read, reversed): \<open>str.split()\<close> for \<open>P = Not \<circ> is_space\<close>, the runs of \<open>\w+\<close> for
  \<open>P = is_word_char\<close>.
\<close>

fun runs_from :: "(char \<Rightarrow> bool) \<Rightarrow> string \<Rightarrow> string \<Rightarrow> string list" where
  "runs_from P cur [] = (if cur = [] then [] else [rev cur])"
| "runs_from P cur (c # cs) =
     (if P c then runs_from P (c # cur) cs
      else if cur = [] then runs_from P [] cs
      else rev cur # runs_from P [] cs)"

definition split_ws :: "string \<Rightarrow> string list" where
  "split_ws s = runs_from (\<lambda>c. \<not> is_space c) [] s"

text \<open>\<open>" ".join(ws)\<close>.\<close>

fun join_space :: "string list \<Rightarrow> string" where
  "join_space [] = []"
| "join_space [w] = w"
| "join_space (w # v # ws) = w @ CHR '' '' # join_space (v # ws)"

text \<open>\<open>int(s)\<close> on a command-line argument: surrounding white space, an optional sign, and
  decimal digits with single underscores between them; anything else raises \<open>ValueError\<close>.\<close>

definition is_digit :: "char \<Rightarrow> bool" where
  "is_digit c = (let n = of_char c :: nat in 48 \<le> n \<and> n \<le> 57)"

fun digits_value :: "string \<Rightarrow> int \<Rightarrow> int" where
  "digits_value [] acc = acc"
| "digits_value (c # cs) acc = digits_value cs (10 * acc + int (of_char c - 48))"

definition int_body_ok :: "string \<Rightarrow> bool" where
  "int_body_ok ds =
     (ds \<noteq> [] \<and> is_digit (hd ds) \<and> is_digit (last ds)
      \<and> list_all (\<lambda>c. is_digit c \<or> c = CHR ''_'') ds \<and> \<not> py_contains ''__'' ds)"

definition py_int :: "string \<Rightarrow> int option" where
  "py_int s =
     (let t = py_strip s;
          (sg, ds) = (case t of
                        c # r \<Rightarrow> if c = CHR ''-'' then (-1, r) else if c = CHR ''+'' then (1, r) else (1, t)
                      | [] \<Rightarrow> (1, []))
      in if int_body_ok ds then Some (sg * digits_value (filter is_digit ds) 0) else None)"

section \<open>Generic lemmas\<close>

lemma py_slice_bound_le [simp]: "py_slice_bound i n \<le> n"
  by (simp add: py_slice_bound_def nat_le_iff)

lemma py_slice_bound_neg [py_simps]:
  "i < 0 \<Longrightarrow> py_slice_bound i n = nat (i + int n)"
  by (simp add: py_slice_bound_def)

lemma set_py_slice: "set (py_slice xs i j) \<subseteq> set xs"
  by (auto simp: py_slice_def Let_def dest: in_set_takeD in_set_dropD)

lemma py_slice_sublist: "sublist (py_slice xs i j) xs"
  unfolding py_slice_def Let_def
  by (metis append_take_drop_id sublist_appendI)

lemma distinct_py_slice: "distinct xs \<Longrightarrow> distinct (py_slice xs i j)"
  by (simp add: py_slice_def Let_def distinct_take distinct_drop)

lemma py_slice_map: "py_slice (map f xs) i j = map f (py_slice xs i j)"
  by (simp add: py_slice_def Let_def take_map drop_map)

lemma sorted_py_slice: "sorted xs \<Longrightarrow> sorted (py_slice xs i j)"
  by (simp add: py_slice_def Let_def sorted_wrt_take sorted_wrt_drop)

text \<open>The end slice \<open>xs[-(k+1):-1]\<close> on a non-empty list: the \<open>k\<close> elements before the last.\<close>

lemma py_slice_end:
  assumes "0 \<le> k" and "xs \<noteq> []"
  shows "py_slice xs (- (k + 1)) (- 1) =
           drop (length xs - 1 - min (nat k) (length xs - 1)) (butlast xs)"
proof -
  let ?n = "length xs"
  have a: "py_slice_bound (- (k + 1)) ?n = ?n - 1 - min (nat k) (?n - 1)"
    using assms by (simp add: py_slice_bound_def nat_diff_distrib' split: if_splits)
  have b: "py_slice_bound (- 1) ?n = ?n - 1"
    using assms by (simp add: py_slice_bound_def nat_diff_distrib')
  show ?thesis
    unfolding py_slice_def Let_def a b
    by (simp add: butlast_conv_take drop_take min_def)
qed

lemma py_nth_Inr [simp]: "i < length xs \<Longrightarrow> py_nth xs i = Inr (xs ! i)"
  by (simp add: py_nth_def)

lemma py_contains_iff_sublist: "py_contains p s \<longleftrightarrow> sublist p s"
  by (induction s) (auto simp: sublist_Cons_right)

lemma replace_first_absent:
  "\<not> py_contains old s \<Longrightarrow> replace_first old new s = s"
  by (induction s) (auto simp: prefix_def)

lemma replace_first_split:
  "py_contains old s \<Longrightarrow>
     \<exists>pre post. s = pre @ old @ post \<and> replace_first old new s = pre @ new @ post
                \<and> (\<forall>pre' post'. s = pre' @ old @ post' \<longrightarrow> length pre \<le> length pre')"
proof (induction s)
  case Nil
  then show ?case by simp
next
  case (Cons c cs)
  show ?case
  proof (cases "prefix old (c # cs)")
    case True
    then obtain post where post: "c # cs = old @ post" by (auto simp: prefix_def)
    then have "drop (length old) (c # cs) = post" by simp
    with True have "replace_first old new (c # cs) = new @ post" by simp
    with post show ?thesis by (intro exI [of _ "[]"] exI [of _ post]) simp
  next
    case False
    with Cons.prems have "py_contains old cs" by simp
    with Cons.IH obtain pre post where
      eq: "cs = pre @ old @ post" "replace_first old new cs = pre @ new @ post"
      and least: "\<forall>pre' post'. cs = pre' @ old @ post' \<longrightarrow> length pre \<le> length pre'"
      by blast
    have "length (c # pre) \<le> length pre'" if "c # cs = pre' @ old @ post'" for pre' post'
    proof (cases pre')
      case Nil
      with that False show ?thesis by (simp add: prefix_def)
    next
      case (Cons d pre'')
      with that least show ?thesis by simp
    qed
    with False eq show ?thesis by (intro exI [of _ "c # pre"] exI [of _ post]) auto
  qed
qed

lemma runs_from_append_run:
  "(\<forall>c \<in> set w. P c) \<Longrightarrow> runs_from P cur (w @ s) = runs_from P (rev w @ cur) s"
  by (induction w arbitrary: cur) simp_all

text \<open>Joining words without separator characters and splitting again gives the words back.\<close>

lemma runs_from_join_space:
  assumes "\<not> P (CHR '' '')" and "\<forall>w \<in> set ws. w \<noteq> [] \<and> (\<forall>c \<in> set w. P c)"
  shows "runs_from P [] (join_space ws) = ws"
  using assms(2)
proof (induction ws rule: join_space.induct)
  case (2 w)
  then show ?case by (simp add: runs_from_append_run [where s = "[]", simplified])
next
  case (3 w v ws)
  then have "runs_from P [] (join_space (w # v # ws)) = w # runs_from P [] (join_space (v # ws))"
    using assms(1) by (simp add: runs_from_append_run)
  with 3 show ?case by simp
qed simp

lemma length_py_lower [simp]: "length (py_lower s) = length s"
  by (simp add: py_lower_def)

section \<open>Scanning strings\<close>

text \<open>A scan by \<open>takeWhile\<close> stops at the first character that fails the test.\<close>

lemma takeWhile_dropWhile_stop:
  assumes "\<not> P (hd v)" and "v \<noteq> []"
  shows "takeWhile P (u @ v) = takeWhile P u" and "dropWhile P (u @ v) = dropWhile P u @ v"
  using assms by (induction u) (auto simp: neq_Nil_conv)

lemma prefix_overlap_hd:
  assumes "prefix cl (r @ v)" and "length r < length cl" and "v \<noteq> []"
  shows "hd v \<in> set cl"
proof -
  obtain z where z: "r @ v = cl @ z" using assms(1) by (auto simp: prefix_def)
  have "(r @ v) ! length r = hd v" using assms(3) by (simp add: hd_conv_nth nth_append)
  also have "(r @ v) ! length r = cl ! length r" using z assms(2) by (simp add: nth_append)
  finally show ?thesis using assms(2) by (metis nth_mem)
qed

text \<open>\<open>\w\<close> and \<open>\s\<close> are disjoint, so \<open>str.strip()\<close> keeps a word.\<close>

lemma word_char_not_space: "is_word_char c \<Longrightarrow> \<not> is_space c"
  by (simp add: is_word_char_def is_space_def Let_def) linarith

lemma py_strip_word: "list_all is_word_char x \<Longrightarrow> py_strip x = x"
proof -
  assume w: "list_all is_word_char x"
  have "dropWhile is_space x = x" if "list_all is_word_char x" for x
    using that by (cases x) (simp_all add: word_char_not_space)
  moreover have "list_all is_word_char (rev x)" using w by (simp add: list_all_iff)
  ultimately show ?thesis using w by (simp add: py_strip_def)
qed

lemma py_strip_id:
  assumes "s \<noteq> []" and "\<not> is_space (hd s)" and "\<not> is_space (last s)"
  shows "py_strip s = s"
proof -
  have "dropWhile is_space s = s" using assms(1,2) by (cases s) simp_all
  moreover have "dropWhile is_space (rev s) = rev s"
    using assms(1,3) by (cases "rev s") (simp_all add: hd_rev [symmetric])
  ultimately show ?thesis by (simp add: py_strip_def)
qed

end
