(* ===== verification/Vectors.thy ===== *)
theory Vectors
  imports Prelude
begin

text \<open>
  Rows of the vector space and the similarity used by \<open>get_similar_emails\<close>
  (\<open>src/ml/email_analyzer.py\<close>, line 166): \<open>cosine_similarity(email_vector, self.email_vectors)\<close>
  of scikit-learn, which L2-normalises both operands (a zero row stays zero) and takes
  dot products.  Rows are dense \<open>real\<close> lists; the sparse storage of scipy changes no value.
  The lemmas show that similarities of non-negative rows lie in \<open>[0, 1]\<close> and that a
  non-zero row has similarity 1 with itself.
\<close>

fun dot :: "vec \<Rightarrow> vec \<Rightarrow> real" where
  "dot (x # xs) (y # ys) = x * y + dot xs ys"
| "dot _ _ = 0"

definition sqnorm :: "vec \<Rightarrow> real" where
  "sqnorm v = dot v v"

definition l2_normalize :: "vec \<Rightarrow> vec" where
  "l2_normalize v = (let n = sqrt (sqnorm v) in if n = 0 then v else map (\<lambda>x. x / n) v)"

definition cosine_similarity :: "vec \<Rightarrow> matrix \<Rightarrow> real list" where
  "cosine_similarity q X = map (\<lambda>r. dot (l2_normalize q) (l2_normalize r)) X"

definition nonneg :: "vec \<Rightarrow> bool" where
  "nonneg v = list_all (\<lambda>x. 0 \<le> x) v"

section \<open>Arithmetic of dot products\<close>

lemma dot_Nil_right [simp]: "dot xs [] = 0"
  by (cases xs) simp_all

lemma sqnorm_Nil [simp]: "sqnorm [] = 0"
  by (simp add: sqnorm_def)

lemma sqnorm_Cons [simp]: "sqnorm (x # xs) = x * x + sqnorm xs"
  by (simp add: sqnorm_def)

lemma sqnorm_nonneg [simp]: "0 \<le> sqnorm v"
  by (induction v) simp_all

lemma dot_comm: "dot u v = dot v u"
  by (induction u v rule: dot.induct) (simp_all add: mult.commute)

lemma dot_divide:
  "dot (map (\<lambda>x. x / a) u) (map (\<lambda>x. x / b) v) = dot u v / (a * b)"
  by (induction u v rule: dot.induct) (simp_all add: add_divide_distrib)

lemma dot_nonneg: "nonneg u \<Longrightarrow> nonneg v \<Longrightarrow> 0 \<le> dot u v"
  by (induction u v rule: dot.induct) (simp_all add: nonneg_def)

text \<open>The arithmetic-geometric bound, term by term: no Cauchy-Schwarz is needed for unit rows.\<close>

lemma two_mult_le_squares: "2 * (x * y) \<le> x * x + y * (y :: real)"
  using sum_squares_bound [of x y] by (simp add: power2_eq_square)

lemma dot_le_sqnorms: "2 * dot u v \<le> sqnorm u + sqnorm v"
proof (induction u v rule: dot.induct)
  case (1 x xs y ys)
  then show ?case
    using two_mult_le_squares [of x y] by (simp only: dot.simps sqnorm_Cons distrib_left)
qed simp_all

lemma sqnorm_zero_iff: "sqnorm v = 0 \<longleftrightarrow> (\<forall>x \<in> set v. x = 0)"
proof (induction v)
  case Nil
  then show ?case by simp
next
  case (Cons x xs)
  have "0 \<le> x * x" by simp
  then have "x * x + sqnorm xs = 0 \<longleftrightarrow> x * x = 0 \<and> sqnorm xs = 0"
    using sqnorm_nonneg [of xs] by linarith
  with Cons.IH show ?case by simp
qed

section \<open>Normalisation\<close>

lemma length_l2_normalize [simp]: "length (l2_normalize v) = length v"
  by (simp add: l2_normalize_def Let_def)

lemma nonneg_l2_normalize: "nonneg v \<Longrightarrow> nonneg (l2_normalize v)"
  by (auto simp: l2_normalize_def Let_def nonneg_def list_all_iff)

lemma sqnorm_l2_normalize:
  "sqnorm v \<noteq> 0 \<Longrightarrow> sqnorm (l2_normalize v) = 1"
proof -
  assume nz: "sqnorm v \<noteq> 0"
  let ?n = "sqrt (sqnorm v)"
  have pos: "0 < sqnorm v" using nz sqnorm_nonneg [of v] by linarith
  then have n: "?n \<noteq> 0" by simp
  have "sqnorm (l2_normalize v) = dot v v / (?n * ?n)"
    using n by (simp add: l2_normalize_def sqnorm_def dot_divide)
  also have "\<dots> = 1"
    using pos by (simp add: sqnorm_def [symmetric])
  finally show ?thesis .
qed

lemma l2_normalize_zero: "sqnorm v = 0 \<Longrightarrow> l2_normalize v = v"
  by (simp add: l2_normalize_def)

lemma sqnorm_l2_normalize_le: "sqnorm (l2_normalize v) \<le> 1"
  by (cases "sqnorm v = 0") (simp_all add: l2_normalize_zero sqnorm_l2_normalize)

section \<open>Cosine similarity\<close>

lemma length_cosine_similarity [simp]: "length (cosine_similarity q X) = length X"
  by (simp add: cosine_similarity_def)

lemma nth_cosine_similarity [simp]:
  "i < length X \<Longrightarrow> cosine_similarity q X ! i = dot (l2_normalize q) (l2_normalize (X ! i))"
  by (simp add: cosine_similarity_def)

lemma cosine_le_1: "dot (l2_normalize u) (l2_normalize v) \<le> 1"
  using dot_le_sqnorms [of "l2_normalize u" "l2_normalize v"]
    sqnorm_l2_normalize_le [of u] sqnorm_l2_normalize_le [of v]
  by linarith

lemma cosine_nonneg: "nonneg u \<Longrightarrow> nonneg v \<Longrightarrow> 0 \<le> dot (l2_normalize u) (l2_normalize v)"
  by (intro dot_nonneg nonneg_l2_normalize)

lemma cosine_self: "sqnorm v \<noteq> 0 \<Longrightarrow> dot (l2_normalize v) (l2_normalize v) = 1"
  using sqnorm_l2_normalize by (simp add: sqnorm_def)

lemma cosine_similarity_bounds:
  assumes "nonneg q" and "list_all nonneg X"
  shows "list_all (\<lambda>s. 0 \<le> s \<and> s \<le> 1) (cosine_similarity q X)"
  using assms by (auto simp: cosine_similarity_def list_all_iff cosine_nonneg cosine_le_1)

lemma dot_zero_left: "\<forall>x \<in> set u. x = 0 \<Longrightarrow> dot u v = 0"
  by (induction u v rule: dot.induct) simp_all

lemma cosine_zero_query:
  assumes "\<forall>x \<in> set q. x = 0"
  shows "cosine_similarity q X = replicate (length X) 0"
proof -
  have "sqnorm q = 0" using assms by (simp add: sqnorm_zero_iff)
  then have "l2_normalize q = q" by (rule l2_normalize_zero)
  then show ?thesis using assms by (simp add: cosine_similarity_def dot_zero_left map_replicate_const)
qed

end
