(* ===== verification/Vectorizer.thy ===== *)
theory Vectorizer
  imports Vectors
begin

text \<open>
  The term-weighting model: \<open>TfidfVectorizer(max_features=1000)\<close> of
  \<open>EmailAnalyzer.__init__\<close> (line 35) with scikit-learn's defaults, as \<open>fit\<close> (line 139),
  \<open>get_similar_emails\<close> (line 163) and \<open>learn_from_task\<close> (line 242) call it.
  Tokens are the matches of \<open>(?u)\b\w\w+\b\<close> on the lower-cased text, i.e. the maximal
  runs of word characters of length at least 2; the vocabulary is the sorted set of
  tokens, cut to the \<open>max_features\<close> most frequent ones (ties broken in vocabulary order);
  the weight of a term is \<open>count * idf\<close> with the smoothed \<open>idf = ln((n+1)/(df+1)) + 1\<close>,
  and each row is L2-normalised.  An unfitted vectorizer raises \<open>NotFittedError\<close>, an
  empty vocabulary raises \<open>ValueError\<close>.
\<close>

record tfidf_model =
  vocabulary :: "string list"
  idf :: "real list"

record vectorizer =
  max_features :: nat
  fitted :: "tfidf_model option"

definition vectorizer_init :: vectorizer where
  "vectorizer_init = \<lparr>max_features = 1000, fitted = None\<rparr>"

definition sk_analyze :: "string \<Rightarrow> string list" where
  "sk_analyze doc = filter (\<lambda>w. 2 \<le> length w) (runs_from is_word_char [] (py_lower doc))"

definition term_total :: "string list list \<Rightarrow> string \<Rightarrow> nat" where
  "term_total docs t = sum_list (map (\<lambda>d. count_list d t) docs)"

definition doc_freq :: "string list list \<Rightarrow> string \<Rightarrow> nat" where
  "doc_freq docs t = length (filter (\<lambda>d. t \<in> set d) docs)"

text \<open>\<open>_limit_features\<close>: the \<open>max_features\<close> most frequent terms (total count over the
  corpus), kept in vocabulary order.  scikit-learn ranks them with numpy's default
  (unstable) \<open>argsort\<close>; here terms of equal count are cut in vocabulary order.  The two
  differ only in which of several equally frequent terms survive the cut, which needs more
  than 1000 distinct terms; no claim depends on that choice.\<close>

definition limit_features :: "nat \<Rightarrow> string list list \<Rightarrow> string list \<Rightarrow> string list" where
  "limit_features mf docs terms =
     (if mf < length terms
      then (let keep = take mf (sort_key (\<lambda>t. - int (term_total docs t)) terms)
            in filter (\<lambda>t. t \<in> set keep) terms)
      else terms)"

definition smooth_idf :: "nat \<Rightarrow> nat \<Rightarrow> real" where
  "smooth_idf n df = ln (real (n + 1) / real (df + 1)) + 1"

definition tfidf_row :: "tfidf_model \<Rightarrow> string list \<Rightarrow> vec" where
  "tfidf_row m toks =
     l2_normalize (map2 (\<lambda>t w. real (count_list toks t) * w) (vocabulary m) (idf m))"

definition tfidf_fit :: "nat \<Rightarrow> string list list \<Rightarrow> py_error + tfidf_model" where
  "tfidf_fit mf docs =
     (let terms = sort (remdups (concat docs))
      in if terms = []
         then Inl (ValueError ''empty vocabulary; perhaps the documents only contain stop words'')
         else (let vocab = limit_features mf docs terms
               in Inr \<lparr>vocabulary = vocab,
                       idf = map (\<lambda>t. smooth_idf (length docs) (doc_freq docs t)) vocab\<rparr>))"

definition fit_transform :: "vectorizer \<Rightarrow> string list \<Rightarrow> py_error + vectorizer \<times> matrix" where
  "fit_transform v texts =
     (let docs = map sk_analyze texts
      in case tfidf_fit (max_features v) docs of
           Inl e \<Rightarrow> Inl e
         | Inr m \<Rightarrow> Inr (v\<lparr>fitted := Some m\<rparr>, map (tfidf_row m) docs))"

definition transform :: "vectorizer \<Rightarrow> string list \<Rightarrow> py_error + matrix" where
  "transform v texts =
     (case fitted v of
        None \<Rightarrow> Inl NotFittedError
      | Some m \<Rightarrow> Inr (map (\<lambda>s. tfidf_row m (sk_analyze s)) texts))"

text \<open>Well-formedness of a fitted model: what the lemmas below show \<open>tfidf_fit\<close> produces.\<close>

definition tfidf_wf :: "tfidf_model \<Rightarrow> bool" where
  "tfidf_wf m \<longleftrightarrow> length (idf m) = length (vocabulary m) \<and> sorted (vocabulary m)
                  \<and> distinct (vocabulary m) \<and> list_all (\<lambda>w. 1 \<le> w) (idf m)"

section \<open>The fitted vocabulary\<close>

lemma doc_freq_le: "doc_freq docs t \<le> length docs"
  by (simp add: doc_freq_def)

lemma smooth_idf_ge_1: "df \<le> n \<Longrightarrow> 1 \<le> smooth_idf n df"
  by (simp add: smooth_idf_def)

lemma limit_features_subset: "set (limit_features mf docs terms) \<subseteq> set terms"
  by (auto simp: limit_features_def Let_def)

lemma sorted_limit_features: "sorted terms \<Longrightarrow> sorted (limit_features mf docs terms)"
  by (simp add: limit_features_def Let_def sorted_wrt_filter)

lemma distinct_limit_features: "distinct terms \<Longrightarrow> distinct (limit_features mf docs terms)"
  by (simp add: limit_features_def Let_def)

lemma length_limit_features:
  assumes "distinct terms"
  shows "length (limit_features mf docs terms) = min mf (length terms)"
proof (cases "mf < length terms")
  case True
  let ?keep = "take mf (sort_key (\<lambda>t. - int (term_total docs t)) terms)"
  have dk: "distinct ?keep" using assms by (simp add: distinct_take)
  have sub: "set ?keep \<subseteq> set terms" by (auto dest: in_set_takeD)
  have "length (filter (\<lambda>t. t \<in> set ?keep) terms) = card (set terms \<inter> set ?keep)"
    using assms by (simp add: distinct_length_filter Int_def conj_commute)
  also have "\<dots> = length ?keep"
    using sub dk by (simp add: Int_absorb1 distinct_card)
  also have "\<dots> = mf" using True by simp
  finally show ?thesis using True by (simp add: limit_features_def Let_def)
next
  case False
  then show ?thesis by (simp add: limit_features_def)
qed

lemma tfidf_fit_wf: "tfidf_fit mf docs = Inr m \<Longrightarrow> tfidf_wf m"
  by (auto simp: tfidf_fit_def Let_def tfidf_wf_def list_all_iff sorted_limit_features
      distinct_limit_features doc_freq_le smooth_idf_ge_1 split: if_splits)

lemma tfidf_fit_vocabulary:
  "tfidf_fit mf docs = Inr m \<Longrightarrow>
     length (vocabulary m) = min mf (card (\<Union>d \<in> set docs. set d))
     \<and> set (vocabulary m) \<subseteq> (\<Union>d \<in> set docs. set d)"
proof -
  assume fit: "tfidf_fit mf docs = Inr m"
  let ?terms = "sort (remdups (concat docs))"
  have m: "vocabulary m = limit_features mf docs ?terms"
    using fit by (auto simp: tfidf_fit_def Let_def split: if_splits)
  have "length ?terms = card (\<Union>d \<in> set docs. set d)"
    by (simp add: length_remdups_card_conv)
  with m show ?thesis
    using length_limit_features [of ?terms mf docs] limit_features_subset [of mf docs ?terms]
    by simp
qed

lemma terms_Nil_iff: "sort (remdups (concat docs)) = [] \<longleftrightarrow> (\<forall>d \<in> set docs. d = [])"
proof -
  have "sort (remdups (concat docs)) = [] \<longleftrightarrow> concat docs = []"
    by (metis length_0_conv length_sort remdups_eq_nil_iff)
  then show ?thesis by simp
qed

lemma tfidf_fit_error:
  "tfidf_fit mf docs = Inl e \<longleftrightarrow>
     (\<forall>d \<in> set docs. d = []) \<and>
     e = ValueError ''empty vocabulary; perhaps the documents only contain stop words''"
  by (auto simp add: tfidf_fit_def Let_def terms_Nil_iff [symmetric])

section \<open>Rows\<close>

lemma length_tfidf_row:
  "length (idf m) = length (vocabulary m) \<Longrightarrow> length (tfidf_row m toks) = length (vocabulary m)"
  by (simp add: tfidf_row_def)

lemma nonneg_tfidf_row:
  assumes "tfidf_wf m"
  shows "nonneg (tfidf_row m toks)"
proof -
  have "nonneg (map2 (\<lambda>t w. real (count_list toks t) * w) (vocabulary m) (idf m))"
    using assms by (auto simp: nonneg_def tfidf_wf_def list_all_iff dest!: set_zip_rightD)
  then show ?thesis by (simp add: tfidf_row_def nonneg_l2_normalize)
qed

text \<open>Out-of-vocabulary tokens contribute nothing to a row.\<close>

lemma tfidf_row_oov:
  assumes "set extra \<inter> set (vocabulary m) = {}"
  shows "tfidf_row m (toks @ extra) = tfidf_row m toks"
proof -
  have "count_list extra t = 0" if "t \<in> set (vocabulary m)" for t
    using assms that by (auto simp: count_list_0_iff)
  then have "map2 (\<lambda>t w. real (count_list (toks @ extra) t) * w) (vocabulary m) (idf m) =
             map2 (\<lambda>t w. real (count_list toks t) * w) (vocabulary m) (idf m)"
    by (auto intro!: map_cong dest!: set_zip_leftD)
  then show ?thesis by (simp only: tfidf_row_def)
qed

lemma tfidf_row_all_oov:
  assumes "set toks \<inter> set (vocabulary m) = {}"
  shows "\<forall>x \<in> set (tfidf_row m toks). x = 0"
proof -
  let ?raw = "map2 (\<lambda>t w. real (count_list toks t) * w) (vocabulary m) (idf m)"
  have "\<forall>x \<in> set ?raw. x = 0"
    using assms by (auto simp: count_list_0_iff dest!: set_zip_leftD)
  then have "sqnorm ?raw = 0" by (simp add: sqnorm_zero_iff)
  then have "tfidf_row m toks = ?raw" by (simp add: tfidf_row_def l2_normalize_zero)
  with \<open>\<forall>x \<in> set ?raw. x = 0\<close> show ?thesis by simp
qed

lemma sqnorm_tfidf_row_pos:
  assumes "tfidf_wf m" and "t \<in> set toks" and "t \<in> set (vocabulary m)"
  shows "sqnorm (tfidf_row m toks) \<noteq> 0"
proof -
  let ?raw = "map2 (\<lambda>t w. real (count_list toks t) * w) (vocabulary m) (idf m)"
  obtain i where i: "i < length (vocabulary m)" "vocabulary m ! i = t"
    using assms(3) by (auto simp: in_set_conv_nth)
  have len: "length (idf m) = length (vocabulary m)" and w: "1 \<le> idf m ! i"
    using assms(1) i by (auto simp: tfidf_wf_def list_all_iff)
  have "count_list toks t \<noteq> 0" using assms(2) by (simp add: count_list_0_iff)
  then have "?raw ! i \<noteq> 0" using i len w by simp
  moreover have "i < length ?raw" using i len by simp
  then have "?raw ! i \<in> set ?raw" by (rule nth_mem)
  ultimately have "\<not> (\<forall>x \<in> set ?raw. x = 0)" by blast
  then have "sqnorm ?raw \<noteq> 0" using sqnorm_zero_iff by blast
  then show ?thesis by (simp add: tfidf_row_def sqnorm_l2_normalize)
qed

lemma fit_transform_result:
  "fit_transform v texts = Inr (v', X) \<Longrightarrow>
     \<exists>m. fitted v' = Some m \<and> tfidf_wf m \<and> max_features v' = max_features v
         \<and> X = map (\<lambda>s. tfidf_row m (sk_analyze s)) texts"
  by (auto simp: fit_transform_def Let_def tfidf_fit_wf split: sum.splits)

lemma transform_result:
  "fitted v = Some m \<Longrightarrow> transform v texts = Inr (map (\<lambda>s. tfidf_row m (sk_analyze s)) texts)"
  by (simp add: transform_def)

end
