(* ===== verification/Ranking.thy ===== *)
theory Ranking
  imports Prelude
begin

text \<open>
  The ranking step of \<open>get_similar_emails\<close> (\<open>src/ml/email_analyzer.py\<close>, line 169):
  \<open>similarities.argsort()[-(top_n+1):-1][::-1]\<close>.  numpy's default \<open>argsort\<close> is an
  unstable quicksort, so its contract is \<open>is_argsort\<close>: a permutation of the indices that
  sorts the scores ascending.  \<open>argsort\<close> below is one stable instance of it (the
  refinement lemma \<open>argsort_is_argsort\<close>); every property of \<open>top_similar\<close> is proved
  for an arbitrary admissible permutation, so it holds whatever numpy does with ties.
\<close>

definition is_argsort :: "'a::linorder list \<Rightarrow> nat list \<Rightarrow> bool" where
  "is_argsort s p \<longleftrightarrow> mset p = mset [0..<length s] \<and> sorted (map (\<lambda>i. s ! i) p)"

definition argsort :: "'a::linorder list \<Rightarrow> nat list" where
  "argsort s = sort_key (\<lambda>i. s ! i) [0..<length s]"

definition top_similar :: "nat list \<Rightarrow> int \<Rightarrow> nat list" where
  "top_similar p top_n = rev (py_slice p (- (top_n + 1)) (- 1))"

text \<open>Start of the returned window inside the ascending order, for \<open>top_n \<ge> 0\<close>.\<close>

definition window_start :: "nat \<Rightarrow> int \<Rightarrow> nat" where
  "window_start n top_n = n - 1 - min (nat top_n) (n - 1)"

section \<open>Admissible permutations\<close>

lemma argsort_is_argsort: "is_argsort s (argsort s)"
  by (simp add: is_argsort_def argsort_def)

lemma is_argsort_perm:
  assumes "is_argsort s p"
  shows "length p = length s" and "distinct p" and "set p = {0..<length s}"
proof -
  have m: "mset p = mset [0..<length s]" using assms by (simp add: is_argsort_def)
  then show "length p = length s" by (metis length_upt minus_nat.diff_0 size_mset)
  from m show "distinct p" by (metis distinct_upt mset_eq_imp_distinct_iff)
  from m show "set p = {0..<length s}" by (metis set_mset_mset set_upt)
qed

lemma is_argsort_scores:
  assumes "is_argsort s p"
  shows "map (\<lambda>i. s ! i) p = sort s"
proof -
  have "mset (map (\<lambda>i. s ! i) p) = mset (map (\<lambda>i. s ! i) [0..<length s])"
    using assms by (simp add: is_argsort_def)
  also have "map (\<lambda>i. s ! i) [0..<length s] = s" by (rule map_nth)
  finally show ?thesis
    using assms by (intro properties_for_sort [symmetric]) (simp_all add: is_argsort_def)
qed

lemma is_argsort_mono:
  assumes "is_argsort s p" and "m \<le> m'" and "m' < length p"
  shows "s ! (p ! m) \<le> s ! (p ! m')"
proof -
  have "sorted (map (\<lambda>i. s ! i) p)" using assms(1) by (simp add: is_argsort_def)
  then show ?thesis using sorted_nth_mono [of "map (\<lambda>i. s ! i) p" m m'] assms(2,3) by simp
qed

lemma is_argsort_last_max:
  assumes "is_argsort s p" and "j < length s"
  shows "s ! j \<le> s ! last p"
proof -
  have len: "length p = length s" and set: "set p = {0..<length s}"
    using is_argsort_perm [OF assms(1)] by simp_all
  then obtain m where m: "m < length p" "p ! m = j" using assms(2)
    by (metis atLeastLessThan_iff in_set_conv_nth zero_le)
  have "p \<noteq> []" using m by auto
  then have "last p = p ! (length p - 1)" by (simp add: last_conv_nth)
  with is_argsort_mono [OF assms(1), of m "length p - 1"] m show ?thesis by simp
qed

section \<open>The selected window\<close>

lemma drop_take_as_map_nth:
  "b \<le> length xs \<Longrightarrow> drop a (take b xs) = map (\<lambda>m. xs ! m) [a..<b]"
  by (rule nth_equalityI) simp_all

lemma top_similar_nth:
  assumes "0 \<le> top_n" and "p \<noteq> []"
  shows "top_similar p top_n =
           map (\<lambda>m. p ! m) (rev [window_start (length p) top_n..<length p - 1])"
proof -
  have eq: "py_slice p (- (top_n + 1)) (- 1) =
              map (\<lambda>m. p ! m) [window_start (length p) top_n..<length p - 1]"
    using py_slice_end [OF assms]
    by (simp add: window_start_def butlast_conv_take drop_take_as_map_nth)
  show ?thesis unfolding top_similar_def eq by (simp add: rev_map)
qed

lemma set_top_similar:
  assumes "0 \<le> top_n" and "p \<noteq> []"
  shows "set (top_similar p top_n) =
           (\<lambda>m. p ! m) ` {window_start (length p) top_n..<length p - 1}"
  using top_similar_nth [OF assms] by simp

lemma length_top_similar:
  assumes "0 \<le> top_n" and "p \<noteq> []"
  shows "length (top_similar p top_n) = min (nat top_n) (length p - 1)"
  using top_similar_nth [OF assms] by (simp add: window_start_def)

lemma top_similar_Nil [simp]: "top_similar [] top_n = []"
  by (simp add: top_similar_def py_slice_def)

text \<open>The scores of the window do not depend on how ties were ordered.\<close>

lemma top_similar_scores:
  assumes "is_argsort s p" and "0 \<le> top_n" and "s \<noteq> []"
  shows "map (\<lambda>i. s ! i) (top_similar p top_n) =
           rev (drop (window_start (length s) top_n) (butlast (sort s)))"
proof -
  have len: "length p = length s" using is_argsort_perm [OF assms(1)] by simp
  then have "p \<noteq> []" using assms(3) by auto
  then have "map (\<lambda>i. s ! i) (top_similar p top_n) =
               rev (map (\<lambda>m. map (\<lambda>i. s ! i) p ! m) [window_start (length p) top_n..<length p - 1])"
    using len by (auto simp: top_similar_nth [OF assms(2)] rev_map intro!: map_cong)
  also have "\<dots> = rev (drop (window_start (length s) top_n) (take (length s - 1) (sort s)))"
    using len by (simp add: is_argsort_scores [OF assms(1)] drop_take_as_map_nth)
  finally show ?thesis by (simp add: butlast_conv_take)
qed

lemma top_similar_valid:
  assumes "is_argsort s p"
  shows "distinct (top_similar p top_n) \<and> set (top_similar p top_n) \<subseteq> {0..<length s}"
proof -
  have "distinct p" and "set p = {0..<length s}" using is_argsort_perm [OF assms(1)] by simp_all
  then show ?thesis
    using distinct_py_slice [of p] set_py_slice [of p] by (auto simp: top_similar_def)
qed

text \<open>Whatever \<open>top_n\<close> is, the window stops before the last position.\<close>

lemma top_similar_butlast: "set (top_similar p top_n) \<subseteq> set (butlast p)"
proof -
  let ?n = "length p"
  let ?a = "py_slice_bound (- (top_n + 1)) ?n"
  have b: "py_slice_bound (- 1) ?n = ?n - 1" by (simp add: py_slice_bound_def)
  have "set (take (?n - 1 - ?a) (drop ?a p)) \<subseteq> set (take (?n - 1) p)"
  proof (cases "?a \<le> ?n - 1")
    case True
    then have e: "?n - 1 - ?a + ?a = ?n - 1" by simp
    have "take (?n - 1 - ?a) (drop ?a p) = drop ?a (take (?n - 1) p)" by (simp only: take_drop e)
    then show ?thesis by (simp add: set_drop_subset)
  next
    case False
    then show ?thesis by simp
  qed
  then show ?thesis by (simp add: top_similar_def py_slice_def b butlast_conv_take Let_def)
qed

lemma top_similar_not_last:
  assumes "is_argsort s p"
  shows "last p \<notin> set (top_similar p top_n)"
proof (cases "p = []")
  case False
  have "distinct p" using is_argsort_perm [OF assms] by simp
  then have "distinct (butlast p @ [last p])" using False by simp
  then have "last p \<notin> set (butlast p)" by simp
  then show ?thesis using top_similar_butlast by blast
qed simp

text \<open>Every returned index scores at least as high as every index left out, the dropped top one apart.\<close>

lemma top_similar_dominates:
  assumes "is_argsort s p" and "0 \<le> top_n"
    and "i \<in> set (top_similar p top_n)" and "j < length s"
    and "j \<notin> set (top_similar p top_n)" and "j \<noteq> last p"
  shows "s ! j \<le> s ! i"
proof -
  have len: "length p = length s" and d: "distinct p" and sp: "set p = {0..<length s}"
    using is_argsort_perm [OF assms(1)] by simp_all
  have ne: "p \<noteq> []" using assms(4) len by auto
  let ?a = "window_start (length p) top_n"
  obtain m where m: "?a \<le> m" "m < length p - 1" "i = p ! m"
    using assms(3) set_top_similar [OF assms(2) ne] by auto
  obtain m' where m': "m' < length p" "p ! m' = j"
    using assms(4) sp len by (metis atLeastLessThan_iff in_set_conv_nth zero_le)
  have "m' \<noteq> length p - 1" using m' assms(6) ne by (auto simp: last_conv_nth)
  moreover have "\<not> (?a \<le> m' \<and> m' < length p - 1)"
    using assms(5) m' set_top_similar [OF assms(2) ne] by auto
  ultimately have "m' < m" using m m' by linarith
  then show ?thesis using is_argsort_mono [OF assms(1), of m' m] m m' by simp
qed

text \<open>A negative \<open>top_n\<close> counts from the front: \<open>top_n = -1\<close> keeps every index but the last.\<close>

lemma length_top_similar_neg:
  assumes "top_n < 0"
  shows "length (top_similar p top_n) = length p - 1 - nat (- top_n - 1)"
proof -
  have a: "py_slice_bound (- (top_n + 1)) (length p) = min (nat (- top_n - 1)) (length p)"
    using assms by (simp add: py_slice_bound_def)
  have b: "py_slice_bound (- 1) (length p) = length p - 1" by (simp add: py_slice_bound_def)
  have "length (py_slice p (- (top_n + 1)) (- 1)) = length p - 1 - nat (- top_n - 1)"
    unfolding py_slice_def Let_def a b by simp
  then show ?thesis by (simp add: top_similar_def)
qed

text \<open>For any \<open>top_n\<close>, the scores of the window are a slice of the sorted scores.\<close>

lemma top_similar_scores_any:
  assumes "is_argsort s p"
  shows "map (\<lambda>i. s ! i) (top_similar p top_n) = rev (py_slice (sort s) (- (top_n + 1)) (- 1))"
proof -
  have "map (\<lambda>i. s ! i) (py_slice p (- (top_n + 1)) (- 1)) = py_slice (sort s) (- (top_n + 1)) (- 1)"
    using is_argsort_scores [OF assms] by (simp only: py_slice_map [symmetric])
  then show ?thesis by (simp add: top_similar_def rev_map [symmetric])
qed

end
