(* ===== verification/Text.thy ===== *)
theory Text
  imports Prelude
begin

text \<open>
  The leaf components on raw text: the normaliser \<open>EmailAnalyzer.preprocess_text\<close>
  (lines 54-66) and the sentiment scorer \<open>analyze_sentiment\<close> (lines 86-100).  The
  external collaborators the class holds or calls (NLTK's \<open>word_tokenize\<close>, the English
  stop-word list, VADER's compound polarity score, the optional spaCy pipeline) are the
  fields of \<open>nlp_env\<close>: the lemmas hold for any of them.
\<close>

record nlp_env =
  stop_words :: "string list"
  word_tokenize :: "string \<Rightarrow> string list"
  polarity :: "string \<Rightarrow> real"
  ner :: "(string \<Rightarrow> (string \<times> string) list) option"

text \<open>\<open>preprocess_text\<close>: non-strings give \<open>""\<close>; otherwise lower-case, drop every
  character that is neither \<open>\w\<close> nor \<open>\s\<close>, tokenise, drop stop words, join with spaces.\<close>

definition strip_special :: "string \<Rightarrow> string" where
  "strip_special s = filter (\<lambda>c. is_word_char c \<or> is_space c) s"

definition preprocess_text :: "nlp_env \<Rightarrow> jval \<Rightarrow> string" where
  "preprocess_text env v =
     (case v of
        JStr t \<Rightarrow> join_space (filter (\<lambda>w. w \<notin> set (stop_words env))
                                 (word_tokenize env (strip_special (py_lower t))))
      | _ \<Rightarrow> [])"

datatype sentiment = Positive | Negative | Neutral

definition analyze_sentiment :: "nlp_env \<Rightarrow> string \<Rightarrow> sentiment" where
  "analyze_sentiment env text =
     (if text = [] then Neutral
      else (let c = polarity env text
            in if 5 / 100 \<le> c then Positive else if c \<le> - 5 / 100 then Negative else Neutral))"

text \<open>The label as the JSON output prints it.\<close>

fun sentiment_name :: "sentiment \<Rightarrow> string" where
  "sentiment_name Positive = ''positive''"
| "sentiment_name Negative = ''negative''"
| "sentiment_name Neutral = ''neutral''"

section \<open>Lemmas\<close>

lemma strip_special_chars: "c \<in> set (strip_special s) \<Longrightarrow> is_word_char c \<or> is_space c"
  by (simp add: strip_special_def)

lemma preprocess_non_string:
  "(\<forall>t. v \<noteq> JStr t) \<Longrightarrow> preprocess_text env v = []"
  by (cases v) (simp_all add: preprocess_text_def)

lemma analyze_sentiment_cases:
  "analyze_sentiment env text = Positive \<longleftrightarrow> text \<noteq> [] \<and> 5 / 100 \<le> polarity env text"
  "analyze_sentiment env text = Negative \<longleftrightarrow> text \<noteq> [] \<and> polarity env text \<le> - 5 / 100"
  by (auto simp: analyze_sentiment_def Let_def)

end
