(* ===== verification/Ledger.thy ===== *)
theory Ledger
  imports Prelude "HOL-Library.AList"
begin

text \<open>
  The learning ledger: \<open>self.learning_history\<close>, a list of dicts
  \<open>{"event": kind, "timestamp": now, ...payload}\<close> appended by \<open>fit\<close> (line 148),
  \<open>get_similar_emails\<close> (line 178), \<open>suggest_template\<close> (line 216) and
  \<open>learn_from_task\<close> (line 252).  \<open>datetime.now().isoformat()\<close> is a \<open>timestamp\<close>
  supplied by the caller.  \<open>event_counts\<close> is the counting loop of
  \<open>get_learning_stats\<close> (lines 273-276): a dict in first-insertion order, kept as an
  association list updated in place (\<open>AList.update\<close>).
\<close>

datatype event =
    Model_training nat
  | Similarity_search string nat
  | Template_suggestion nat
  | Task_learning jval bool

record entry =
  event :: event
  timestamp :: timestamp

fun event_name :: "event \<Rightarrow> string" where
  "event_name (Model_training _) = ''model_training''"
| "event_name (Similarity_search _ _) = ''similarity_search''"
| "event_name (Template_suggestion _) = ''template_suggestion''"
| "event_name (Task_learning _ _) = ''task_learning''"

text \<open>\<open>event_counts.get(k, 0)\<close> and \<open>event_counts[k] = event_counts.get(k, 0) + 1\<close>.\<close>

definition count_of :: "(string \<times> nat) list \<Rightarrow> string \<Rightarrow> nat" where
  "count_of d k = (case map_of d k of None \<Rightarrow> 0 | Some c \<Rightarrow> c)"

definition bump_count :: "(string \<times> nat) list \<Rightarrow> string \<Rightarrow> (string \<times> nat) list" where
  "bump_count d k = AList.update k (count_of d k + 1) d"

definition event_counts :: "entry list \<Rightarrow> (string \<times> nat) list" where
  "event_counts h = fold (\<lambda>e d. bump_count d (event_name (event e))) h []"

section \<open>Counting\<close>

lemma map_of_bump_count:
  "map_of (bump_count d k) = (map_of d)(k \<mapsto> count_of d k + 1)"
  by (simp add: bump_count_def update_conv')

lemma distinct_bump_count: "distinct (map fst d) \<Longrightarrow> distinct (map fst (bump_count d k))"
  by (simp add: bump_count_def distinct_update)

lemma count_of_bump_count: "count_of (bump_count d k) j = count_of d j + (if j = k then 1 else 0)"
  by (simp add: count_of_def map_of_bump_count)

lemma bump_count_pos:
  "\<forall>j c. map_of d j = Some c \<longrightarrow> 0 < c \<Longrightarrow> \<forall>j c. map_of (bump_count d k) j = Some c \<longrightarrow> 0 < c"
  by (simp add: map_of_bump_count)

lemma sum_update:
  "sum_list (map snd (AList.update k v d)) + count_of d k = sum_list (map snd d) + v"
  by (induction d) (auto simp: count_of_def)

lemma sum_bump_count: "sum_list (map snd (bump_count d k)) = sum_list (map snd d) + 1"
  using sum_update [of k "count_of d k + 1" d] by (simp add: bump_count_def)

lemma fold_bump_count:
  assumes "\<forall>j c. map_of d j = Some c \<longrightarrow> 0 < c"
  shows "map_of (fold (\<lambda>e d. bump_count d (event_name (event e))) h d) k =
           (let n = count_of d k + length (filter (\<lambda>e. event_name (event e) = k) h)
            in if n = 0 then None else Some n)"
  using assms
proof (induction h arbitrary: d)
  case Nil
  then show ?case by (cases "map_of d k") (auto simp: count_of_def)
next
  case (Cons e h)
  let ?d' = "bump_count d (event_name (event e))"
  have "\<forall>j c. map_of ?d' j = Some c \<longrightarrow> 0 < c" using Cons.prems by (rule bump_count_pos)
  with Cons.IH [of ?d'] show ?case by (simp add: count_of_bump_count)
qed

text \<open>The dict \<open>event_counts\<close> maps each kind that occurs to its number of entries.\<close>

lemma map_of_event_counts:
  "map_of (event_counts h) k =
     (let n = length (filter (\<lambda>e. event_name (event e) = k) h) in if n = 0 then None else Some n)"
  using fold_bump_count [of "[]" h k] by (simp add: event_counts_def count_of_def)

lemma distinct_event_counts: "distinct (map fst (event_counts h))"
proof -
  have "distinct (map fst (fold (\<lambda>e d. bump_count d (event_name (event e))) h d))"
    if "distinct (map fst d)" for d
    using that by (induction h arbitrary: d) (simp_all add: distinct_bump_count)
  then show ?thesis by (simp add: event_counts_def)
qed

lemma sum_event_counts: "sum_list (map snd (event_counts h)) = length h"
proof -
  have "sum_list (map snd (fold (\<lambda>e d. bump_count d (event_name (event e))) h d)) =
          sum_list (map snd d) + length h" for d
    by (induction h arbitrary: d) (simp_all add: sum_bump_count)
  then show ?thesis by (simp add: event_counts_def)
qed

end
