(* ===== verification/Analyzer.thy ===== *)
theory Analyzer
  imports Vectorizer Ranking Text Ledger
begin

text \<open>
  The state of \<open>EmailAnalyzer\<close> (\<open>src/ml/email_analyzer.py\<close>, lines 32-52) and its
  methods that change it: \<open>fit\<close> (133-154), \<open>get_similar_emails\<close> (156-185),
  \<open>learn_from_task\<close> (228-262), and the reader \<open>get_learning_stats\<close> (264-286).
  A method returns \<open>Inr (result, state')\<close>, or \<open>Inl (exception, state)\<close> with the
  state as it was when the exception was raised (Python keeps the assignments made
  before the raise).  The KMeans estimator is kept as what the rest of the program
  observes of it: its \<open>n_clusters\<close> and the number of rows it was fitted on; its
  centroids (k-means++ seeding, Lloyd iterations) are not modelled.
\<close>

record kmeans =
  n_clusters :: nat
  fit_rows :: "nat option"

definition kmeans_new :: "nat \<Rightarrow> kmeans" where
  "kmeans_new k = \<lparr>n_clusters = k, fit_rows = None\<rparr>"

definition kmeans_fit :: "kmeans \<Rightarrow> matrix \<Rightarrow> py_error + kmeans" where
  "kmeans_fit km X =
     (if n_clusters km = 0 then Inl (ValueError ''n_clusters must be >= 1'')
      else if length X < n_clusters km
      then Inl (ValueError ''n_samples should be >= n_clusters'')
      else Inr (km\<lparr>fit_rows := Some (length X)\<rparr>))"

record analyzer =
  vectorizer :: vectorizer
  model :: "kmeans option"
  email_vectors :: "matrix option"
  emails :: "jval list option"
  learning_history :: "entry list"

type_synonym 'a outcome = "(py_error \<times> analyzer) + ('a \<times> analyzer)"

text \<open>\<open>__init__\<close> when no saved model is loaded.\<close>

definition analyzer_init :: analyzer where
  "analyzer_init =
     \<lparr>vectorizer = vectorizer_init, model = None, email_vectors = None, emails = None,
      learning_history = []\<rparr>"

definition log_event :: "timestamp \<Rightarrow> event \<Rightarrow> analyzer \<Rightarrow> analyzer" where
  "log_event now e a = a\<lparr>learning_history := learning_history a @ [\<lparr>event = e, timestamp = now\<rparr>]\<rparr>"

text \<open>\<open>n_clusters = min(5, n); self.model = KMeans(...); self.model.fit(X)\<close>
  (lines 143-145 and 247-249): the estimator is stored before it is fitted.\<close>

definition refit_clusters :: "nat \<Rightarrow> matrix \<Rightarrow> analyzer \<Rightarrow> unit outcome" where
  "refit_clusters n X a =
     (let km = kmeans_new (min 5 n); a1 = a\<lparr>model := Some km\<rparr>
      in case kmeans_fit km X of
           Inl e \<Rightarrow> Inl (e, a1)
         | Inr km' \<Rightarrow> Inr ((), a1\<lparr>model := Some km'\<rparr>))"

text \<open>Lines 133-154.  \<open>TfidfVectorizer.fit_transform\<close> installs a fresh, unfitted
  \<open>TfidfTransformer\<close> before it counts the vocabulary, so when it raises the vectorizer
  object of the analyzer is left unusable: its next \<open>transform\<close> raises
  \<open>NotFittedError\<close>, which is \<open>fitted = None\<close>.\<close>

definition fit :: "nlp_env \<Rightarrow> timestamp \<Rightarrow> string list \<Rightarrow> analyzer \<Rightarrow> unit outcome" where
  "fit env now docs a =
     (let a1 = a\<lparr>emails := Some (map JStr docs)\<rparr>;
          processed = map (\<lambda>d. preprocess_text env (JStr d)) docs
      in case fit_transform (vectorizer a1) processed of
           Inl e \<Rightarrow> Inl (e, a1\<lparr>vectorizer := (vectorizer a1)\<lparr>fitted := None\<rparr>\<rparr>)
         | Inr (v, X) \<Rightarrow>
             (let a2 = a1\<lparr>vectorizer := v, email_vectors := Some X\<rparr>
              in case (if 5 \<le> length docs then refit_clusters (length docs) X a2 else Inr ((), a2)) of
                   Inl err \<Rightarrow> Inl err
                 | Inr (_, a3) \<Rightarrow> Inr ((), log_event now (Model_training (length docs)) a3)))"

text \<open>The list comprehension of lines 172-175; \<open>self.emails[idx]\<close> may raise.\<close>

fun collect_results :: "jval list \<Rightarrow> real list \<Rightarrow> nat list \<Rightarrow> py_error + (jval \<times> real) list" where
  "collect_results es sims [] = Inr []"
| "collect_results es sims (i # is) =
     (case py_nth es i of
        Inl e \<Rightarrow> Inl e
      | Inr d \<Rightarrow> (case collect_results es sims is of
                   Inl e \<Rightarrow> Inl e
                 | Inr r \<Rightarrow> Inr ((d, sims ! i) # r)))"

definition query_prefix :: "string \<Rightarrow> string" where
  "query_prefix t = take 100 t @ ''...''"

text \<open>The query row \<open>self.vectorizer.transform([self.preprocess_text(email_text)])\<close>.\<close>

abbreviation query_vector :: "nlp_env \<Rightarrow> tfidf_model \<Rightarrow> string \<Rightarrow> vec" where
  "query_vector env m txt \<equiv> tfidf_row m (sk_analyze (preprocess_text env (JStr txt)))"

definition get_similar_emails ::
  "nlp_env \<Rightarrow> timestamp \<Rightarrow> string \<Rightarrow> int \<Rightarrow> analyzer \<Rightarrow> (jval \<times> real) list outcome" where
  "get_similar_emails env now text top_n a =
     (case (email_vectors a, emails a) of
        (Some X, Some es) \<Rightarrow>
          (case transform (vectorizer a) [preprocess_text env (JStr text)] of
             Inl e \<Rightarrow> Inl (e, a)
           | Inr Q \<Rightarrow>
               (let q = hd Q
                in if \<not> list_all (\<lambda>r. length r = length q) X
                   then Inl (ValueError ''Incompatible dimension for X and Y matrices'', a)
                   else (let sims = cosine_similarity q X
                         in case collect_results es sims (top_similar (argsort sims) top_n) of
                              Inl e \<Rightarrow> Inl (e, a)
                            | Inr res \<Rightarrow>
                                Inr (res, log_event now (Similarity_search (query_prefix text)
                                                          (length res)) a))))
      | _ \<Rightarrow> Inr ([], a))"

text \<open>\<open>vstack([X, Y])\<close> of scipy: the column counts must agree.\<close>

definition vstack :: "matrix \<Rightarrow> matrix \<Rightarrow> py_error + matrix" where
  "vstack X Y =
     (if list_all (\<lambda>r. list_all (\<lambda>r'. length r = length r') Y) X then Inr (X @ Y)
      else Inl (ValueError ''blocks have incompatible column dimensions''))"

text \<open>Lines 238-249, after \<open>self.emails.append(...)\<close>; \<open>n\<close> is the new corpus length.\<close>

definition append_vector :: "nlp_env \<Rightarrow> jval \<Rightarrow> nat \<Rightarrow> analyzer \<Rightarrow> unit outcome" where
  "append_vector env msg n a =
     (case email_vectors a of
        None \<Rightarrow> Inr ((), a)
      | Some X \<Rightarrow>
          (case transform (vectorizer a) [preprocess_text env msg] of
             Inl e \<Rightarrow> Inl (e, a)
           | Inr Q \<Rightarrow>
               (case vstack X Q of
                  Inl e \<Rightarrow> Inl (e, a)
                | Inr X' \<Rightarrow>
                    (let a1 = a\<lparr>email_vectors := Some X'\<rparr>
                     in if 5 \<le> n \<and> n mod 5 = 0 then refit_clusters n X' a1 else Inr ((), a1)))))"

definition learn_from_task :: "nlp_env \<Rightarrow> timestamp \<Rightarrow> jval \<Rightarrow> analyzer \<Rightarrow> bool outcome" where
  "learn_from_task env now task a =
     (case task of
        JObj kvs \<Rightarrow>
          (let msg = dict_get kvs ''message'' (JStr []);
               tmpl = dict_get kvs ''template'' (JStr [])
           in case emails a of
                Some es \<Rightarrow>
                  (if py_truthy msg
                   then (let a1 = a\<lparr>emails := Some (es @ [msg])\<rparr>
                         in case append_vector env msg (Suc (length es)) a1 of
                              Inl err \<Rightarrow> Inl err
                            | Inr (_, a2) \<Rightarrow>
                                Inr (True, log_event now
                                  (Task_learning (dict_get kvs ''_id'' (JStr ''unknown''))
                                     (py_truthy tmpl)) a2))
                   else Inr (False, a))
              | None \<Rightarrow> Inr (False, a))
      | _ \<Rightarrow> Inl (AttributeError (py_quote (py_type_name task) @ '' object has no attribute '' @ py_quote ''get''), a))"

datatype stats =
    Stats_none
  | Stats nat "(string \<times> nat) list" bool timestamp nat

definition get_learning_stats :: "analyzer \<Rightarrow> stats" where
  "get_learning_stats a =
     (if learning_history a = [] then Stats_none
      else Stats (length (learning_history a)) (event_counts (learning_history a))
                 (model a \<noteq> None) (timestamp (last (learning_history a)))
                 (case emails a of Some es \<Rightarrow> length es | None \<Rightarrow> 0))"

section \<open>Invariants of the state\<close>

text \<open>
  The vector space is consistent with the corpus: both absent, or one row per document,
  every row of the fitted vocabulary's width and non-negative.
\<close>

definition rows_consistent :: "analyzer \<Rightarrow> bool" where
  "rows_consistent a =
     (case (emails a, email_vectors a) of
        (None, None) \<Rightarrow> True
      | (Some es, Some X) \<Rightarrow>
          length X = length es \<and>
          (case fitted (vectorizer a) of
             None \<Rightarrow> False
           | Some m \<Rightarrow> tfidf_wf m \<and> list_all (\<lambda>r. length r = length (vocabulary m) \<and> nonneg r) X)
      | _ \<Rightarrow> False)"

text \<open>
  The cluster model is at most four documents stale: it was fitted with 5 clusters on
  \<open>r \<ge> 5\<close> rows and no multiple of 5 lies in \<open>(r, rows]\<close>.
\<close>

definition clusters_fresh :: "analyzer \<Rightarrow> bool" where
  "clusters_fresh a =
     (case model a of
        None \<Rightarrow> True
      | Some km \<Rightarrow>
          (case (fit_rows km, email_vectors a) of
             (Some r, Some X) \<Rightarrow>
               n_clusters km = 5 \<and> 5 \<le> r \<and> r \<le> length X
               \<and> list_all (\<lambda>m. m mod 5 \<noteq> 0) [Suc r..<Suc (length X)]
           | _ \<Rightarrow> False))"

text \<open>
  Each row is the vector of its document under the current model: the one normalisation
  of \<open>fit\<close>, \<open>transform\<close> and the incremental append (spec 4.1).
\<close>

definition rows_match :: "nlp_env \<Rightarrow> analyzer \<Rightarrow> bool" where
  "rows_match env a =
     (case (emails a, email_vectors a, fitted (vectorizer a)) of
        (Some es, Some X, Some m) \<Rightarrow> X = map (\<lambda>e. tfidf_row m (sk_analyze (preprocess_text env e))) es
      | _ \<Rightarrow> True)"

section \<open>Behaviour of the methods\<close>

named_theorems analyzer_simps "field equations of the analyzer updates"

lemma log_event_fields [analyzer_simps]:
  "vectorizer (log_event now e a) = vectorizer a" "model (log_event now e a) = model a"
  "email_vectors (log_event now e a) = email_vectors a" "emails (log_event now e a) = emails a"
  "learning_history (log_event now e a) = learning_history a @ [\<lparr>event = e, timestamp = now\<rparr>]"
  by (simp_all add: log_event_def)

lemma refit_clusters_ok:
  assumes "5 \<le> n" and "5 \<le> length X"
  shows "refit_clusters n X a = Inr ((), a\<lparr>model := Some \<lparr>n_clusters = 5, fit_rows = Some (length X)\<rparr>\<rparr>)"
  using assms by (simp add: refit_clusters_def kmeans_new_def kmeans_fit_def)

lemma fit_transform_Inl:
  "fit_transform v texts = Inl e \<longleftrightarrow> tfidf_fit (max_features v) (map sk_analyze texts) = Inl e"
  by (auto simp: fit_transform_def Let_def split: sum.splits)

text \<open>\<open>fit\<close> raises only on an empty vocabulary, after \<open>self.emails\<close> was replaced, and
  leaves the vectorizer unfitted.\<close>

lemma fit_Inl:
  "fit env now docs a = Inl (e, a') \<longleftrightarrow>
     (\<forall>d \<in> set docs. sk_analyze (preprocess_text env (JStr d)) = []) \<and>
     e = ValueError ''empty vocabulary; perhaps the documents only contain stop words'' \<and>
     a' = a\<lparr>emails := Some (map JStr docs), vectorizer := (vectorizer a)\<lparr>fitted := None\<rparr>\<rparr>"
proof (cases "tfidf_fit (max_features (vectorizer a))
                (map (\<lambda>d. sk_analyze (preprocess_text env (JStr d))) docs)")
  case (Inl e0)
  then have "fit env now docs a =
      Inl (e0, a\<lparr>emails := Some (map JStr docs), vectorizer := (vectorizer a)\<lparr>fitted := None\<rparr>\<rparr>)"
    by (simp add: fit_def fit_transform_def comp_def)
  with Inl show ?thesis by (auto simp: tfidf_fit_error)
next
  case (Inr m)
  then have "\<exists>r. fit env now docs a = Inr r"
    by (simp add: fit_def fit_transform_def comp_def refit_clusters_ok Let_def)
  moreover have "\<not> (\<forall>d \<in> set docs. sk_analyze (preprocess_text env (JStr d)) = [])"
  proof
    assume "\<forall>d \<in> set docs. sk_analyze (preprocess_text env (JStr d)) = []"
    then have "\<exists>e. tfidf_fit (max_features (vectorizer a))
                 (map (\<lambda>d. sk_analyze (preprocess_text env (JStr d))) docs) = Inl e"
      by (simp add: tfidf_fit_error)
    with Inr show False by simp
  qed
  ultimately show ?thesis by auto
qed

lemma fit_Inr:
  assumes "fit env now docs a = Inr (u, a')"
  shows "\<exists>m. fitted (vectorizer a') = Some m \<and> tfidf_wf m
           \<and> emails a' = Some (map JStr docs)
           \<and> email_vectors a' =
                Some (map (\<lambda>d. tfidf_row m (sk_analyze (preprocess_text env (JStr d)))) docs)
           \<and> model a' = (if 5 \<le> length docs then Some \<lparr>n_clusters = 5, fit_rows = Some (length docs)\<rparr>
                         else model a)
           \<and> learning_history a' =
                learning_history a @ [\<lparr>event = Model_training (length docs), timestamp = now\<rparr>]"
proof -
  obtain v X where ft: "fit_transform (vectorizer a) (map (\<lambda>d. preprocess_text env (JStr d)) docs) = Inr (v, X)"
    using assms by (auto simp: fit_def Let_def split: sum.splits)
  obtain m where m: "fitted v = Some m" "tfidf_wf m"
    "X = map (\<lambda>d. tfidf_row m (sk_analyze (preprocess_text env (JStr d)))) docs"
    using fit_transform_result [OF ft] by auto
  have "length X = length docs" using m(3) by simp
  then show ?thesis
    using assms ft m
    by (auto simp: fit_def Let_def refit_clusters_ok analyzer_simps split: if_splits)
qed

lemma fit_Inr_model:
  assumes "fit env now docs a = Inr (u, a')"
  shows "\<exists>m. tfidf_fit (max_features (vectorizer a))
                (map (\<lambda>d. sk_analyze (preprocess_text env (JStr d))) docs) = Inr m
             \<and> fitted (vectorizer a') = Some m"
  using assms
  by (auto simp: fit_def fit_transform_def Let_def comp_def refit_clusters_def log_event_def
      split: sum.splits if_splits)

lemma collect_results_ok:
  "list_all (\<lambda>i. i < length es) idx \<Longrightarrow>
     collect_results es sims idx = Inr (map (\<lambda>i. (es ! i, sims ! i)) idx)"
  by (induction idx) simp_all

lemma collect_results_error:
  "\<not> list_all (\<lambda>i. i < length es) idx \<Longrightarrow> collect_results es sims idx = Inl IndexError"
  by (induction idx) (auto simp: py_nth_def split: sum.splits)

lemma rows_consistent_SomeD:
  assumes "rows_consistent a" and "emails a = Some es"
  shows "\<exists>m X. fitted (vectorizer a) = Some m \<and> email_vectors a = Some X \<and> length X = length es
           \<and> tfidf_wf m \<and> list_all (\<lambda>r. length r = length (vocabulary m) \<and> nonneg r) X"
  using assms by (auto simp: rows_consistent_def split: option.splits)

text \<open>Before any fit: no result and no ledger entry.\<close>

lemma get_similar_emails_unfitted:
  "emails a = None \<or> email_vectors a = None \<Longrightarrow> get_similar_emails env now text top_n a = Inr ([], a)"
  by (auto simp: get_similar_emails_def split: option.splits)

lemma get_similar_emails_consistent:
  assumes "rows_consistent a" and "emails a = Some es"
    and "fitted (vectorizer a) = Some m" and "email_vectors a = Some X"
  shows "get_similar_emails env now text top_n a =
           (let sims = cosine_similarity (query_vector env m text) X;
                res = map (\<lambda>i. (es ! i, sims ! i)) (top_similar (argsort sims) top_n)
            in Inr (res, log_event now (Similarity_search (query_prefix text) (length res)) a))"
proof -
  have X: "length X = length es" "tfidf_wf m"
    "list_all (\<lambda>r. length r = length (vocabulary m) \<and> nonneg r) X"
    using rows_consistent_SomeD [OF assms(1,2)] assms(3,4) by auto
  let ?q = "tfidf_row m (sk_analyze (preprocess_text env (JStr text)))"
  let ?sims = "cosine_similarity ?q X"
  have lq: "length ?q = length (vocabulary m)"
    using X(2) by (simp add: length_tfidf_row tfidf_wf_def)
  then have dims: "list_all (\<lambda>r. length r = length ?q) X"
    using X(3) by (simp add: list_all_iff)
  have "list_all (\<lambda>i. i < length es) (top_similar (argsort ?sims) top_n)"
    using top_similar_valid [OF argsort_is_argsort [of ?sims], of top_n] X(1)
    by (auto simp: list_all_iff)
  then show ?thesis
    using assms(2-4) dims
    by (simp add: get_similar_emails_def transform_def collect_results_ok Let_def)
qed

text \<open>The same, read off a returned result, with the facts on the similarities it is built from.\<close>

lemma get_similar_emails_result:
  assumes "rows_consistent a" and "emails a = Some es"
    and "fitted (vectorizer a) = Some m" and "email_vectors a = Some X"
    and "get_similar_emails env now text top_n a = Inr (res, a')"
  shows "res = map (\<lambda>i. (es ! i, cosine_similarity (query_vector env m text) X ! i))
                 (top_similar (argsort (cosine_similarity (query_vector env m text) X)) top_n)"
    and "a' = log_event now (Similarity_search (query_prefix text) (length res)) a"
    and "length (cosine_similarity (query_vector env m text) X) = length es"
    and "list_all (\<lambda>s. 0 \<le> s \<and> s \<le> 1) (cosine_similarity (query_vector env m text) X)"
proof -
  have X: "length X = length es" "tfidf_wf m"
    "list_all (\<lambda>r. length r = length (vocabulary m) \<and> nonneg r) X"
    using rows_consistent_SomeD [OF assms(1,2)] assms(3,4) by auto
  show "res = map (\<lambda>i. (es ! i, cosine_similarity (query_vector env m text) X ! i))
                 (top_similar (argsort (cosine_similarity (query_vector env m text) X)) top_n)"
    and "a' = log_event now (Similarity_search (query_prefix text) (length res)) a"
    using assms(5) get_similar_emails_consistent [OF assms(1-4)] by (auto simp: Let_def)
  show "length (cosine_similarity (query_vector env m text) X) = length es" using X(1) by simp
  have "list_all nonneg X" using X(3) by (simp add: list_all_iff)
  then show "list_all (\<lambda>s. 0 \<le> s \<and> s \<le> 1) (cosine_similarity (query_vector env m text) X)"
    using cosine_similarity_bounds nonneg_tfidf_row [OF X(2)] by blast
qed

text \<open>The number of results for any \<open>top_n\<close>: the slice window of \<open>top_similar\<close>.\<close>

lemma get_similar_emails_count:
  assumes "rows_consistent a" and "emails a = Some es"
    and "get_similar_emails env now text k a = Inr (res, a')"
  shows "length res = (if 0 \<le> k then min (nat k) (length es - 1)
                       else length es - 1 - nat (- k - 1))"
proof -
  obtain m X where mX: "fitted (vectorizer a) = Some m" "email_vectors a = Some X"
    using rows_consistent_SomeD [OF assms(1,2)] by blast
  let ?s = "cosine_similarity (query_vector env m text) X"
  note r = get_similar_emails_result [OF assms(1,2) mX assms(3)]
  have lp: "length (argsort ?s) = length es" using r(3) by (simp add: argsort_def)
  show ?thesis
  proof (cases "0 \<le> k")
    case True
    show ?thesis
    proof (cases "es = []")
      case False
      then have "argsort ?s \<noteq> []" using lp by auto
      then show ?thesis using length_top_similar [OF True] lp True by (simp add: r(1))
    qed (use lp True in \<open>simp add: r(1)\<close>)
  next
    case False
    then show ?thesis using length_top_similar_neg [of k] lp by (simp add: r(1))
  qed
qed

text \<open>The branches of \<open>learn_from_task\<close> that learn nothing, and the one that raises.\<close>

lemma learn_from_task_not_object:
  "(\<forall>kvs. task \<noteq> JObj kvs) \<Longrightarrow> learn_from_task env now task a =
     Inl (AttributeError (py_quote (py_type_name task) @ '' object has no attribute '' @ py_quote ''get''), a)"
  by (cases task) (simp_all add: learn_from_task_def)

lemma learn_from_task_no_corpus:
  "emails a = None \<Longrightarrow> learn_from_task env now (JObj kvs) a = Inr (False, a)"
  by (simp add: learn_from_task_def)

lemma learn_from_task_no_message:
  "\<not> py_truthy (dict_get kvs ''message'' (JStr [])) \<Longrightarrow>
     learn_from_task env now (JObj kvs) a = Inr (False, a)"
  by (simp add: learn_from_task_def Let_def split: option.splits)

text \<open>On a consistent state the message is appended with its row; the clusters are refitted
  exactly when the corpus length becomes a positive multiple of 5.\<close>

lemma learn_from_task_consistent:
  assumes "rows_consistent a" and "emails a = Some es"
    and "fitted (vectorizer a) = Some m" and "email_vectors a = Some X"
    and "py_truthy (dict_get kvs ''message'' (JStr []))"
  shows "learn_from_task env now (JObj kvs) a =
           (let msg = dict_get kvs ''message'' (JStr []); n = Suc (length es)
            in Inr (True, log_event now
                 (Task_learning (dict_get kvs ''_id'' (JStr ''unknown''))
                    (py_truthy (dict_get kvs ''template'' (JStr []))))
                 (a\<lparr>emails := Some (es @ [msg]),
                    email_vectors := Some (X @ [tfidf_row m (sk_analyze (preprocess_text env msg))]),
                    model := (if 5 \<le> n \<and> n mod 5 = 0
                              then Some \<lparr>n_clusters = 5, fit_rows = Some n\<rparr> else model a)\<rparr>)))"
proof -
  have X: "length X = length es" "tfidf_wf m"
    "list_all (\<lambda>r. length r = length (vocabulary m) \<and> nonneg r) X"
    using rows_consistent_SomeD [OF assms(1,2)] assms(3,4) by auto
  let ?msg = "dict_get kvs ''message'' (JStr [])"
  let ?r = "tfidf_row m (sk_analyze (preprocess_text env ?msg))"
  have "length ?r = length (vocabulary m)"
    using X(2) by (simp add: length_tfidf_row tfidf_wf_def)
  then have vs: "vstack X [?r] = Inr (X @ [?r])"
    using X(3) by (simp add: vstack_def list_all_iff)
  show ?thesis
    using X(1) assms(2-5) vs
    by (simp add: learn_from_task_def append_vector_def transform_def Let_def refit_clusters_ok)
qed

section \<open>The invariants are kept\<close>

lemma rows_consistent_fields:
  assumes "emails a' = emails a" and "email_vectors a' = email_vectors a"
    and "vectorizer a' = vectorizer a"
  shows "rows_consistent a' = rows_consistent a"
  unfolding rows_consistent_def assms by (rule refl)

lemma clusters_fresh_fields:
  assumes "model a' = model a" and "email_vectors a' = email_vectors a"
  shows "clusters_fresh a' = clusters_fresh a"
  unfolding clusters_fresh_def assms by (rule refl)

lemma fit_rows_consistent:
  "fit env now docs a = Inr (u, a') \<Longrightarrow> rows_consistent a'"
  by (drule fit_Inr) (auto simp: rows_consistent_def list_all_iff length_tfidf_row tfidf_wf_def
      nonneg_tfidf_row)

lemma fit_clusters_fresh:
  "fit env now docs a = Inr (u, a') \<Longrightarrow> model a = None \<Longrightarrow> clusters_fresh a'"
  by (drule fit_Inr) (auto simp: clusters_fresh_def)

lemma get_similar_emails_state:
  assumes "rows_consistent a" and "get_similar_emails env now text top_n a = Inr (res, a')"
  shows "a' = a \<or> a' = log_event now (Similarity_search (query_prefix text) (length res)) a"
proof (cases "emails a")
  case None
  with assms show ?thesis by (simp add: get_similar_emails_unfitted)
next
  case (Some es)
  with assms(1) obtain m X where "fitted (vectorizer a) = Some m" "email_vectors a = Some X"
    using rows_consistent_SomeD by blast
  with assms Some show ?thesis by (auto simp: get_similar_emails_consistent Let_def)
qed

lemma learn_from_task_invariants:
  assumes "rows_consistent a" and "clusters_fresh a"
    and "learn_from_task env now task a = Inr (r, a')"
  shows "rows_consistent a' \<and> clusters_fresh a'"
proof (cases "\<exists>kvs es. task = JObj kvs \<and> emails a = Some es
                 \<and> py_truthy (dict_get kvs ''message'' (JStr []))")
  case True
  then obtain kvs es where t: "task = JObj kvs" "emails a = Some es"
    "py_truthy (dict_get kvs ''message'' (JStr []))" by blast
  obtain X m where X: "fitted (vectorizer a) = Some m" "email_vectors a = Some X"
    "length X = length es" "tfidf_wf m"
    "list_all (\<lambda>r. length r = length (vocabulary m) \<and> nonneg r) X"
    using rows_consistent_SomeD [OF assms(1) t(2)] by blast
  let ?n = "Suc (length es)"
  let ?r = "tfidf_row m (sk_analyze (preprocess_text env (dict_get kvs ''message'' (JStr []))))"
  from learn_from_task_consistent [OF assms(1) t(2) X(1,2) t(3)] assms(3) t(1)
  have a': "emails a' = Some (es @ [dict_get kvs ''message'' (JStr [])])"
    "email_vectors a' = Some (X @ [?r])" "vectorizer a' = vectorizer a"
    "model a' = (if 5 \<le> ?n \<and> ?n mod 5 = 0 then Some \<lparr>n_clusters = 5, fit_rows = Some ?n\<rparr>
                 else model a)"
    by (auto simp: Let_def analyzer_simps)
  have rows: "rows_consistent a'"
    using a' X by (simp add: rows_consistent_def length_tfidf_row tfidf_wf_def nonneg_tfidf_row)
  have "clusters_fresh a'"
  proof (cases "5 \<le> ?n \<and> ?n mod 5 = 0")
    case True
    with a' X(3) show ?thesis by (simp add: clusters_fresh_def)
  next
    case False
    with a' X(2,3) assms(2) show ?thesis
      by (auto simp: clusters_fresh_def split: option.splits)
  qed
  with rows show ?thesis by simp
next
  case False
  have "a' = a"
  proof (cases "\<exists>kvs. task = JObj kvs")
    case True
    then obtain kvs where t: "task = JObj kvs" by blast
    show ?thesis
    proof (cases "emails a")
      case None
      with assms(3) t show ?thesis by (simp add: learn_from_task_no_corpus)
    next
      case (Some es)
      with False t have "\<not> py_truthy (dict_get kvs ''message'' (JStr []))" by blast
      with assms(3) t show ?thesis by (simp add: learn_from_task_no_message)
    qed
  next
    case False
    with assms(3) show ?thesis by (simp add: learn_from_task_not_object)
  qed
  with assms(1,2) show ?thesis by simp
qed

text \<open>The outcomes of \<open>learn_from_task\<close> on a consistent state: nothing changes, or the
  message and its row are appended.\<close>

lemma learn_from_task_Inr_cases:
  assumes "rows_consistent a" and "learn_from_task env now task a = Inr (r, a')"
  shows "a' = a \<or> (\<exists>kvs es m X. task = JObj kvs \<and> emails a = Some es
            \<and> fitted (vectorizer a) = Some m \<and> email_vectors a = Some X
            \<and> py_truthy (dict_get kvs ''message'' (JStr []))
            \<and> vectorizer a' = vectorizer a
            \<and> emails a' = Some (es @ [dict_get kvs ''message'' (JStr [])])
            \<and> email_vectors a' =
                 Some (X @ [tfidf_row m (sk_analyze (preprocess_text env (dict_get kvs ''message'' (JStr []))))]))"
proof (cases "\<exists>kvs es. task = JObj kvs \<and> emails a = Some es
                 \<and> py_truthy (dict_get kvs ''message'' (JStr []))")
  case True
  then obtain kvs es where t: "task = JObj kvs" "emails a = Some es"
    "py_truthy (dict_get kvs ''message'' (JStr []))" by blast
  obtain m X where mX: "fitted (vectorizer a) = Some m" "email_vectors a = Some X"
    using rows_consistent_SomeD [OF assms(1) t(2)] by blast
  from learn_from_task_consistent [OF assms(1) t(2) mX t(3)] assms(2) t(1)
  have "vectorizer a' = vectorizer a \<and> emails a' = Some (es @ [dict_get kvs ''message'' (JStr [])])
        \<and> email_vectors a' =
             Some (X @ [tfidf_row m (sk_analyze (preprocess_text env (dict_get kvs ''message'' (JStr []))))])"
    by (auto simp: Let_def analyzer_simps)
  with t mX show ?thesis by blast
next
  case False
  show ?thesis
  proof (cases task)
    case (JObj kvs)
    with False assms(2) show ?thesis
      by (cases "emails a") (auto simp: learn_from_task_no_corpus learn_from_task_no_message)
  qed (use assms(2) learn_from_task_not_object in auto)
qed

lemma learn_from_task_rows_match:
  assumes "rows_consistent a" and "rows_match env a"
    and "learn_from_task env now task a = Inr (r, a')"
  shows "rows_match env a'"
  using learn_from_task_Inr_cases [OF assms(1,3)]
proof (elim disjE exE conjE)
  assume "a' = a"
  with assms(2) show ?thesis by simp
next
  fix kvs es m X
  assume h: "emails a = Some es" "fitted (vectorizer a) = Some m" "email_vectors a = Some X"
    "vectorizer a' = vectorizer a" "emails a' = Some (es @ [dict_get kvs ''message'' (JStr [])])"
    "email_vectors a' =
       Some (X @ [tfidf_row m (sk_analyze (preprocess_text env (dict_get kvs ''message'' (JStr []))))])"
  with assms(2) show ?thesis by (simp add: rows_match_def)
qed

lemma fit_rows_match: "fit env now docs a = Inr (u, a') \<Longrightarrow> rows_match env a'"
  by (drule fit_Inr) (auto simp: rows_match_def)

lemma rows_match_fields:
  assumes "emails a' = emails a" and "email_vectors a' = email_vectors a"
    and "vectorizer a' = vectorizer a"
  shows "rows_match env a' = rows_match env a"
  unfolding rows_match_def assms by (rule refl)

section \<open>The ledger is appended to, never rewritten\<close>

lemma refit_clusters_history:
  "refit_clusters n X a = Inr (u, a') \<Longrightarrow> learning_history a' = learning_history a"
  by (auto simp: refit_clusters_def Let_def split: sum.splits)

lemma append_vector_history:
  "append_vector env msg n a = Inr (u, a') \<Longrightarrow> learning_history a' = learning_history a"
  by (auto simp: append_vector_def Let_def dest!: refit_clusters_history
      split: option.splits sum.splits if_splits)

lemma learn_from_task_history:
  assumes "learn_from_task env now task a = Inr (r, a')"
  shows "learning_history a' = learning_history a
         \<or> (\<exists>e. learning_history a' = learning_history a @ [\<lparr>event = e, timestamp = now\<rparr>])"
  using assms
  by (auto simp: learn_from_task_def Let_def log_event_def dest!: append_vector_history
      split: jval.splits option.splits sum.splits if_splits)

lemma get_similar_emails_history:
  assumes "get_similar_emails env now text top_n a = Inr (res, a')"
  shows "a' = a \<or> a' = log_event now (Similarity_search (query_prefix text) (length res)) a"
  using assms
  by (auto simp: get_similar_emails_def Let_def split: option.splits sum.splits if_splits)

text \<open>No multiple of 5 in \<open>(r, n]\<close> means \<open>n < r + 5\<close>: the staleness window.\<close>

lemma multiple_of_5_between:
  assumes "r + 5 \<le> n"
  shows "\<exists>m \<in> set [Suc r..<Suc n]. m mod 5 = 0"
proof -
  let ?m = "5 * (r div 5) + 5"
  have "r = 5 * (r div 5) + r mod 5" by simp
  moreover have "r mod 5 < 5" by simp
  ultimately have "Suc r \<le> ?m" and "?m < Suc n" using assms by linarith+
  then have mem: "?m \<in> set [Suc r..<Suc n]" by (simp only: set_upt atLeastLessThan_iff)
  have "?m mod 5 = 0" by simp
  from this mem show ?thesis by (rule bexI)
qed

lemma clusters_fresh_window:
  assumes "clusters_fresh a" and "model a = Some km"
  shows "\<exists>r X. fit_rows km = Some r \<and> email_vectors a = Some X \<and> n_clusters km = 5
           \<and> 5 \<le> r \<and> r \<le> length X \<and> length X < r + 5"
proof -
  obtain r X where rX: "fit_rows km = Some r" "email_vectors a = Some X" "n_clusters km = 5"
    "5 \<le> r" "r \<le> length X" and none: "list_all (\<lambda>m. m mod 5 \<noteq> 0) [Suc r..<Suc (length X)]"
    using assms by (auto simp: clusters_fresh_def split: option.splits)
  have "length X < r + 5"
  proof (rule ccontr)
    assume "\<not> length X < r + 5"
    then have "\<exists>m \<in> set [Suc r..<Suc (length X)]. m mod 5 = 0"
      by (intro multiple_of_5_between) simp
    with none show False by (force simp: list_all_iff)
  qed
  with rX show ?thesis by blast
qed

end
