(* ===== verification/Regex.thy ===== *)
theory Regex
  imports Prelude
begin

text \<open>
  The part of Python's \<open>re\<close> that the six entity patterns of \<open>extract_entities\<close>
  (\<open>src/ml/email_analyzer.py\<close>, lines 106-111) use, as a backtracking matcher in
  continuation-passing style: a character class repeated between \<open>lo\<close> and \<open>hi\<close> times,
  greedy (\<open>\d{1,2}\<close>, \<open>[a-z]+\<close>, \<open>s?\<close>, a literal), the word boundary \<open>\b\<close>, a negative
  lookbehind, sequence, alternation and an optional group.  \<open>mt r b s k\<close> matches \<open>r\<close>
  at the front of the rest \<open>s\<close> of the text (\<open>b\<close> is the text before it, reversed) and
  passes each way of doing so, in the order the \<open>re\<close> engine tries them, to the
  continuation \<open>k\<close>, keeping the first that succeeds.  \<open>findall_rx\<close> is \<open>re.findall\<close> for a
  pattern without groups: the leftmost match, then the search goes on after it.
  Character classes are on ASCII text, as \<open>\w\<close> and \<open>\s\<close> in \<open>Prelude\<close>.
\<close>

datatype rx =
    RCls "char \<Rightarrow> bool" nat "nat option"
  | RBound
  | RNotBehind "string \<Rightarrow> bool"
  | RSeq rx rx
  | RAlt rx rx
  | ROpt rx

text \<open>The first of the candidates, in order, for which \<open>f\<close> succeeds.\<close>

fun first_some :: "('b \<Rightarrow> 'a option) \<Rightarrow> 'b list \<Rightarrow> 'a option" where
  "first_some f [] = None"
| "first_some f (x # xs) = (case f x of None \<Rightarrow> first_some f xs | r \<Rightarrow> r)"

text \<open>\<open>\b\<close>: exactly one of the characters around the position is a word character.\<close>

definition word_boundary :: "string \<Rightarrow> string \<Rightarrow> bool" where
  "word_boundary b s =
     ((b \<noteq> [] \<and> is_word_char (hd b)) \<noteq> (s \<noteq> [] \<and> is_word_char (hd s)))"

primrec mt :: "rx \<Rightarrow> string \<Rightarrow> string \<Rightarrow> (string \<Rightarrow> string \<Rightarrow> 'a option) \<Rightarrow> 'a option" where
  "mt (RCls P lo hi) b s k =
     (let avail = length (takeWhile P s);
          top = (case hi of None \<Rightarrow> avail | Some h \<Rightarrow> min h avail)
      in first_some (\<lambda>n. k (rev (take n s) @ b) (drop n s)) (rev [lo..<Suc top]))"
| "mt RBound b s k = (if word_boundary b s then k b s else None)"
| "mt (RNotBehind P) b s k = (if P b then None else k b s)"
| "mt (RSeq r1 r2) b s k = mt r1 b s (\<lambda>b' s'. mt r2 b' s' k)"
| "mt (RAlt r1 r2) b s k = (case mt r1 b s k of None \<Rightarrow> mt r2 b s k | x \<Rightarrow> x)"
| "mt (ROpt r) b s k = (case mt r b s k of None \<Rightarrow> k b s | x \<Rightarrow> x)"

text \<open>The rest of the text after the leftmost-first match of \<open>r\<close> at the front of \<open>s\<close>.\<close>

definition match_rest :: "rx \<Rightarrow> string \<Rightarrow> string \<Rightarrow> string option" where
  "match_rest r b s = mt r b s (\<lambda>b' s'. Some s')"

text \<open>\<open>re.findall\<close>: after an empty match the search moves on by one character.\<close>

function findall_rx :: "rx \<Rightarrow> string \<Rightarrow> string \<Rightarrow> string list" where
  "findall_rx r b s =
     (let nxt = (case s of [] \<Rightarrow> [] | c # cs \<Rightarrow> findall_rx r (c # b) cs) in
      case match_rest r b s of
        Some s' \<Rightarrow>
          let n = length s - length s' in
          if 0 < n then take n s # findall_rx r (rev (take n s) @ b) (drop n s)
          else [] # nxt
      | None \<Rightarrow> nxt)"
  by pat_completeness auto

termination findall_rx
  by (relation "measure (\<lambda>(r, b, s). length s)") auto

declare findall_rx.simps [simp del]

section \<open>Building patterns\<close>

definition lit :: "char \<Rightarrow> rx" where
  "lit c = RCls (\<lambda>x. x = c) 1 (Some 1)"

fun rseq :: "rx list \<Rightarrow> rx" where
  "rseq [] = RCls (\<lambda>_. False) 0 (Some 0)"
| "rseq [r] = r"
| "rseq (r # rs) = RSeq r (rseq rs)"

definition lits :: "string \<Rightarrow> rx" where
  "lits w = rseq (map lit w)"

definition is_upper :: "char \<Rightarrow> bool" where
  "is_upper c = (let n = of_char c :: nat in 65 \<le> n \<and> n \<le> 90)"

definition is_lower :: "char \<Rightarrow> bool" where
  "is_lower c = (let n = of_char c :: nat in 97 \<le> n \<and> n \<le> 122)"

text \<open>The six patterns of \<open>extract_entities\<close> (lines 106-111), in the source's order.\<close>

definition rx_digits :: "nat \<Rightarrow> nat option \<Rightarrow> rx" where
  "rx_digits lo hi = RCls is_digit lo hi"

text \<open>\<open>\b\d{1,2}[/-]\d{1,2}[/-]\d{2,4}\b\<close>\<close>

definition dates_rx :: rx where
  "dates_rx = rseq [RBound, rx_digits 1 (Some 2), RCls (\<lambda>c. c = CHR ''/'' \<or> c = CHR ''-'') 1 (Some 1),
                    rx_digits 1 (Some 2), RCls (\<lambda>c. c = CHR ''/'' \<or> c = CHR ''-'') 1 (Some 1),
                    rx_digits 2 (Some 4), RBound]"

text \<open>\<open>\b\d{1,2}:\d{2}\s*(?:AM|PM|am|pm)?\b\<close>\<close>

definition times_rx :: rx where
  "times_rx = rseq [RBound, rx_digits 1 (Some 2), lit CHR '':'', rx_digits 2 (Some 2),
                    RCls is_space 0 None,
                    ROpt (RAlt (lits ''AM'') (RAlt (lits ''PM'') (RAlt (lits ''am'') (lits ''pm'')))),
                    RBound]"

definition email_local_char :: "char \<Rightarrow> bool" where
  "email_local_char c = (is_upper c \<or> is_lower c \<or> is_digit c \<or> c \<in> set ''._%+-'')"

definition email_domain_char :: "char \<Rightarrow> bool" where
  "email_domain_char c = (is_upper c \<or> is_lower c \<or> is_digit c \<or> c \<in> set ''.-'')"

text \<open>\<open>[a-zA-Z0-9._%+-]+@[a-zA-Z0-9.-]+\.[a-zA-Z]{2,}\<close>\<close>

definition emails_rx :: rx where
  "emails_rx = rseq [RCls email_local_char 1 None, lit CHR ''@'', RCls email_domain_char 1 None,
                     lit CHR ''.'', RCls (\<lambda>c. is_upper c \<or> is_lower c) 2 None]"

text \<open>\<open>\b\d{3}[-.]?\d{3}[-.]?\d{4}\b\<close>\<close>

definition phone_rx :: rx where
  "phone_rx = rseq [RBound, rx_digits 3 (Some 3), RCls (\<lambda>c. c = CHR ''-'' \<or> c = CHR ''.'') 0 (Some 1),
                    rx_digits 3 (Some 3), RCls (\<lambda>c. c = CHR ''-'' \<or> c = CHR ''.'') 0 (Some 1),
                    rx_digits 4 (Some 4), RBound]"

text \<open>\<open>https?://[^\s]+\<close>\<close>

definition urls_rx :: rx where
  "urls_rx = rseq [lits ''http'', RCls (\<lambda>c. c = CHR ''s'') 0 (Some 1), lits ''://'',
                   RCls (\<lambda>c. \<not> is_space c) 1 None]"

text \<open>\<open>(?<!^)(?<!\.\s)\b[A-Z][a-z]+\b\<close>: not at the start of the text, not right after a
  full stop and one whitespace character.\<close>

definition names_rx :: rx where
  "names_rx = rseq [RNotBehind (\<lambda>b. b = []),
                    RNotBehind (\<lambda>b. case b of c1 # c2 # _ \<Rightarrow> is_space c1 \<and> c2 = CHR ''.'' | _ \<Rightarrow> False),
                    RBound, RCls is_upper 1 (Some 1), RCls is_lower 1 None, RBound]"

text \<open>The dictionary \<open>entities\<close> built by the regular expressions, keys in insertion order.\<close>

definition python_entities :: "string \<Rightarrow> (string \<times> string list) list" where
  "python_entities text =
     [(''dates'', findall_rx dates_rx [] text), (''times'', findall_rx times_rx [] text),
      (''emails'', findall_rx emails_rx [] text), (''phone_numbers'', findall_rx phone_rx [] text),
      (''urls'', findall_rx urls_rx [] text), (''names'', findall_rx names_rx [] text)]"

text \<open>The strings a pattern can consume, ignoring the conditions on the context that
  \<open>\b\<close> and the lookbehinds add: the language the patterns of spec 4.5 describe.\<close>

inductive in_lang :: "rx \<Rightarrow> string \<Rightarrow> bool" where
  cls: "\<lbrakk>lo \<le> length u; case hi of None \<Rightarrow> True | Some h \<Rightarrow> length u \<le> h; \<forall>c \<in> set u. P c\<rbrakk>
        \<Longrightarrow> in_lang (RCls P lo hi) u"
| bound: "in_lang RBound []"
| not_behind: "in_lang (RNotBehind P) []"
| seq: "\<lbrakk>in_lang r1 u1; in_lang r2 u2\<rbrakk> \<Longrightarrow> in_lang (RSeq r1 r2) (u1 @ u2)"
| alt_l: "in_lang r1 u \<Longrightarrow> in_lang (RAlt r1 r2) u"
| alt_r: "in_lang r2 u \<Longrightarrow> in_lang (RAlt r1 r2) u"
| opt_some: "in_lang r u \<Longrightarrow> in_lang (ROpt r) u"
| opt_none: "in_lang (ROpt r) []"

inductive_cases in_lang_clsE: "in_lang (RCls P lo hi) u"
inductive_cases in_lang_boundE: "in_lang RBound u"
inductive_cases in_lang_not_behindE: "in_lang (RNotBehind P) u"
inductive_cases in_lang_seqE: "in_lang (RSeq r1 r2) u"

section \<open>Lemmas\<close>

lemma first_some_Some:
  "first_some f xs = Some x \<Longrightarrow> \<exists>n \<in> set xs. f n = Some x"
  by (induction xs) (auto split: option.splits)

lemma take_takeWhile_all:
  "n \<le> length (takeWhile P s) \<Longrightarrow> \<forall>c \<in> set (take n s). P c"
  by (metis set_takeWhileD takeWhile_eq_take set_take_subset_set_take subsetD)

text \<open>Soundness of the matcher: the continuation is called on the rest of the text after a
  prefix in the pattern's language, with that prefix added to the text before.\<close>

lemma mt_in_lang:
  "mt r b s k = Some x \<Longrightarrow> \<exists>u s'. s = u @ s' \<and> in_lang r u \<and> k (rev u @ b) s' = Some x"
proof (induction r arbitrary: b s k)
  case (RCls P lo hi)
  define top where "top = (case hi of None \<Rightarrow> length (takeWhile P s)
                                    | Some h \<Rightarrow> min h (length (takeWhile P s)))"
  have "first_some (\<lambda>n. k (rev (take n s) @ b) (drop n s)) (rev [lo..<Suc top]) = Some x"
    using RCls by (simp add: Let_def top_def)
  then obtain n where n: "n \<in> set (rev [lo..<Suc top])" "k (rev (take n s) @ b) (drop n s) = Some x"
    by (blast dest: first_some_Some)
  then have le: "lo \<le> n" "n \<le> top" by auto
  moreover have "top \<le> length (takeWhile P s)"
    by (auto simp: top_def split: option.splits)
  moreover then have "top \<le> length s" using length_takeWhile_le [of P s] by linarith
  ultimately have "in_lang (RCls P lo hi) (take n s)"
    by (intro in_lang.cls) (auto simp: top_def take_takeWhile_all split: option.splits)
  with n(2) show ?case by (intro exI [of _ "take n s"] exI [of _ "drop n s"]) simp
next
  case RBound
  then show ?case by (intro exI [of _ "[]"] exI [of _ s]) (simp add: in_lang.bound split: if_splits)
next
  case (RNotBehind P)
  then show ?case by (intro exI [of _ "[]"] exI [of _ s]) (simp add: in_lang.not_behind split: if_splits)
next
  case (RSeq r1 r2)
  from RSeq.IH(1) [of b s "\<lambda>b' s'. mt r2 b' s' k"] RSeq.prems
  obtain u1 s1 where 1: "s = u1 @ s1" "in_lang r1 u1" "mt r2 (rev u1 @ b) s1 k = Some x" by auto
  from RSeq.IH(2) [OF 1(3)] obtain u2 s2
    where "s1 = u2 @ s2" "in_lang r2 u2" "k (rev u2 @ rev u1 @ b) s2 = Some x"
    by auto
  with 1 show ?case by (intro exI [of _ "u1 @ u2"] exI [of _ s2]) (simp add: in_lang.seq)
next
  case (RAlt r1 r2)
  show ?case
  proof (cases "mt r1 b s k")
    case None
    with RAlt.prems RAlt.IH(2) [of b s k] show ?thesis by (auto intro: in_lang.alt_r)
  next
    case (Some y)
    with RAlt.prems RAlt.IH(1) [of b s k] show ?thesis by (auto intro: in_lang.alt_l)
  qed
next
  case (ROpt r)
  show ?case
  proof (cases "mt r b s k")
    case None
    with ROpt.prems have "k b s = Some x" by simp
    then show ?thesis by (intro exI [of _ "[]"] exI [of _ s]) (simp add: in_lang.opt_none)
  next
    case (Some y)
    with ROpt.prems ROpt.IH [of b s k] show ?thesis by (auto intro: in_lang.opt_some)
  qed
qed

lemma match_rest_lang:
  "match_rest r b s = Some s' \<Longrightarrow>
     s = take (length s - length s') s @ s' \<and> in_lang r (take (length s - length s') s)"
  unfolding match_rest_def by (drule mt_in_lang) auto

lemma sublist_Cons_tl: "sublist v cs \<Longrightarrow> sublist v (c # cs)"
  by (simp add: sublist_Cons_right)

text \<open>Every string \<open>findall_rx\<close> returns is a substring of the text searched and a word of the
  pattern's language.\<close>

lemma findall_rx_sound:
  "v \<in> set (findall_rx r b s) \<Longrightarrow> sublist v s \<and> in_lang r v"
proof (induction r b s rule: findall_rx.induct)
  case (1 r b s)
  define nxt where "nxt = (case s of [] \<Rightarrow> [] | c # cs \<Rightarrow> findall_rx r (c # b) cs)"
  have nx: "v \<in> set nxt \<Longrightarrow> sublist v s \<and> in_lang r v"
    using "1.IH"(1) by (cases s) (auto simp: nxt_def intro: sublist_Cons_tl)
  show ?case
  proof (cases "match_rest r b s")
    case None
    with "1.prems" nx show ?thesis by (subst (asm) findall_rx.simps) (simp add: nxt_def)
  next
    case (Some s')
    define n where "n = length s - length s'"
    have lang: "in_lang r (take n s)" using match_rest_lang [OF Some] by (simp add: n_def)
    show ?thesis
    proof (cases "0 < n")
      case True
      have "sublist (take n s) s" by (rule prefix_imp_sublist) (rule take_is_prefix)
      moreover have "sublist (drop n s) s" by (rule suffix_imp_sublist) (rule suffix_drop)
      moreover have "v = take n s \<or> v \<in> set (findall_rx r (rev (take n s) @ b) (drop n s))"
        using "1.prems" Some True by (subst (asm) findall_rx.simps) (simp add: n_def Let_def)
      ultimately show ?thesis using "1.IH"(2) [OF refl Some n_def True] lang
        by (auto intro: sublist_order.order_trans)
    next
      case False
      then have "v = [] \<or> v \<in> set nxt"
        using "1.prems" Some by (subst (asm) findall_rx.simps) (simp add: n_def nxt_def Let_def)
      with nx lang False show ?thesis by auto
    qed
  qed
qed

lemma in_lang_RCls_Some [simp]:
  "in_lang (RCls P lo (Some h)) u \<longleftrightarrow> lo \<le> length u \<and> length u \<le> h \<and> (\<forall>c \<in> set u. P c)"
  by (auto intro: in_lang.cls elim: in_lang_clsE)

lemma in_lang_single: "in_lang (RCls P 1 (Some 1)) u \<Longrightarrow> \<exists>c. u = [c] \<and> P c"
  by (cases u) auto

text \<open>What the date pattern accepts is the \<open>D[/-]D[/-]D\<close> shape of spec 4.5: one or two
  digits, a slash or dash, one or two digits, a slash or dash, two to four digits.\<close>

lemma dates_lang:
  assumes "in_lang dates_rx v"
  shows "\<exists>d1 c1 d2 c2 d3. v = d1 @ c1 # d2 @ c2 # d3
           \<and> 1 \<le> length d1 \<and> length d1 \<le> 2 \<and> 1 \<le> length d2 \<and> length d2 \<le> 2
           \<and> 2 \<le> length d3 \<and> length d3 \<le> 4 \<and> (\<forall>c \<in> set (d1 @ d2 @ d3). is_digit c)
           \<and> c1 \<in> {CHR ''/'', CHR ''-''} \<and> c2 \<in> {CHR ''/'', CHR ''-''}"
proof -
  from assms obtain d1 u1 d2 u2 d3 where
    v: "v = d1 @ u1 @ d2 @ u2 @ d3" and
    d: "in_lang (rx_digits 1 (Some 2)) d1" "in_lang (rx_digits 1 (Some 2)) d2"
       "in_lang (rx_digits 2 (Some 4)) d3" and
    u: "in_lang (RCls (\<lambda>c. c = CHR ''/'' \<or> c = CHR ''-'') 1 (Some 1)) u1"
       "in_lang (RCls (\<lambda>c. c = CHR ''/'' \<or> c = CHR ''-'') 1 (Some 1)) u2"
    unfolding dates_rx_def rseq.simps
    by (elim in_lang_seqE in_lang_boundE) (hypsubst, simp only: append_Nil append_Nil2)
  obtain c1 where c1: "u1 = [c1]" "c1 \<in> {CHR ''/'', CHR ''-''}"
    using in_lang_single [OF u(1)] by auto
  obtain c2 where c2: "u2 = [c2]" "c2 \<in> {CHR ''/'', CHR ''-''}"
    using in_lang_single [OF u(2)] by auto
  from d have "1 \<le> length d1 \<and> length d1 \<le> 2 \<and> 1 \<le> length d2 \<and> length d2 \<le> 2
           \<and> 2 \<le> length d3 \<and> length d3 \<le> 4 \<and> (\<forall>c \<in> set (d1 @ d2 @ d3). is_digit c)"
    by (simp add: rx_digits_def ball_Un)
  moreover have "v = d1 @ c1 # d2 @ c2 # d3" using v c1(1) c2(1) by simp
  ultimately show ?thesis using c1(2) c2(2)
    by (intro exI [of _ d1] exI [of _ c1] exI [of _ d2] exI [of _ c2] exI [of _ d3]) simp
qed

text \<open>What the phone pattern accepts: ten digits in groups of three, three and four, each
  gap holding at most one dash or dot.\<close>

lemma phone_lang:
  assumes "in_lang phone_rx v"
  shows "\<exists>a s1 b s2 c. v = a @ s1 @ b @ s2 @ c
           \<and> length a = 3 \<and> length b = 3 \<and> length c = 4 \<and> (\<forall>x \<in> set (a @ b @ c). is_digit x)
           \<and> length s1 \<le> 1 \<and> length s2 \<le> 1 \<and> (\<forall>x \<in> set (s1 @ s2). x = CHR ''-'' \<or> x = CHR ''.'')"
proof -
  from assms obtain a s1 b s2 c where
    v: "v = a @ s1 @ b @ s2 @ c" and
    d: "in_lang (rx_digits 3 (Some 3)) a" "in_lang (rx_digits 3 (Some 3)) b"
       "in_lang (rx_digits 4 (Some 4)) c" and
    s: "in_lang (RCls (\<lambda>c. c = CHR ''-'' \<or> c = CHR ''.'') 0 (Some 1)) s1"
       "in_lang (RCls (\<lambda>c. c = CHR ''-'' \<or> c = CHR ''.'') 0 (Some 1)) s2"
    unfolding phone_rx_def rseq.simps
    by (elim in_lang_seqE in_lang_boundE) (hypsubst, simp only: append_Nil append_Nil2)
  from d s have "length a = 3 \<and> length b = 3 \<and> length c = 4 \<and> (\<forall>x \<in> set (a @ b @ c). is_digit x)
           \<and> length s1 \<le> 1 \<and> length s2 \<le> 1 \<and> (\<forall>x \<in> set (s1 @ s2). x = CHR ''-'' \<or> x = CHR ''.'')"
    by (simp add: rx_digits_def ball_Un)
  with v show ?thesis
    by (intro exI [of _ a] exI [of _ s1] exI [of _ b] exI [of _ s2] exI [of _ c]) simp
qed

text \<open>Each value \<open>python_entities\<close> returns is a substring of the text, and a date or phone
  number is a word of its pattern's language.\<close>

lemma python_entities_sound:
  assumes "(k, vs) \<in> set (python_entities txt)" and "v \<in> set vs"
  shows "sublist v txt \<and> (k = ''dates'' \<longrightarrow> in_lang dates_rx v)
           \<and> (k = ''phone_numbers'' \<longrightarrow> in_lang phone_rx v)"
proof -
  from assms(1) obtain r where r: "vs = findall_rx r [] txt"
    "k = ''dates'' \<Longrightarrow> r = dates_rx" "k = ''phone_numbers'' \<Longrightarrow> r = phone_rx"
    by (auto simp: python_entities_def)
  with assms(2) findall_rx_sound [of v r "[]" "txt"] show ?thesis by auto
qed

end
