(* ===== verification/Template.thy ===== *)
theory Template
  imports Analyzer Regex
begin

text \<open>
  The template synthesizer: \<open>extract_variables\<close> (lines 68-84), the merge of regular
  expression and spaCy entities in \<open>extract_entities\<close> (lines 102-131) and
  \<open>suggest_template\<close> (lines 187-226).  \<open>re.findall\<close> of the five placeholder patterns
  \<open>open([\w\s]+)close\<close> is \<open>findall_delim\<close>: the body is a maximal run of word or space
  characters (no close delimiter is such a character, so backtracking never finds a
  shorter body).  The regular-expression half of \<open>extract_entities\<close> is the
  \<open>entity_regexes\<close> argument, so that the lemmas hold for any such extractor; the six
  patterns of lines 106-111 are \<open>Regex.python_entities\<close>, which the claims and
  witnesses pass for it.
  \<open>list(set(xs))\<close> is \<open>remdups xs\<close>: Python leaves the order unspecified, and the lemmas
  only use the set of values.
\<close>

definition is_var_char :: "char \<Rightarrow> bool" where
  "is_var_char c = (is_word_char c \<or> is_space c)"

function findall_delim :: "string \<Rightarrow> string \<Rightarrow> string \<Rightarrow> string list" where
  "findall_delim op cl s =
     (case s of
        [] \<Rightarrow> []
      | c # cs \<Rightarrow>
          (let body = takeWhile is_var_char (drop (length op) s);
               rest = dropWhile is_var_char (drop (length op) s)
           in if prefix op s \<and> body \<noteq> [] \<and> prefix cl rest
              then body # findall_delim op cl (drop (length cl) rest)
              else findall_delim op cl cs))"
  by pat_completeness auto

lemma length_dropWhile_less:
  "takeWhile P xs \<noteq> [] \<Longrightarrow> length (dropWhile P xs) < length xs"
  by (cases xs) (auto simp: le_imp_less_Suc length_dropWhile_le split: if_splits)

termination findall_delim
  by (relation "measure (\<lambda>(op, cl, s). length s)")
    (auto dest!: length_dropWhile_less [of is_var_char])

declare findall_delim.simps [simp del]

definition extract_variables :: "string \<Rightarrow> string list" where
  "extract_variables text =
     remdups (map py_strip (findall_delim ''{{'' ''}}'' text @ findall_delim ''{'' ''}'' text
                            @ findall_delim ''%'' ''%'' text @ findall_delim ''$'' [] text
                            @ findall_delim ''<'' ''>'' text))"

section \<open>Entities\<close>

text \<open>spaCy entities grouped by lower-cased label, labels in order of first appearance.\<close>

definition group_labels :: "(string \<times> string) list \<Rightarrow> (string \<times> string list) list" where
  "group_labels ents =
     fold (\<lambda>(l, t) d. case map_of d l of
                        None \<Rightarrow> d @ [(l, [t])]
                      | Some vs \<Rightarrow> AList.update l (vs @ [t]) d)
          (map (\<lambda>(l, t). (py_lower l, t)) ents) []"

definition merge_groups ::
  "(string \<times> string list) list \<Rightarrow> (string \<times> string list) list \<Rightarrow> (string \<times> string list) list" where
  "merge_groups ents sp =
     fold (\<lambda>(l, vs) d. case map_of d l of
                         Some ws \<Rightarrow> AList.update l (ws @ vs) d
                       | None \<Rightarrow> d @ [(l, vs)])
          sp ents"

definition extract_entities ::
  "nlp_env \<Rightarrow> (string \<Rightarrow> (string \<times> string list) list) \<Rightarrow> string \<Rightarrow> (string \<times> string list) list" where
  "extract_entities env entity_regexes text =
     (case ner env of
        None \<Rightarrow> entity_regexes text
      | Some nlp \<Rightarrow> map (\<lambda>(k, vs). (k, remdups vs))
                      (merge_groups (entity_regexes text) (group_labels (nlp text))))"

section \<open>Templates\<close>

text \<open>\<open>str(n)\<close> for a natural number.\<close>

fun digits_of :: "nat \<Rightarrow> string" where
  "digits_of n = (if n < 10 then [char_of (48 + n)] else digits_of (n div 10) @ [char_of (48 + n mod 10)])"

declare digits_of.simps [simp del]

text \<open>\<open>entity_type[:-1] if entity_type.endswith('s') else entity_type\<close>.\<close>

definition var_base :: "string \<Rightarrow> string" where
  "var_base t = (if t \<noteq> [] \<and> last t = CHR ''s'' then butlast t else t)"

text \<open>
  The replacement text of line 212 is \<open>f"{{{{{{var_name}}}}}}"\<close>: in an f-string each
  doubled brace is one literal brace, so the text is the constant \<open>{{{var_name}}}\<close>,
  whatever the variable is called.
\<close>

definition placeholder :: string where
  "placeholder = ''{{{var_name}}}''"

text \<open>The inner loop of lines 209-213 over the values of one category (\<open>i\<close> counts from 0).\<close>

fun template_values ::
  "string \<Rightarrow> nat \<Rightarrow> string list \<Rightarrow> string \<times> (string \<times> string) list
     \<Rightarrow> string \<times> (string \<times> string) list" where
  "template_values base i [] acc = acc"
| "template_values base i (v # vs) (t, d) =
     (if py_contains v t
      then template_values base (Suc i) vs
             (replace_first v placeholder t, AList.update (base @ digits_of (Suc i)) v d)
      else template_values base (Suc i) vs (t, d))"

definition template_entities ::
  "(string \<times> string list) list \<Rightarrow> string \<Rightarrow> string \<times> (string \<times> string) list" where
  "template_entities ents text =
     fold (\<lambda>(ty, vs) acc. template_values (var_base ty) 0 vs acc) ents (text, [])"

datatype template_vars = Var_names "string list" | Var_map "(string \<times> string) list"

record template_result =
  template :: string
  variables :: template_vars
  message :: string

definition suggest_template ::
  "nlp_env \<Rightarrow> (string \<Rightarrow> (string \<times> string list) list) \<Rightarrow> timestamp \<Rightarrow> string \<Rightarrow> analyzer
     \<Rightarrow> template_result \<times> analyzer" where
  "suggest_template env entity_regexes now text a =
     (let vars = extract_variables text
      in if vars \<noteq> []
         then (\<lparr>template = text, variables = Var_names vars,
                message = ''Template already contains variables.''\<rparr>, a)
         else (let (t, d) = template_entities (extract_entities env entity_regexes text) text
               in (\<lparr>template = t, variables = Var_map d,
                    message = ''Generated template with suggested variables.''\<rparr>,
                   log_event now (Template_suggestion (length d)) a)))"

section \<open>Lemmas\<close>

text \<open>\<open>re.findall\<close> finds every delimited word: scanning never jumps over an occurrence of
  \<open>op x cl\<close>, because no match can end inside \<open>op\<close> (its characters are not variable
  characters and do not occur in \<open>cl\<close>).\<close>

lemma findall_delim_Cons:
  "findall_delim op cl (c # cs) =
     (let body = takeWhile is_var_char (drop (length op) (c # cs));
          rest = dropWhile is_var_char (drop (length op) (c # cs))
      in if prefix op (c # cs) \<and> body \<noteq> [] \<and> prefix cl rest
         then body # findall_delim op cl (drop (length cl) rest)
         else findall_delim op cl cs)"
  by (simp add: findall_delim.simps)

text \<open>A delimiter whose first character is not in the text finds nothing.\<close>

lemma findall_delim_absent:
  "d \<notin> set s \<Longrightarrow> findall_delim (d # ds) cl s = []"
proof (induction s)
  case (Cons c cs)
  then show ?case by (simp add: findall_delim_Cons Let_def)
qed (simp add: findall_delim.simps)

text \<open>A one-character opener without a closer, followed by a body character, always
  matches: \<open>\$([\w\s]+)\<close> of line 77 finds something in every text with such a \<open>$\<close>.\<close>

lemma findall_delim_open_found:
  "is_var_char c \<Longrightarrow> findall_delim [x] [] (u @ x # c # r) \<noteq> []"
proof (induction u)
  case Nil
  then show ?case by (simp add: findall_delim_Cons Let_def)
next
  case (Cons y u)
  then show ?case by (simp add: findall_delim_Cons Let_def)
qed

lemma findall_delim_mem:
  assumes op: "op \<noteq> []" "list_all (\<lambda>c. \<not> is_var_char c) op"
    and x: "x \<noteq> []" "list_all is_var_char x"
    and cl: "cl \<noteq> []" "\<not> is_var_char (hd cl)" "hd op \<notin> set cl"
  shows "x \<in> set (findall_delim op cl (u @ op @ x @ cl @ w))"
proof (induction u rule: length_induct)
  case (1 u)
  let ?v = "op @ x @ cl @ w"
  have hv: "\<not> is_var_char (hd ?v)" "?v \<noteq> []" using op by (auto simp: neq_Nil_conv)
  show ?case
  proof (cases u)
    case Nil
    obtain c0 cs0 where c0: "cl = c0 # cs0" using cl(1) by (cases cl) auto
    have tw: "takeWhile is_var_char (x @ cl @ w) = x"
      and dw: "dropWhile is_var_char (x @ cl @ w) = cl @ w"
      using x cl(2) by (simp_all add: c0 list_all_iff)
    obtain c cs where cs: "?v = c # cs" using hv by (cases ?v) auto
    have "findall_delim op cl ?v = x # findall_delim op cl w"
      using findall_delim_Cons [of op cl c cs] tw dw x unfolding cs [symmetric] by (simp add: Let_def)
    then show ?thesis using Nil by simp
  next
    case (Cons c u')
    let ?s = "u @ ?v"
    let ?D = "drop (length op) ?s"
    let ?body = "takeWhile is_var_char ?D"
    let ?rest = "dropWhile is_var_char ?D"
    have eq: "findall_delim op cl ?s =
                (if prefix op ?s \<and> ?body \<noteq> [] \<and> prefix cl ?rest
                 then ?body # findall_delim op cl (drop (length cl) ?rest)
                 else findall_delim op cl (u' @ ?v))"
      using findall_delim_Cons [of op cl c "u' @ ?v"] by (simp add: Cons Let_def)
    show ?thesis
    proof (cases "prefix op ?s \<and> ?body \<noteq> [] \<and> prefix cl ?rest")
      case False
      have "findall_delim op cl ?s = findall_delim op cl (u' @ ?v)"
        using eq by (simp only: if_not_P [OF False])
      then show ?thesis using "1.IH" Cons by simp
    next
      case True
      have le: "length op \<le> length u"
      proof (rule ccontr)
        assume "\<not> length op \<le> length u"
        then have D: "?D = drop (length op - length u) op @ x @ cl @ w" by simp
        obtain d ds where d: "drop (length op - length u) op = d # ds"
          using Cons \<open>\<not> length op \<le> length u\<close> by (cases "drop (length op - length u) op") auto
        then have "\<not> is_var_char d" using op(2) by (metis in_set_dropD list.set_intros(1) list_all_iff)
        then have "?body = []" unfolding D d by simp
        with True show False by simp
      qed
      let ?r0 = "dropWhile is_var_char (drop (length op) u)"
      have D: "?D = drop (length op) u @ ?v" using le by simp
      have rest: "?rest = ?r0 @ ?v" unfolding D by (rule takeWhile_dropWhile_stop(2) [where P = is_var_char, OF hv])
      have body: "?body = takeWhile is_var_char (drop (length op) u)"
        unfolding D by (rule takeWhile_dropWhile_stop(1) [where P = is_var_char, OF hv])
      have "\<not> length ?r0 < length cl"
        using prefix_overlap_hd [of cl ?r0 ?v] True rest hv(2) cl(3) op(1) by auto
      then have dr: "drop (length cl) ?rest = drop (length cl) ?r0 @ ?v" unfolding rest by simp
      have l1: "length ?r0 \<le> length u - length op"
        using length_dropWhile_le [of is_var_char "drop (length op) u"] by simp
      have pos: "0 < length op" "0 < length u" using op(1) Cons by simp_all
      have short: "length (drop (length cl) ?r0) < length u"
        using l1 pos by (simp only: length_drop)
      have "findall_delim op cl ?s = ?body # findall_delim op cl (drop (length cl) ?rest)"
        using eq by (simp only: if_P [OF True])
      then show ?thesis using "1.IH" short dr by simp
    qed
  qed
qed

lemma extract_variables_mem:
  assumes "x \<noteq> []" and "list_all is_word_char x"
  shows "x \<in> set (extract_variables (u @ ''{{'' @ x @ ''}}'' @ w))"
proof -
  have "list_all is_var_char x" using assms(2) by (simp add: list_all_iff is_var_char_def)
  then have "x \<in> set (findall_delim ''{{'' ''}}'' (u @ ''{{'' @ x @ ''}}'' @ w))"
    using findall_delim_mem [of "''{{''" x "''}}''" u w] assms(1)
    by (simp add: is_var_char_def is_word_char_def is_space_def)
  then have "py_strip x \<in> set (map py_strip (findall_delim ''{{'' ''}}'' (u @ ''{{'' @ x @ ''}}'' @ w)))"
    unfolding set_map by (rule imageI)
  then show ?thesis using py_strip_word [OF assms(2)] by (simp add: extract_variables_def)
qed

text \<open>Whatever keys are recorded, the text only ever changes by first-occurrence replacements
  with the constant \<open>placeholder\<close>, of values of the categories.\<close>

lemma template_values_text:
  "\<exists>ws. fst (template_values base i vs acc) = fold (\<lambda>w t. replace_first w placeholder t) ws (fst acc)
        \<and> set ws \<subseteq> set vs"
proof (induction vs arbitrary: i acc)
  case Nil
  then show ?case by (intro exI [of _ "[]"]) simp
next
  case (Cons v vs)
  obtain t d where acc: "acc = (t, d)" by fastforce
  show ?case
  proof (cases "py_contains v t")
    case True
    obtain ws where "fst (template_values base (Suc i) vs
                       (replace_first v placeholder t, AList.update (base @ digits_of (Suc i)) v d)) =
                     fold (\<lambda>w t. replace_first w placeholder t) ws (replace_first v placeholder t)"
      "set ws \<subseteq> set vs" using Cons.IH by fastforce
    with True acc show ?thesis by (intro exI [of _ "v # ws"]) auto
  next
    case False
    obtain ws where "fst (template_values base (Suc i) vs (t, d)) =
                     fold (\<lambda>w t. replace_first w placeholder t) ws t" "set ws \<subseteq> set vs"
      using Cons.IH by fastforce
    with False acc show ?thesis by (intro exI [of _ ws]) auto
  qed
qed

lemma template_entities_text:
  "\<exists>ws. fst (template_entities ents text) = fold (\<lambda>w t. replace_first w placeholder t) ws text
        \<and> set ws \<subseteq> (\<Union>(ty, vs) \<in> set ents. set vs)"
proof -
  have "\<exists>ws. fst (fold (\<lambda>(ty, vs) acc. template_values (var_base ty) 0 vs acc) ents acc) =
              fold (\<lambda>w t. replace_first w placeholder t) ws (fst acc)
            \<and> set ws \<subseteq> (\<Union>(ty, vs) \<in> set ents. set vs)" for acc
  proof (induction ents arbitrary: acc)
    case Nil
    then show ?case by (intro exI [of _ "[]"]) simp
  next
    case (Cons e ents)
    obtain ty vs where e: "e = (ty, vs)" by fastforce
    obtain ws1 where 1: "fst (template_values (var_base ty) 0 vs acc) =
                           fold (\<lambda>w t. replace_first w placeholder t) ws1 (fst acc)" "set ws1 \<subseteq> set vs"
      using template_values_text by blast
    obtain ws2 where 2: "fst (fold (\<lambda>(ty, vs) acc. template_values (var_base ty) 0 vs acc) ents
                                (template_values (var_base ty) 0 vs acc)) =
                         fold (\<lambda>w t. replace_first w placeholder t) ws2
                           (fst (template_values (var_base ty) 0 vs acc))"
      "set ws2 \<subseteq> (\<Union>(ty, vs) \<in> set ents. set vs)" using Cons.IH by blast
    show ?case using 1 2 e by (intro exI [of _ "ws1 @ ws2"]) auto
  qed
  from this [of "(text, [])"] show ?thesis by (simp add: template_entities_def)
qed

lemma template_values_distinct:
  "distinct (map fst (snd acc)) \<Longrightarrow> distinct (map fst (snd (template_values base i vs acc)))"
proof (induction base i vs acc rule: template_values.induct)
  case (2 base i v vs t d)
  then show ?case by (simp add: distinct_update)
qed simp

lemma template_entities_distinct: "distinct (map fst (snd (template_entities ents text)))"
proof -
  have "distinct (map fst (snd (fold (\<lambda>(ty, vs) acc. template_values (var_base ty) 0 vs acc) ents acc)))"
    if "distinct (map fst (snd acc))" for acc
    using that
  proof (induction ents arbitrary: acc)
    case (Cons e ents)
    obtain ty vs where e: "e = (ty, vs)" by fastforce
    have "distinct (map fst (snd (template_values (var_base ty) 0 vs acc)))"
      using Cons.prems by (rule template_values_distinct)
    then show ?case using Cons.IH e by simp
  qed simp
  then show ?thesis by (simp add: template_entities_def)
qed

lemma map_fst_update_present:
  "map_of d l = Some w \<Longrightarrow> map fst (AList.update l v d) = map fst d"
  by (induction d) auto

text \<open>Merging spaCy groups keeps the regular-expression categories first, in their order.\<close>

lemma merge_groups_keys: "prefix (map fst ents) (map fst (merge_groups ents sp))"
proof -
  define f :: "string \<times> string list \<Rightarrow> (string \<times> string list) list \<Rightarrow> (string \<times> string list) list"
    where "f = (\<lambda>(l, vs) d. case map_of d l of
                         Some ws \<Rightarrow> AList.update l (ws @ vs) d
                       | None \<Rightarrow> d @ [(l, vs)])"
  have step: "prefix (map fst d) (map fst (f g d))" for g d
    by (cases g) (auto simp: f_def map_fst_update_present split: option.splits)
  have "prefix (map fst d) (map fst (fold f sp d))" for d
  proof (induction sp arbitrary: d)
    case (Cons g sp)
    from step [of d g] Cons.IH [of "f g d"] show ?case by (auto intro: prefix_order.order_trans)
  qed simp
  then show ?thesis by (simp add: merge_groups_def f_def)
qed

lemma extract_entities_keys:
  "prefix (map fst (entity_regexes text)) (map fst (extract_entities env entity_regexes text))"
  using merge_groups_keys [of "entity_regexes text"]
  by (simp add: extract_entities_def comp_def case_prod_beta' split: option.splits)

text \<open>Without placeholders, \<open>suggest_template\<close> logs one suggestion counting the variables.\<close>

lemma suggest_template_logs:
  "extract_variables text = [] \<Longrightarrow>
     snd (suggest_template env rx now text a) =
       log_event now (Template_suggestion (length (snd (template_entities (extract_entities env rx text) text)))) a"
  by (simp add: suggest_template_def split: prod.splits)

section \<open>Variable names\<close>

lemma length_digits_of: "digits_of n \<noteq> []"
  by (subst digits_of.simps) simp

lemma digits_of_1: "digits_of 1 = ''1''"
  by code_simp

lemma digits_of_Suc_ne_1: "0 < j \<Longrightarrow> digits_of (Suc j) \<noteq> ''1''"
proof (cases "Suc j < 10")
  case True
  assume j: "0 < j"
  show ?thesis
  proof
    assume "digits_of (Suc j) = ''1''"
    then have "(char_of (49 + j :: nat) :: char) = CHR ''1''"
      using True by (subst (asm) digits_of.simps) simp
    then have "(of_char (char_of (49 + j :: nat) :: char) :: nat) = of_char CHR ''1''" by simp
    then show False using True j by (simp add: of_char_of)
  qed
next
  case False
  then show ?thesis using length_digits_of [of "Suc j div 10"] by (subst digits_of.simps) auto
qed

text \<open>A variable keeps its value while the categories processed later name other variables.\<close>

lemma template_values_keep:
  "(\<forall>j \<ge> i. base @ digits_of (Suc j) \<noteq> k) \<Longrightarrow>
     map_of (snd (template_values base i vs (t, d))) k = map_of d k"
proof (induction vs arbitrary: i t d)
  case (Cons v vs)
  have "\<forall>j \<ge> Suc i. base @ digits_of (Suc j) \<noteq> k" using Cons.prems by auto
  note IH = Cons.IH [OF this]
  show ?case using IH Cons.prems by (auto simp: update_conv')
qed simp

lemma template_entities_keep:
  "(\<forall>(ty, vs) \<in> set ents. \<forall>j. var_base ty @ digits_of (Suc j) \<noteq> k) \<Longrightarrow>
     map_of (snd (fold (\<lambda>(ty, vs) acc. template_values (var_base ty) 0 vs acc) ents acc)) k
       = map_of (snd acc) k"
proof (induction ents arbitrary: acc)
  case (Cons g ents)
  obtain ty vs where g: "g = (ty, vs)" by fastforce
  obtain t d where acc: "acc = (t, d)" by fastforce
  have "map_of (snd (template_values (var_base ty) 0 vs (t, d))) k = map_of d k"
    using Cons.prems g by (intro template_values_keep) auto
  then show ?case using Cons g acc by simp
qed simp

text \<open>The first value of a leading \<open>dates\<close> category, when it is in the text, is \<open>date1\<close>,
  unless a later category also names a \<open>date1\<close>.\<close>

lemma template_entities_first_date:
  assumes "py_contains e txt"
    and "\<forall>(ty, vs) \<in> set rest. \<forall>j. var_base ty @ digits_of (Suc j) \<noteq> ''date1''"
  shows "map_of (snd (template_entities ((''dates'', e # es) # rest) txt)) ''date1'' = Some e"
proof -
  have "template_values ''date'' 0 (e # es) (txt, []) =
          template_values ''date'' 1 es (replace_first e placeholder txt, [(''date1'', e)])"
    using assms(1) digits_of_1 by simp
  moreover have "map_of (snd (template_values ''date'' 1 es (replace_first e placeholder txt,
                   [(''date1'', e)]))) ''date1'' = Some e"
    using template_values_keep [of 1 "''date''" "''date1''"] digits_of_Suc_ne_1 by simp
  ultimately show ?thesis
    using template_entities_keep [OF assms(2)]
    by (simp add: template_entities_def var_base_def split: prod.splits)
qed

text \<open>With the source's patterns: a date the regular expressions find is in the text, and
  no other regex category names a \<open>date1\<close>.\<close>

lemma found_date_in_text:
  "d \<in> set (findall_rx dates_rx [] txt) \<Longrightarrow> py_contains d txt"
  using python_entities_sound [of "''dates''" "findall_rx dates_rx [] txt" "txt" d]
  by (simp add: python_entities_def py_contains_iff_sublist)

lemma python_entities_first_date:
  assumes "findall_rx dates_rx [] txt = d # ds"
  shows "map_of (snd (template_entities (python_entities txt) txt)) ''date1'' = Some d"
proof -
  have "py_contains d txt" using found_date_in_text [of d "txt"] assms by simp
  then show ?thesis using template_entities_first_date [of d "txt"]
    by (simp add: python_entities_def assms var_base_def)
qed

lemma python_entities_first_date_dedup:
  assumes "findall_rx dates_rx [] txt \<noteq> []"
  shows "\<exists>e \<in> set (findall_rx dates_rx [] txt).
           map_of (snd (template_entities (map (\<lambda>(k, vs). (k, remdups vs)) (python_entities txt))
                          txt)) ''date1'' = Some e"
proof -
  obtain e es where e: "remdups (findall_rx dates_rx [] txt) = e # es"
    using assms by (cases "remdups (findall_rx dates_rx [] txt)") auto
  then have "e \<in> set (findall_rx dates_rx [] txt)" by (metis list.set_intros(1) set_remdups)
  moreover then have "py_contains e txt" by (rule found_date_in_text)
  ultimately show ?thesis using template_entities_first_date [of e "txt"]
    by (auto simp: python_entities_def e var_base_def)
qed

end
