(* ===== verification/Machine.thy ===== *)
theory Machine
  imports Template
begin

text \<open>
  The analyzer as a state machine.  \<open>reachable\<close> holds for the states a process of
  \<open>src/ml/email_analyzer_api.py\<close> can bring an analyzer to: it starts unfitted
  (\<open>EmailAnalyzer(model_path)\<close> with no saved model), is fitted only while it has no
  cluster model (\<open>if analyzer.model is None: analyzer.fit(sample_emails)\<close>), and then
  runs any sequence of the methods that change state, each completing without an
  exception (an exception ends the process).  The invariants of \<open>Analyzer\<close> hold in
  every reachable state, by rule induction.
\<close>

inductive analyzer_step ::
  "nlp_env \<Rightarrow> (string \<Rightarrow> (string \<times> string list) list) \<Rightarrow> analyzer \<Rightarrow> analyzer \<Rightarrow> bool"
  for env :: nlp_env and rx :: "string \<Rightarrow> (string \<times> string list) list" where
  fit: "model a = None \<Longrightarrow> fit env now docs a = Inr (u, a') \<Longrightarrow> analyzer_step env rx a a'"
| similar: "get_similar_emails env now q k a = Inr (res, a') \<Longrightarrow> analyzer_step env rx a a'"
| learn: "learn_from_task env now task a = Inr (b, a') \<Longrightarrow> analyzer_step env rx a a'"
| template: "suggest_template env rx now q a = (r, a') \<Longrightarrow> analyzer_step env rx a a'"

inductive reachable :: "nlp_env \<Rightarrow> (string \<Rightarrow> (string \<times> string list) list) \<Rightarrow> analyzer \<Rightarrow> bool"
  for env :: nlp_env and rx :: "string \<Rightarrow> (string \<times> string list) list" where
  init: "reachable env rx analyzer_init"
| step: "reachable env rx a \<Longrightarrow> analyzer_step env rx a a' \<Longrightarrow> reachable env rx a'"

text \<open>Successive \<open>--learn\<close> runs: each run loads what the previous one saved (the
  round trip of the persistence layer), so together they apply \<open>learn_from_task\<close> to the
  tasks in order; the states after each task, or \<open>None\<close> when one raises.\<close>

fun learn_trace :: "nlp_env \<Rightarrow> timestamp \<Rightarrow> jval list \<Rightarrow> analyzer \<Rightarrow> analyzer list option" where
  "learn_trace env now [] a = Some []"
| "learn_trace env now (t # ts) a =
     (case learn_from_task env now t a of
        Inl _ \<Rightarrow> None
      | Inr (_, a') \<Rightarrow> map_option (Cons a') (learn_trace env now ts a'))"

section \<open>Invariants\<close>

lemma init_invariants: "rows_consistent analyzer_init \<and> clusters_fresh analyzer_init"
  by (simp add: analyzer_init_def rows_consistent_def clusters_fresh_def)

lemma suggest_template_state:
  "suggest_template env rx now text a = (r, a') \<Longrightarrow>
     a' = a \<or> (\<exists>n. a' = log_event now (Template_suggestion n) a)"
  by (auto simp: suggest_template_def Let_def split: if_splits prod.splits)

lemma log_event_invariants:
  "rows_consistent (log_event now e a) = rows_consistent a"
  "clusters_fresh (log_event now e a) = clusters_fresh a"
   by (rule rows_consistent_fields clusters_fresh_fields; simp add: analyzer_simps)+

lemma step_invariants:
  "analyzer_step env rx a a' \<Longrightarrow> rows_consistent a \<and> clusters_fresh a \<Longrightarrow>
     rows_consistent a' \<and> clusters_fresh a'"
proof (induction rule: analyzer_step.induct)
  case (fit a now docs u a')
  then show ?case using fit_rows_consistent fit_clusters_fresh by blast
next
  case (similar now q k a res a')
  then show ?case using get_similar_emails_state [of a env now q k res a']
    by (auto simp: log_event_invariants)
next
  case (learn now task a b a')
  then show ?case using learn_from_task_invariants by blast
next
  case (template now q a r a')
  then show ?case using suggest_template_state [of env rx now q a r a']
    by (auto simp: log_event_invariants)
qed

lemma reachable_invariants_raw:
  "reachable env rx a \<Longrightarrow> rows_consistent a \<and> clusters_fresh a"
  by (induction rule: reachable.induct) (simp_all add: init_invariants step_invariants)

lemma rows_match_log_event: "rows_match env (log_event now e a) = rows_match env a"
  by (rule rows_match_fields) (simp_all add: analyzer_simps)

lemma step_rows_match:
  assumes "analyzer_step env rx a a'" and "rows_consistent a" and "rows_match env a"
  shows "rows_match env a'"
  using assms
proof (induction rule: analyzer_step.induct)
  case (fit a now docs u a')
  from fit.hyps(2) show ?case by (rule fit_rows_match)
next
  case (similar now q k a res a')
  then show ?case using get_similar_emails_history [OF similar(1)]
    by (auto simp: rows_match_log_event)
next
  case (learn now task a b a')
  then show ?case using learn_from_task_rows_match by blast
next
  case (template now q a r a')
  then show ?case using suggest_template_state [OF template(1)]
    by (auto simp: rows_match_log_event)
qed

lemma reachable_rows_match: "reachable env rx a \<Longrightarrow> rows_match env a"
proof (induction rule: reachable.induct)
  case init
  then show ?case by (simp add: rows_match_def analyzer_init_def)
next
  case (step a a')
  then show ?case using step_rows_match reachable_invariants_raw by blast
qed

section \<open>Runs of learning\<close>

text \<open>Learning tasks with messages, one after another, from a reachable state with a
  corpus: every task succeeds, the \<open>i\<close>-th state has \<open>n + i + 1\<close> documents and rows, and
  it holds a cluster model fitted on all of them when that number is a multiple of 5.\<close>

lemma learn_trace_good:
  assumes "reachable env rx a" and "emails a = Some es"
    and "list_all (\<lambda>t. \<exists>kvs. t = JObj kvs \<and> py_truthy (dict_get kvs ''message'' (JStr []))) ts"
  shows "\<exists>bs. learn_trace env now ts a = Some bs \<and> length bs = length ts
           \<and> (\<forall>i < length ts. \<exists>X. email_vectors (bs ! i) = Some X
                 \<and> length X = Suc (length es + i)
                 \<and> (Suc (length es + i) mod 5 = 0 \<longrightarrow>
                      model (bs ! i) = Some \<lparr>n_clusters = 5, fit_rows = Some (length X)\<rparr>))"
  using assms
proof (induction ts arbitrary: a es)
  case Nil
  then show ?case by simp
next
  case (Cons t ts)
  obtain kvs where t: "t = JObj kvs" and msg: "py_truthy (dict_get kvs ''message'' (JStr []))"
    using Cons.prems(3) by auto
  have rc: "rows_consistent a" using reachable_invariants_raw [OF Cons.prems(1)] by blast
  obtain m X where mX: "fitted (vectorizer a) = Some m" "email_vectors a = Some X"
    and lX: "length X = length es"
    using rows_consistent_SomeD [OF rc Cons.prems(2)] by blast
  let ?msg = "dict_get kvs ''message'' (JStr [])"
  let ?n = "Suc (length es)"
  let ?a' = "log_event now (Task_learning (dict_get kvs ''_id'' (JStr ''unknown''))
                 (py_truthy (dict_get kvs ''template'' (JStr []))))
               (a\<lparr>emails := Some (es @ [?msg]),
                  email_vectors := Some (X @ [tfidf_row m (sk_analyze (preprocess_text env ?msg))]),
                  model := (if 5 \<le> ?n \<and> ?n mod 5 = 0
                            then Some \<lparr>n_clusters = 5, fit_rows = Some ?n\<rparr> else model a)\<rparr>)"
  have l: "learn_from_task env now t a = Inr (True, ?a')"
    using learn_from_task_consistent [OF rc Cons.prems(2) mX msg, of env now] t by (simp add: Let_def)
  have r': "reachable env rx ?a'" by (rule reachable.step [OF Cons.prems(1) analyzer_step.learn [OF l]])
  have e': "emails ?a' = Some (es @ [?msg])" by (simp add: analyzer_simps)
  obtain bs where bs: "learn_trace env now ts ?a' = Some bs" "length bs = length ts"
    and P: "\<forall>i < length ts. \<exists>X. email_vectors (bs ! i) = Some X \<and> length X = Suc (length (es @ [?msg]) + i)
              \<and> (Suc (length (es @ [?msg]) + i) mod 5 = 0 \<longrightarrow>
                   model (bs ! i) = Some \<lparr>n_clusters = 5, fit_rows = Some (length X)\<rparr>)"
    using Cons.IH [OF r' e'] Cons.prems(3) by auto
  have head: "\<exists>Y. email_vectors ?a' = Some Y \<and> length Y = Suc (length es + 0)
                \<and> (Suc (length es + 0) mod 5 = 0 \<longrightarrow>
                     model ?a' = Some \<lparr>n_clusters = 5, fit_rows = Some (length Y)\<rparr>)"
    using lX by (simp add: analyzer_simps)
  have "\<forall>i < length (t # ts). \<exists>Y. email_vectors ((?a' # bs) ! i) = Some Y
           \<and> length Y = Suc (length es + i)
           \<and> (Suc (length es + i) mod 5 = 0 \<longrightarrow>
                model ((?a' # bs) ! i) = Some \<lparr>n_clusters = 5, fit_rows = Some (length Y)\<rparr>)"
  proof (intro allI impI)
    fix i assume "i < length (t # ts)"
    then show "\<exists>Y. email_vectors ((?a' # bs) ! i) = Some Y \<and> length Y = Suc (length es + i)
           \<and> (Suc (length es + i) mod 5 = 0 \<longrightarrow>
                model ((?a' # bs) ! i) = Some \<lparr>n_clusters = 5, fit_rows = Some (length Y)\<rparr>)"
      using head P by (cases i) auto
  qed
  then show ?case using l bs by simp
qed

end
