(* ===== verification/Persistence.thy ===== *)
theory Persistence
  imports Machine
begin

text \<open>
  The persistence layer: \<open>save_model\<close> (lines 288-301), \<open>load_model\<close> (lines 303-315)
  and the load in \<open>__init__\<close> (lines 48-49).  The file system is a map from paths to
  blobs; a blob is unreadable (missing, corrupt) or a pickled dict whose keys may be
  missing (\<open>None\<close> for a missing key).  \<open>load_model\<close> assigns the fields in the
  source's order and stops at the first \<open>KeyError\<close>, returning \<open>False\<close> with the
  fields assigned so far kept; \<open>learning_history\<close> defaults to \<open>[]\<close>.
\<close>

record pickle =
  p_model :: "kmeans option option"
  p_vectorizer :: "vectorizer option"
  p_email_vectors :: "matrix option option"
  p_emails :: "jval list option option"
  p_history :: "entry list option"

datatype blob = Unreadable | Pickled pickle

type_synonym store = "string \<Rightarrow> blob option"

definition snapshot :: "analyzer \<Rightarrow> pickle" where
  "snapshot a =
     \<lparr>p_model = Some (model a), p_vectorizer = Some (vectorizer a),
      p_email_vectors = Some (email_vectors a), p_emails = Some (emails a),
      p_history = Some (learning_history a)\<rparr>"

definition save_model :: "string \<Rightarrow> analyzer \<Rightarrow> store \<Rightarrow> bool \<times> store" where
  "save_model path a st =
     (if model a \<noteq> None then (True, st(path \<mapsto> Pickled (snapshot a))) else (False, st))"

definition load_model :: "string \<Rightarrow> store \<Rightarrow> analyzer \<Rightarrow> bool \<times> analyzer" where
  "load_model path st a =
     (case st path of
        Some (Pickled p) \<Rightarrow>
          (case p_model p of
             None \<Rightarrow> (False, a)
           | Some m \<Rightarrow>
               (let a1 = a\<lparr>model := m\<rparr>
                in case p_vectorizer p of
                     None \<Rightarrow> (False, a1)
                   | Some v \<Rightarrow>
                       (let a2 = a1\<lparr>vectorizer := v\<rparr>
                        in case p_email_vectors p of
                             None \<Rightarrow> (False, a2)
                           | Some X \<Rightarrow>
                               (let a3 = a2\<lparr>email_vectors := X\<rparr>
                                in case p_emails p of
                                     None \<Rightarrow> (False, a3)
                                   | Some es \<Rightarrow>
                                       (True, a3\<lparr>emails := es,
                                         learning_history := (case p_history p of None \<Rightarrow> [] | Some h \<Rightarrow> h)\<rparr>)))))
      | _ \<Rightarrow> (False, a))"

text \<open>\<open>EmailAnalyzer(model_path)\<close>: load when the path exists, the result of the load ignored.\<close>

definition analyzer_new :: "string \<Rightarrow> store \<Rightarrow> analyzer" where
  "analyzer_new path st =
     (if st path \<noteq> None then snd (load_model path st analyzer_init) else analyzer_init)"

section \<open>Lemmas\<close>

lemma load_snapshot: "load_model path (st(path \<mapsto> Pickled (snapshot a))) b = (True, a)"
  by (simp add: load_model_def snapshot_def)

lemma save_model_True:
  "save_model path a st = (True, st') \<longleftrightarrow> model a \<noteq> None \<and> st' = st(path \<mapsto> Pickled (snapshot a))"
  by (auto simp: save_model_def)

lemma save_model_False:
  "save_model path a st = (False, st') \<longleftrightarrow> model a = None \<and> st' = st"
  by (auto simp: save_model_def)

end
