(* ===== verification/Api.thy ===== *)
theory Api
  imports Persistence
begin

text \<open>
  The command-line program \<open>src/ml/email_analyzer_api.py\<close>: one process per request.
  \<open>main()\<close> (lines 11-98) loads the analyzer from the model file, trains and saves it on
  five sample emails when it has no cluster model, dispatches on \<open>sys.argv\<close>, prints one
  JSON value and exits; the guard of lines 100-106 turns an exception escaping \<open>main\<close>
  into an error object and exit status 1.  A run is \<open>cli_run\<close>: the arguments after the
  program name, the store (the file system) before the run, and the printed value, exit
  status and store after it.  \<open>json.loads\<close> is the parameter \<open>parse\<close> (\<open>Inl\<close> the message of
  its \<open>JSONDecodeError\<close>); \<open>json.dumps\<close> is the identity on \<open>jval\<close>; a timestamp is
  printed as the number that stands for it.
\<close>

definition model_path :: string where
  "model_path = ''email_analyzer_model.joblib''"

definition sample_emails :: "string list" where
  "sample_emails =
     [''Dear John, Your invoice #12345 is due on 01/15/2023. Please make the payment at your earliest convenience.'',
      ''Hi Sarah, Just a reminder that our meeting is scheduled for tomorrow at 2:30 PM. Looking forward to seeing you.'',
      ''Hello Team, The quarterly report is now available. Please review it by Friday and provide your feedback.'',
      ''Dear Customer, Thank you for your recent purchase. Your order #54321 will be shipped on Monday.'',
      ''Hi David, I hope this email finds you well. I wanted to follow up on our discussion about the project timeline.'']"

text \<open>Lines 18-32: load, and train and save when there is no cluster model.\<close>

definition bootstrap ::
  "nlp_env \<Rightarrow> timestamp \<Rightarrow> store \<Rightarrow> (py_error \<times> store) + (analyzer \<times> store)" where
  "bootstrap env now st =
     (let a = analyzer_new model_path st
      in if model a = None
         then (case fit env now sample_emails a of
                 Inl (e, _) \<Rightarrow> Inl (e, st)
               | Inr (_, a') \<Rightarrow> Inr (a', snd (save_model model_path a' st)))
         else Inr (a, st))"

section \<open>The printed values\<close>

definition error_json :: "string \<Rightarrow> jval" where
  "error_json m = JObj [(''error'', JStr m)]"

definition similar_json :: "(jval \<times> real) list \<Rightarrow> jval" where
  "similar_json res = JList (map (\<lambda>(e, s). JObj [(''email'', e), (''similarity'', JFloat s)]) res)"

definition stats_json :: "stats \<Rightarrow> jval" where
  "stats_json s =
     (case s of
        Stats_none \<Rightarrow> JObj [(''total_events'', JInt 0), (''model_trained'', JBool False),
                            (''last_update'', JNull)]
      | Stats n counts trained upd ne \<Rightarrow>
          JObj [(''total_events'', JInt (int n)),
                (''event_counts'', JObj (map (\<lambda>(k, c). (k, JInt (int c))) counts)),
                (''model_trained'', JBool trained), (''last_update'', JInt (int upd)),
                (''num_emails'', JInt (int ne))])"

definition entities_json :: "(string \<times> string list) list \<Rightarrow> jval" where
  "entities_json ents = JObj (map (\<lambda>(k, vs). (k, JList (map JStr vs))) ents)"

definition vars_json :: "template_vars \<Rightarrow> jval" where
  "vars_json v =
     (case v of
        Var_names vs \<Rightarrow> JList (map JStr vs)
      | Var_map d \<Rightarrow> JObj (map (\<lambda>(k, x). (k, JStr x)) d))"

text \<open>Lines 75-98: the default analysis of one text.\<close>

definition analysis_json ::
  "sentiment \<Rightarrow> template_result \<Rightarrow> (string \<times> string list) list \<Rightarrow> jval" where
  "analysis_json s r ents =
     (let has_vars = py_truthy (vars_json (variables r)) \<or> list_ex (\<lambda>(k, vs). vs \<noteq> []) ents
      in JObj [(''sentiment'', JStr (sentiment_name s)), (''template'', JStr (template r)),
               (''variables'', vars_json (variables r)), (''message'', JStr (message r)),
               (''entities'', entities_json ents),
               (''confidence'', JFloat (if has_vars then 1 else 1 / 2))])"

section \<open>A run\<close>

text \<open>\<open>main()\<close>; \<open>args\<close> is \<open>sys.argv[1:]\<close>.  \<open>sys.exit(1)\<close> raises \<open>SystemExit\<close>, which the
  guard (\<open>except Exception\<close>) does not catch.\<close>

definition cli_main ::
  "nlp_env \<Rightarrow> (string \<Rightarrow> (string \<times> string list) list) \<Rightarrow> (string \<Rightarrow> string + jval) \<Rightarrow> timestamp
     \<Rightarrow> string list \<Rightarrow> store \<Rightarrow> (py_error \<times> store) + (jval \<times> nat \<times> store)" where
  "cli_main env rx parse now args st =
     (if args = [] then Inr (error_json ''No email content provided'', 1, st)
      else case bootstrap env now st of
        Inl err \<Rightarrow> Inl err
      | Inr (a, st1) \<Rightarrow>
          (if 1 < length args then
             (let command = args ! 0
              in if command = ''--similar'' then
                   (case (if 2 < length args then py_int (args ! 2) else Some 3) of
                      None \<Rightarrow> Inl (ValueError (''invalid literal for int() with base 10: ''
                                              @ py_quote (args ! 2)), st1)
                    | Some top_n \<Rightarrow>
                        (case get_similar_emails env now (args ! 1) top_n a of
                           Inl (e, _) \<Rightarrow> Inl (e, st1)
                         | Inr (res, _) \<Rightarrow> Inr (similar_json res, 0, st1)))
                 else if command = ''--learn'' then
                   (case parse (args ! 1) of
                      Inl m \<Rightarrow> Inr (error_json (''Failed to learn from task data: '' @ m), 0, st1)
                    | Inr task \<Rightarrow>
                        (case learn_from_task env now task a of
                           Inl (e, _) \<Rightarrow>
                             Inr (error_json (''Failed to learn from task data: '' @ py_error_str e), 0, st1)
                         | Inr (True, a') \<Rightarrow>
                             Inr (JObj [(''success'', JBool True), (''message'', JStr ''Learned from task data'')],
                                  0, snd (save_model model_path a' st1))
                         | Inr (False, _) \<Rightarrow>
                             Inr (JObj [(''success'', JBool False),
                                        (''message'', JStr ''No useful data to learn from'')], 0, st1)))
                 else if command = ''--stats'' then Inr (stats_json (get_learning_stats a), 0, st1)
                 else if command = ''--entities'' then
                   Inr (entities_json (extract_entities env rx (args ! 1)), 0, st1)
                 else Inr (error_json (''Unknown command: '' @ command), 0, st1))
           else
             (let text = args ! 0;
                  s = analyze_sentiment env text;
                  r = fst (suggest_template env rx now text a);
                  ents = extract_entities env rx text
              in Inr (analysis_json s r ents, 0, st1))))"

text \<open>Lines 100-106: the guard around \<open>main()\<close>.\<close>

definition cli_run ::
  "nlp_env \<Rightarrow> (string \<Rightarrow> (string \<times> string list) list) \<Rightarrow> (string \<Rightarrow> string + jval) \<Rightarrow> timestamp
     \<Rightarrow> string list \<Rightarrow> store \<Rightarrow> jval \<times> nat \<times> store" where
  "cli_run env rx parse now args st =
     (case cli_main env rx parse now args st of
        Inl (e, st') \<Rightarrow> (error_json (''An unexpected error occurred: '' @ py_error_str e), 1, st')
      | Inr r \<Rightarrow> r)"

text \<open>The stores a deployment produces: a fresh file system, then any sequence of runs with
  the same collaborators.\<close>

inductive deployed ::
  "nlp_env \<Rightarrow> (string \<Rightarrow> (string \<times> string list) list) \<Rightarrow> (string \<Rightarrow> string + jval) \<Rightarrow> store \<Rightarrow> bool"
  for env rx parse where
  fresh: "deployed env rx parse (\<lambda>_. None)"
| run: "deployed env rx parse st \<Longrightarrow> cli_run env rx parse now args st = (out, code, st')
          \<Longrightarrow> deployed env rx parse st'"

section \<open>Lemmas\<close>

lemma length_sample_emails [simp]: "length sample_emails = 5"
  by (simp add: sample_emails_def)

text \<open>\<open>int(str(n))\<close>: the decimal digits of \<open>str(n)\<close> are read back as \<open>n\<close>.\<close>

lemma is_digit_char_of: "d < (10::nat) \<Longrightarrow> is_digit (char_of (48 + d))"
  by (simp add: is_digit_def Let_def)

lemma digits_of_digits: "digits_of n \<noteq> [] \<and> list_all is_digit (digits_of n)"
proof (induction n rule: digits_of.induct)
  case (1 n)
  show ?case
  proof (cases "n < 10")
    case True
    then have "digits_of n = [char_of (48 + n)]" by (subst digits_of.simps) simp
    with True show ?thesis by (simp add: is_digit_char_of)
  next
    case False
    then have "digits_of n = digits_of (n div 10) @ [char_of (48 + n mod 10)]"
      by (subst digits_of.simps) simp
    with False "1.IH" show ?thesis by (simp add: is_digit_char_of)
  qed
qed

lemma digits_value_snoc:
  "digits_value (xs @ [c]) acc = 10 * digits_value xs acc + int (of_char c - 48)"
  by (induction xs arbitrary: acc) simp_all

lemma digits_value_digits_of: "digits_value (digits_of n) 0 = int n"
proof (induction n rule: digits_of.induct)
  case (1 n)
  show ?case
  proof (cases "n < 10")
    case True
    then show ?thesis by (subst digits_of.simps) simp
  next
    case False
    then have "digits_value (digits_of n) 0 = 10 * int (n div 10) + int (n mod 10)"
      using "1.IH" by (subst digits_of.simps) (simp add: digits_value_snoc)
    also have "\<dots> = int n"
      using div_mult_mod_eq [of n 10] by (metis of_nat_add of_nat_mult of_nat_numeral mult.commute)
    finally show ?thesis .
  qed
qed

lemma py_contains_set: "py_contains p s \<Longrightarrow> set p \<subseteq> set s"
  by (auto simp: py_contains_iff_sublist dest: set_mono_sublist)

lemma digit_word_char: "is_digit c \<Longrightarrow> is_word_char c"
  by (simp add: is_digit_def is_word_char_def Let_def)

lemma digits_body_ok: "list_all is_digit ds \<Longrightarrow> ds \<noteq> [] \<Longrightarrow> int_body_ok ds"
proof -
  assume d: "list_all is_digit ds" and ne: "ds \<noteq> []"
  have "\<not> is_digit CHR ''_''" by (simp add: is_digit_def)
  then have "\<not> py_contains ''__'' ds" using d py_contains_set [of "''__''" ds] by (auto simp: list_all_iff)
  with d ne show ?thesis by (auto simp: int_body_ok_def list_all_iff)
qed

lemma py_int_digits_of:
  "py_int (digits_of n) = Some (int n) \<and> py_int (CHR ''-'' # digits_of n) = Some (- int n)"
proof -
  obtain ne: "digits_of n \<noteq> []" and d: "list_all is_digit (digits_of n)"
    using digits_of_digits by blast
  have w: "list_all is_word_char (digits_of n)" using d by (simp add: list_all_iff digit_word_char)
  have nsp: "\<not> is_space (hd (digits_of n))" "\<not> is_space (last (digits_of n))"
    using w ne by (simp_all add: list_all_iff word_char_not_space)
  have s1: "py_strip (digits_of n) = digits_of n" by (rule py_strip_word [OF w])
  have s2: "py_strip (CHR ''-'' # digits_of n) = CHR ''-'' # digits_of n"
    using nsp ne by (intro py_strip_id) (simp_all add: is_space_def)
  have hd: "hd (digits_of n) \<noteq> CHR ''-''" "hd (digits_of n) \<noteq> CHR ''+''"
    using d ne by (auto simp: list_all_iff is_digit_def dest!: hd_in_set)
  have ok: "int_body_ok (digits_of n)" by (rule digits_body_ok [OF d ne])
  have f: "filter is_digit (digits_of n) = digits_of n" using d by (simp add: list_all_iff)
  obtain c cs where c: "digits_of n = c # cs" using ne by (cases "digits_of n") auto
  show ?thesis
    using s1 s2 hd ok f digits_value_digits_of [of n]
    by (simp add: py_int_def c)
qed

text \<open>A run writes the model file only in the bootstrap and after a successful learn.\<close>

lemma bootstrap_Inl: "bootstrap env now st = Inl (e, st') \<Longrightarrow> st' = st"
  by (auto simp: bootstrap_def Let_def split: if_splits sum.splits)

lemma cli_main_store:
  assumes "cli_main env rx parse now args st = Inr (out, code, st') \<or>
           cli_main env rx parse now args st = Inl (e, st')"
  shows "st' = st \<or> (\<exists>a st1. bootstrap env now st = Inr (a, st1)
           \<and> (st' = st1 \<or> (\<exists>task a'. learn_from_task env now task a = Inr (True, a')
                                  \<and> st' = snd (save_model model_path a' st1))))"
  using assms
  by (auto simp: cli_main_def Let_def dest: bootstrap_Inl
      split: if_splits sum.splits option.splits prod.splits bool.splits)

lemma cli_run_store:
  assumes "cli_run env rx parse now args st = (out, code, st')"
  shows "st' = st \<or> (\<exists>a st1. bootstrap env now st = Inr (a, st1)
           \<and> (st' = st1 \<or> (\<exists>task a'. learn_from_task env now task a = Inr (True, a')
                                  \<and> st' = snd (save_model model_path a' st1))))"
proof (cases "cli_main env rx parse now args st")
  case (Inl r)
  then obtain e where "cli_main env rx parse now args st = Inl (e, st')"
    using assms by (cases r) (simp add: cli_run_def)
  then show ?thesis using cli_main_store by blast
next
  case (Inr r)
  then have "cli_main env rx parse now args st = Inr (out, code, st')"
    using assms by (simp add: cli_run_def)
  then show ?thesis using cli_main_store by blast
qed

lemma load_model_snapshot:
  "st path = Some (Pickled (snapshot a)) \<Longrightarrow> load_model path st b = (True, a)"
  by (simp add: load_model_def snapshot_def)

lemma analyzer_new_snapshot:
  "st path = Some (Pickled (snapshot a)) \<Longrightarrow> analyzer_new path st = a"
  by (simp add: analyzer_new_def load_model_snapshot)

lemma save_model_store:
  "snd (save_model p a st) = st \<or> (model a \<noteq> None \<and> snd (save_model p a st) = st(p \<mapsto> Pickled (snapshot a)))"
  by (simp add: save_model_def)

text \<open>A store whose model file, if any, is the snapshot of a reachable analyzer with a cluster
  model stays so through the bootstrap and through a whole run.\<close>

lemma bootstrap_reachable:
  assumes "st model_path = None \<or>
           (\<exists>b. st model_path = Some (Pickled (snapshot b)) \<and> reachable env rx b \<and> model b \<noteq> None)"
    and "bootstrap env now st = Inr (a, st1)"
  shows "reachable env rx a \<and> model a \<noteq> None
         \<and> (st1 = st \<or> st1 = st(model_path \<mapsto> Pickled (snapshot a)))"
  using assms(1)
proof
  assume none: "st model_path = None"
  then have "model (analyzer_new model_path st) = None"
    by (simp add: analyzer_new_def analyzer_init_def)
  then obtain u where f: "fit env now sample_emails analyzer_init = Inr (u, a)"
    and st1: "st1 = snd (save_model model_path a st)"
    using assms(2) none by (auto simp: bootstrap_def analyzer_new_def split: sum.splits)
  have r: "reachable env rx a"
    by (rule reachable.step [OF reachable.init analyzer_step.fit [OF _ f]]) (simp add: analyzer_init_def)
  have m: "model a \<noteq> None" using fit_Inr [OF f] by auto
  then show ?thesis using r st1 by (simp add: save_model_def)
next
  assume "\<exists>b. st model_path = Some (Pickled (snapshot b)) \<and> reachable env rx b \<and> model b \<noteq> None"
  then obtain b where b: "st model_path = Some (Pickled (snapshot b))" "reachable env rx b" "model b \<noteq> None"
    by blast
  then have "a = b \<and> st1 = st" using assms(2) by (auto simp: bootstrap_def analyzer_new_snapshot)
  with b show ?thesis by simp
qed

lemma run_keeps_snapshot:
  assumes "st model_path = None \<or>
           (\<exists>b. st model_path = Some (Pickled (snapshot b)) \<and> reachable env rx b \<and> model b \<noteq> None)"
    and "cli_run env rx parse now args st = (out, code, st')"
  shows "st' model_path = None \<or>
           (\<exists>b. st' model_path = Some (Pickled (snapshot b)) \<and> reachable env rx b \<and> model b \<noteq> None)"
  using cli_run_store [OF assms(2)]
proof (elim disjE exE conjE)
  assume "st' = st"
  with assms(1) show ?thesis by simp
next
  fix a st1
  assume boot: "bootstrap env now st = Inr (a, st1)" and st': "st' = st1"
  from bootstrap_reachable [OF assms(1) boot] assms(1) show ?thesis by (auto simp: st')
next
  fix a st1 task a'
  assume boot: "bootstrap env now st = Inr (a, st1)"
    and l: "learn_from_task env now task a = Inr (True, a')"
    and st': "st' = snd (save_model model_path a' st1)"
  have ra: "reachable env rx a" and st1: "st1 = st \<or> st1 = st(model_path \<mapsto> Pickled (snapshot a))"
    using bootstrap_reachable [OF assms(1) boot] by simp_all
  have "reachable env rx a'" by (rule reachable.step [OF ra analyzer_step.learn [OF l]])
  moreover have ok1: "st1 model_path = None \<or>
           (\<exists>b. st1 model_path = Some (Pickled (snapshot b)) \<and> reachable env rx b \<and> model b \<noteq> None)"
    using st1 assms(1) bootstrap_reachable [OF assms(1) boot] by auto
  ultimately show ?thesis using save_model_store [of model_path a' st1] st' by auto
qed

text \<open>Every value a run prints is a JSON object or array.\<close>

lemma cli_main_shape:
  assumes "cli_main env rx parse now args st = Inr (out, code, st')"
  shows "((\<exists>kvs. out = JObj kvs) \<or> (\<exists>xs. out = JList xs))
         \<and> (code = 0 \<or> (code = 1 \<and> (\<exists>m. out = error_json m)))"
proof (cases "args = []")
  case True
  then show ?thesis using assms by (auto simp: cli_main_def error_json_def)
next
  case False
  then obtain a st1 where b: "bootstrap env now st = Inr (a, st1)"
    using assms by (auto simp: cli_main_def split: sum.splits)
  show ?thesis
  proof (cases "1 < length args")
    case False
    then show ?thesis using assms b \<open>args \<noteq> []\<close>
      by (auto simp: cli_main_def Let_def analysis_json_def)
  next
    case True
    then show ?thesis using assms b \<open>args \<noteq> []\<close>
      by (auto simp: cli_main_def Let_def error_json_def similar_json_def stats_json_def entities_json_def
          split: if_splits sum.splits option.splits prod.splits bool.splits stats.splits)
  qed
qed

end
