(* ===== verification/Fixtures.thy ===== *)
theory Fixtures
  imports Api
begin

text \<open>
  Concrete inputs for the witnesses of the claims: collaborator environments, texts on
  which the source's entity patterns are evaluated, small corpora whose TF-IDF arithmetic \<open>simp\<close> can evaluate (every idf is
  \<open>ln 1 + 1 = 1\<close>, every row has norm 1), a model file and JSON decoders, with the
  evaluation lemmas that compute the methods on them.
\<close>


text \<open>
  A concrete collaborator environment: whitespace tokenisation (what \<open>word_tokenize\<close>
  does on text that has only word and space characters), a short stop-word list, a
  neutral scorer and no spaCy pipeline; and an entity extractor that finds nothing.
\<close>

definition demo_env :: nlp_env where
  "demo_env = \<lparr>stop_words = [''the'', ''a'', ''is''], word_tokenize = split_ws,
               polarity = (\<lambda>_. 0), ner = None\<rparr>"

definition no_entities :: "string \<Rightarrow> (string \<times> string list) list" where
  "no_entities t = [(''dates'', []), (''times'', []), (''emails'', []), (''phone_numbers'', []),
                    (''urls'', []), (''names'', [])]"

text \<open>The state after \<open>fit\<close> on five copies of \<open>"aa"\<close>: every idf is \<open>ln 1 + 1 = 1\<close>.\<close>

definition st5 :: analyzer where
  "st5 = \<lparr>vectorizer = \<lparr>max_features = 1000, fitted = Some \<lparr>vocabulary = [''aa''], idf = [1]\<rparr>\<rparr>,
          model = Some \<lparr>n_clusters = 5, fit_rows = Some 5\<rparr>,
          email_vectors = Some [[1], [1], [1], [1], [1]],
          emails = Some [JStr ''aa'', JStr ''aa'', JStr ''aa'', JStr ''aa'', JStr ''aa''],
          learning_history = [\<lparr>event = Model_training 5, timestamp = 1\<rparr>]\<rparr>"

text \<open>A consistent state with two documents and distinct similarities for the query \<open>"aa"\<close>.\<close>

definition st2 :: analyzer where
  "st2 = \<lparr>vectorizer = \<lparr>max_features = 1000,
                        fitted = Some \<lparr>vocabulary = [''aa'', ''bb''], idf = [1, 1]\<rparr>\<rparr>,
          model = None, email_vectors = Some [[1, 0], [0, 1]],
          emails = Some [JStr ''aa'', JStr ''bb''], learning_history = []\<rparr>"

text \<open>Four documents (no cluster model yet), and the task whose learning makes them five.\<close>

definition st4 :: analyzer where
  "st4 = \<lparr>vectorizer = \<lparr>max_features = 1000, fitted = Some \<lparr>vocabulary = [''aa''], idf = [1]\<rparr>\<rparr>,
          model = None, email_vectors = Some [[1], [1], [1], [1]],
          emails = Some [JStr ''aa'', JStr ''aa'', JStr ''aa'', JStr ''aa''],
          learning_history = [\<lparr>event = Model_training 4, timestamp = 1\<rparr>]\<rparr>"

definition task_aa :: "(string \<times> jval) list" where
  "task_aa = [(''message'', JStr ''aa''), (''_id'', JStr ''t1'')]"

definition st4_learned :: analyzer where
  "st4_learned = \<lparr>vectorizer = \<lparr>max_features = 1000, fitted = Some \<lparr>vocabulary = [''aa''], idf = [1]\<rparr>\<rparr>,
          model = Some \<lparr>n_clusters = 5, fit_rows = Some 5\<rparr>,
          email_vectors = Some [[1], [1], [1], [1], [1]],
          emails = Some [JStr ''aa'', JStr ''aa'', JStr ''aa'', JStr ''aa'', JStr ''aa''],
          learning_history = [\<lparr>event = Model_training 4, timestamp = 1\<rparr>,
                              \<lparr>event = Task_learning (JStr ''t1'') False, timestamp = 2\<rparr>]\<rparr>"

text \<open>A spaCy pipeline that labels \<open>"tomorrow"\<close> as \<open>DATE\<close>.\<close>

definition env_ner :: nlp_env where
  "env_ner = \<lparr>stop_words = [], word_tokenize = split_ws, polarity = (\<lambda>_. 0),
              ner = Some (\<lambda>t. [(''DATE'', ''tomorrow'')])\<rparr>"

text \<open>A model file holding the snapshot of \<open>st5\<close>; two decoders for \<open>--learn\<close>: one that
  rejects its input and one that yields \<open>task_aa\<close>; the state \<open>st5\<close> after learning it.\<close>

definition store5 :: store where
  "store5 = [model_path \<mapsto> Pickled (snapshot st5)]"

definition parse_fail :: "string \<Rightarrow> string + jval" where
  "parse_fail s = Inl ''Expecting value: line 1 column 1 (char 0)''"

definition parse_task :: "string \<Rightarrow> string + jval" where
  "parse_task s = Inr (JObj task_aa)"

definition st6 :: analyzer where
  "st6 = \<lparr>vectorizer = \<lparr>max_features = 1000, fitted = Some \<lparr>vocabulary = [''aa''], idf = [1]\<rparr>\<rparr>,
          model = Some \<lparr>n_clusters = 5, fit_rows = Some 5\<rparr>,
          email_vectors = Some [[1], [1], [1], [1], [1], [1]],
          emails = Some [JStr ''aa'', JStr ''aa'', JStr ''aa'', JStr ''aa'', JStr ''aa'', JStr ''aa''],
          learning_history = [\<lparr>event = Model_training 5, timestamp = 1\<rparr>,
                              \<lparr>event = Task_learning (JStr ''t1'') False, timestamp = 3\<rparr>]\<rparr>"

lemmas text_eval = demo_env_def preprocess_text_def strip_special_def py_lower_def lower_char_def
  is_word_char_def is_space_def split_ws_def sk_analyze_def

lemmas fit_eval = fit_def fit_transform_def tfidf_fit_def analyzer_init_def vectorizer_init_def
  limit_features_def tfidf_row_def doc_freq_def smooth_idf_def l2_normalize_def sqnorm_def
  refit_clusters_def kmeans_new_def kmeans_fit_def log_event_def

lemma st5_fit: "fit demo_env 1 [''aa'', ''aa'', ''aa'', ''aa'', ''aa''] analyzer_init = Inr ((), st5)"
  by (simp add: fit_eval text_eval st5_def)

lemma st5_reachable: "reachable demo_env no_entities st5"
proof (rule reachable.step [OF reachable.init])
  show "analyzer_step demo_env no_entities analyzer_init st5"
    by (rule analyzer_step.fit [OF _ st5_fit]) (simp add: analyzer_init_def)
qed

lemma st4_fit: "fit demo_env 1 [''aa'', ''aa'', ''aa'', ''aa''] analyzer_init = Inr ((), st4)"
  by (simp add: fit_eval text_eval st4_def)

lemma st4_reachable: "reachable demo_env no_entities st4"
proof (rule reachable.step [OF reachable.init])
  show "analyzer_step demo_env no_entities analyzer_init st4"
    by (rule analyzer_step.fit [OF _ st4_fit]) (simp add: analyzer_init_def)
qed

lemma st4_learn: "learn_from_task demo_env 2 (JObj task_aa) st4 = Inr (True, st4_learned)"
  by (simp add: learn_from_task_def append_vector_def transform_def vstack_def dict_get_def
      task_aa_def st4_def st4_learned_def fit_eval text_eval Let_def eval_nat_numeral)

lemma call_alex_template:
  "suggest_template demo_env python_entities 4 ''Call Alex'' analyzer_init =
     (\<lparr>template = ''Call {{{var_name}}}'', variables = Var_map [(''name1'', ''Alex'')],
       message = ''Generated template with suggested variables.''\<rparr>,
      log_event 4 (Template_suggestion 1) analyzer_init)"
  by code_simp

lemma due_entities:
  "python_entities ''Due 01/15/2023, call 555.123.4567 or 555.123.4567'' =
     [(''dates'', [''01/15/2023'']), (''times'', []), (''emails'', []),
      (''phone_numbers'', [''555.123.4567'', ''555.123.4567'']), (''urls'', []), (''names'', [])]"
  by code_simp

lemma meet_variables: "extract_variables ''Meet on 03/10/2023'' = []"
  by code_simp

lemma meet_dates: "findall_rx dates_rx [] ''Meet on 03/10/2023'' = [''03/10/2023'']"
  by code_simp

text \<open>The spaCy pipeline of \<open>env_ner\<close> on a text with a regex date and a spaCy date.\<close>

lemma tomorrow_no_vars: "extract_variables ''Meet tomorrow on 03/10/2023'' = []"
  by (simp add: extract_variables_def findall_delim_absent)

lemma tomorrow_dates: "findall_rx dates_rx [] ''Meet tomorrow on 03/10/2023'' = [''03/10/2023'']"
  by code_simp

lemma tomorrow_regex_template:
  "template_entities (map (\<lambda>(k, vs). (k, remdups vs)) (python_entities ''Meet tomorrow on 03/10/2023''))
     ''Meet tomorrow on 03/10/2023'' = (''Meet tomorrow on {{{var_name}}}'', [(''date1'', ''03/10/2023'')])"
  by code_simp

lemma tomorrow_template:
  "suggest_template env_ner python_entities 3 ''Meet tomorrow on 03/10/2023'' analyzer_init =
     (\<lparr>template = ''Meet {{{var_name}}} on {{{var_name}}}'', variables = Var_map [(''date1'', ''tomorrow'')],
       message = ''Generated template with suggested variables.''\<rparr>,
      log_event 3 (Template_suggestion 1) analyzer_init)"
  by code_simp

text \<open>Two edges of the patterns: a time followed by a word keeps the space before it
  (\<open>\s*\<close> is greedy and \<open>\b\<close> holds before the word), and only a full stop and one space
  keeps a capitalised word out of \<open>names\<close>.\<close>

lemma entity_edge_cases:
  "python_entities ''Hi. Hello!  Bob? Carl at 10:30 tomorrow'' =
     [(''dates'', []), (''times'', [''10:30 '']), (''emails'', []), (''phone_numbers'', []),
      (''urls'', []), (''names'', [''Bob'', ''Carl''])]"
  by code_simp

lemma store5_boot: "bootstrap env now store5 = Inr (st5, store5)"
proof -
  have "store5 model_path = Some (Pickled (snapshot st5))" by (simp add: store5_def)
  then have "analyzer_new model_path store5 = st5" by (rule analyzer_new_snapshot)
  moreover have "model st5 \<noteq> None" by (simp add: st5_def)
  ultimately show ?thesis by (auto simp: bootstrap_def)
qed

lemma st5_learn: "learn_from_task demo_env 3 (JObj task_aa) st5 = Inr (True, st6)"
  by (simp add: learn_from_task_def append_vector_def transform_def vstack_def dict_get_def
      task_aa_def st5_def st6_def fit_eval text_eval Let_def)

lemmas similar_eval = get_similar_emails_def transform_def tfidf_row_def l2_normalize_def
  sqnorm_def cosine_similarity_def argsort_def top_similar_def py_slice_def py_slice_bound_def
  log_event_def query_prefix_def Let_def

lemma st2_consistent: "rows_consistent st2"
  by (simp add: rows_consistent_def st2_def tfidf_wf_def nonneg_def)

lemma st2_similar:
  "get_similar_emails demo_env 2 ''aa'' 3 st2 =
     Inr ([(JStr ''bb'', 0)], log_event 2 (Similarity_search ''aa...'' 1) st2)"
  by (simp add: similar_eval text_eval st2_def)

lemma st2_cosine: "cosine_similarity (query_vector demo_env \<lparr>vocabulary = [''aa'', ''bb''], idf = [1, 1]\<rparr> ''aa'')
                     [[1, 0], [0, 1]] = [1, 0]"
  by (simp add: similar_eval text_eval)

lemma st5_similar_neg:
  "get_similar_emails demo_env 3 ''aa'' (-1) st5 =
     Inr ([(JStr ''aa'', 1), (JStr ''aa'', 1), (JStr ''aa'', 1), (JStr ''aa'', 1)],
          log_event 3 (Similarity_search ''aa...'' 4) st5)"
  by (simp add: similar_eval text_eval st5_def)

lemma st5_similar_3:
  "get_similar_emails demo_env 2 ''aa'' 3 st5 =
     Inr ([(JStr ''aa'', 1), (JStr ''aa'', 1), (JStr ''aa'', 1)],
          log_event 2 (Similarity_search ''aa...'' 3) st5)"
  by (simp add: similar_eval text_eval st5_def)

lemma st2_fields:
  "emails st2 = Some [JStr ''aa'', JStr ''bb'']"
  "fitted (vectorizer st2) = Some \<lparr>vocabulary = [''aa'', ''bb''], idf = [1, 1]\<rparr>"
  "email_vectors st2 = Some [[1, 0], [0, 1]]"
  by (simp_all add: st2_def)

lemma st5_emails: "emails st5 = Some [JStr ''aa'', JStr ''aa'', JStr ''aa'', JStr ''aa'', JStr ''aa'']"
  by (simp add: st5_def)

end
