(* ===== verification/Properties.thy ===== *)
theory Properties
  imports Fixtures
begin

text \<open>
  Further properties of the analyzer, stated over the components and proved from their
  lemmas: the rows of the matrix are the vectors of their documents (C24), the fitted
  vocabulary (C25), the slice of line 169 against its reference ranking (C26), the
  descending order of the results (C27), learning over several runs (C28), the CLI
  (C29-C30), templates and entities (C31-C33: any dollar amount taken for a placeholder,
  the regex categories and their shapes, the first date named \<open>date1\<close>).
\<close>

section \<open>The vector space\<close>

text \<open>
  C24. In every reachable state each row of the matrix is the TF-IDF vector, under the
  current vocabulary, of the document at the same position: \<open>fit\<close>, \<open>transform\<close> and the
  incremental append use one normalisation (spec 4.1, invariant).
\<close>

theorem reachable_rows_match_corpus:
  assumes "reachable env rx a" and "emails a = Some es" and "email_vectors a = Some X"
    and "fitted (vectorizer a) = Some m"
  shows "X = map (\<lambda>e. tfidf_row m (sk_analyze (preprocess_text env e))) es"
  using reachable_rows_match [OF assms(1)] assms(2-4) by (simp add: rows_match_def)

theorem reachable_rows_match_corpus_witness:
  "reachable demo_env no_entities st5
   \<and> [[1], [1], [1], [1], [1::real]] =
       map (\<lambda>e. tfidf_row \<lparr>vocabulary = [''aa''], idf = [1]\<rparr> (sk_analyze (preprocess_text demo_env e)))
         [JStr ''aa'', JStr ''aa'', JStr ''aa'', JStr ''aa'', JStr ''aa'']"
proof -
  have h: "emails st5 = Some [JStr ''aa'', JStr ''aa'', JStr ''aa'', JStr ''aa'', JStr ''aa'']"
    "email_vectors st5 = Some [[1], [1], [1], [1], [1]]"
    "fitted (vectorizer st5) = Some \<lparr>vocabulary = [''aa''], idf = [1]\<rparr>"
    by (simp_all add: st5_def)
  show ?thesis using reachable_rows_match_corpus [OF st5_reachable h] st5_reachable by simp
qed

text \<open>
  C25. A successful \<open>fit\<close> fixes a vocabulary of \<open>min max_features (number of distinct
  tokens)\<close> terms, all tokens of the documents, sorted and distinct, with every idf at
  least 1 (spec 4.1: the vocabulary is bounded by the top-N terms).
\<close>

theorem fit_vocabulary_bounds:
  assumes "fit env now docs a = Inr (u, a')"
  shows "\<exists>m. fitted (vectorizer a') = Some m
           \<and> length (vocabulary m) = min (max_features (vectorizer a))
                 (card (\<Union>d \<in> set docs. set (sk_analyze (preprocess_text env (JStr d)))))
           \<and> set (vocabulary m) \<subseteq> (\<Union>d \<in> set docs. set (sk_analyze (preprocess_text env (JStr d))))
           \<and> sorted (vocabulary m) \<and> distinct (vocabulary m) \<and> list_all (\<lambda>w. 1 \<le> w) (idf m)"
proof -
  obtain m where m: "tfidf_fit (max_features (vectorizer a))
                       (map (\<lambda>d. sk_analyze (preprocess_text env (JStr d))) docs) = Inr m"
    "fitted (vectorizer a') = Some m"
    using fit_Inr_model [OF assms] by blast
  from tfidf_fit_vocabulary [OF m(1)] tfidf_fit_wf [OF m(1)] m(2) show ?thesis
    by (auto simp: tfidf_wf_def image_image)
qed

theorem fit_vocabulary_bounds_witness:
  "fit demo_env 1 [''aa'', ''aa'', ''aa'', ''aa'', ''aa''] analyzer_init = Inr ((), st5)
   \<and> (\<exists>m. fitted (vectorizer st5) = Some m \<and> length (vocabulary m) = 1)"
proof -
  have c: "card (\<Union>d \<in> set [''aa'', ''aa'', ''aa'', ''aa'', ''aa''].
               set (sk_analyze (preprocess_text demo_env (JStr d)))) = 1"
    by (simp add: text_eval)
  show ?thesis using fit_vocabulary_bounds [OF st5_fit] st5_fit c by (auto simp: analyzer_init_def vectorizer_init_def)
qed

section \<open>Ranking\<close>

text \<open>
  C26. The slice \<open>argsort()[-(top_n+1):-1][::-1]\<close> of line 169 is the reference ranking
  with the best document skipped: for \<open>top_n \<ge> 0\<close>, take the ascending order \<open>p\<close>
  reversed (best first), drop its head and keep the first \<open>top_n\<close>.  Spec 4.3 asks for
  the first \<open>top_n\<close> of the reversed order itself.
\<close>

theorem top_similar_reference:
  assumes "0 \<le> k"
  shows "top_similar p k = take (nat k) (tl (rev p))"
proof (cases "p = []")
  case False
  have l: "length (top_similar p k) = length (take (nat k) (tl (rev p)))"
    using length_top_similar [OF assms False] by simp
  show ?thesis
  proof (rule nth_equalityI [OF l])
    fix i assume "i < length (top_similar p k)"
    then have i: "i < nat k" "i < length p - 1" using length_top_similar [OF assms False] by auto
    then show "top_similar p k ! i = take (nat k) (tl (rev p)) ! i"
      using False by (simp add: top_similar_nth [OF assms False] window_start_def rev_nth nth_tl)
  qed
qed simp

theorem top_similar_reference_witness:
  "0 \<le> (2::int) \<and> top_similar [2, 0, 1, 3] 2 = [1, 0] \<and> take (nat 2) (tl (rev [2, 0, 1, 3::nat])) = [1, 0]"
proof -
  have "top_similar [2, 0, 1, 3] 2 = take (nat 2) (tl (rev [2, 0, 1, 3::nat]))"
    by (rule top_similar_reference) simp
  then show ?thesis by (simp add: numeral_eq_Suc)
qed

text \<open>
  C27. In a reachable state the results of \<open>get_similar_emails\<close> are in descending order of
  score, for every \<open>top_n\<close> (spec 8: results sorted descending).
\<close>

theorem similar_sorted_desc:
  assumes "reachable env rx a" and "get_similar_emails env now txt k a = Inr (res, a')"
  shows "sorted (rev (map snd res))"
proof (cases "emails a")
  case None
  then show ?thesis using assms(2) by (simp add: get_similar_emails_unfitted)
next
  case (Some es)
  have rc: "rows_consistent a" using reachable_invariants_raw [OF assms(1)] by blast
  then obtain m X where mX: "fitted (vectorizer a) = Some m" "email_vectors a = Some X"
    using rows_consistent_SomeD [OF rc Some] by blast
  let ?s = "cosine_similarity (query_vector env m txt) X"
  note r = get_similar_emails_result [OF rc Some mX assms(2)]
  have "map snd res = rev (py_slice (sort ?s) (- (k + 1)) (- 1))"
    using top_similar_scores_any [OF argsort_is_argsort [of ?s], of k] by (simp add: r(1) comp_def)
  then show ?thesis by (simp add: sorted_py_slice)
qed

theorem similar_sorted_desc_witness:
  "reachable demo_env no_entities st5
   \<and> get_similar_emails demo_env 2 ''aa'' 3 st5 =
       Inr ([(JStr ''aa'', 1), (JStr ''aa'', 1), (JStr ''aa'', 1)], log_event 2 (Similarity_search ''aa...'' 3) st5)
   \<and> sorted (rev (map snd [(JStr ''aa'', 1::real), (JStr ''aa'', 1), (JStr ''aa'', 1)]))"
  using similar_sorted_desc [OF st5_reachable st5_similar_3] st5_reachable st5_similar_3 by simp

section \<open>Incremental learning over several runs\<close>

text \<open>
  C28. Clusters are never stale for long: from a reachable state with a corpus, five
  successive learns of tasks with messages all succeed, and one of the five states holds a
  cluster model fitted on all its rows (spec 4.2, liveness of the retrain policy).
\<close>

theorem learn_five_retrains:
  assumes "reachable env rx a" and "emails a = Some es" and "length ts = 5"
    and "list_all (\<lambda>t. \<exists>kvs. t = JObj kvs \<and> py_truthy (dict_get kvs ''message'' (JStr []))) ts"
  shows "\<exists>bs. learn_trace env now ts a = Some bs
           \<and> (\<exists>b \<in> set bs. \<exists>X. email_vectors b = Some X
                 \<and> model b = Some \<lparr>n_clusters = 5, fit_rows = Some (length X)\<rparr>)"
proof -
  obtain bs where bs: "learn_trace env now ts a = Some bs" "length bs = length ts"
    and P: "\<forall>i < length ts. \<exists>X. email_vectors (bs ! i) = Some X \<and> length X = Suc (length es + i)
              \<and> (Suc (length es + i) mod 5 = 0 \<longrightarrow>
                   model (bs ! i) = Some \<lparr>n_clusters = 5, fit_rows = Some (length X)\<rparr>)"
    using learn_trace_good [OF assms(1,2,4)] by blast
  let ?i = "4 - length es mod 5"
  have "length es = 5 * (length es div 5) + length es mod 5" and "length es mod 5 < 5" by simp_all
  then have "Suc (length es + ?i) = 5 * (length es div 5 + 1)" by arith
  then have i: "?i < 5" "Suc (length es + ?i) mod 5 = 0" by simp_all
  then obtain X where "email_vectors (bs ! ?i) = Some X"
    "model (bs ! ?i) = Some \<lparr>n_clusters = 5, fit_rows = Some (length X)\<rparr>"
    using P assms(3) by auto
  moreover have "bs ! ?i \<in> set bs" using i(1) bs(2) assms(3) by simp
  ultimately show ?thesis using bs(1) by blast
qed

theorem learn_five_retrains_witness:
  "reachable demo_env no_entities st4
   \<and> emails st4 = Some [JStr ''aa'', JStr ''aa'', JStr ''aa'', JStr ''aa'']
   \<and> length (replicate 5 (JObj task_aa)) = 5
   \<and> (\<exists>bs. learn_trace demo_env 2 (replicate 5 (JObj task_aa)) st4 = Some bs
        \<and> (\<exists>b \<in> set bs. \<exists>X. email_vectors b = Some X
              \<and> model b = Some \<lparr>n_clusters = 5, fit_rows = Some (length X)\<rparr>))"
proof -
  have e: "emails st4 = Some [JStr ''aa'', JStr ''aa'', JStr ''aa'', JStr ''aa'']" by (simp add: st4_def)
  have t: "list_all (\<lambda>t. \<exists>kvs. t = JObj kvs \<and> py_truthy (dict_get kvs ''message'' (JStr [])))
             (replicate 5 (JObj task_aa))"
    by (simp add: task_aa_def dict_get_def list_all_iff)
  have l: "length (replicate 5 (JObj task_aa)) = 5" by simp
  have "\<exists>bs. learn_trace demo_env 2 (replicate 5 (JObj task_aa)) st4 = Some bs
        \<and> (\<exists>b \<in> set bs. \<exists>X. email_vectors b = Some X
              \<and> model b = Some \<lparr>n_clusters = 5, fit_rows = Some (length X)\<rparr>)"
    by (rule learn_five_retrains [OF st4_reachable e l t])
  with st4_reachable e l show ?thesis by (intro conjI)
qed

section \<open>The command line\<close>

text \<open>
  C29. Whatever the arguments and the store, a run prints a JSON object or array and exits
  with status 0 or 1; status 1 comes with an \<open>error\<close> object (spec 7: errors are reported as
  structured JSON).
\<close>

theorem cli_output_shape:
  assumes "cli_run env rx parse now args st = (out, code, st')"
  shows "((\<exists>kvs. out = JObj kvs) \<or> (\<exists>xs. out = JList xs))
         \<and> (code = 0 \<or> (code = 1 \<and> (\<exists>m. out = error_json m)))"
proof (cases "cli_main env rx parse now args st")
  case (Inl r)
  then show ?thesis using assms by (cases r) (auto simp: cli_run_def error_json_def)
next
  case (Inr r)
  then have "cli_main env rx parse now args st = Inr (out, code, st')"
    using assms by (simp add: cli_run_def)
  then show ?thesis by (rule cli_main_shape)
qed

theorem cli_output_shape_witness:
  "cli_run demo_env no_entities parse_fail 1 [] (\<lambda>_. None) =
     (error_json ''No email content provided'', 1, \<lambda>_. None)
   \<and> (\<exists>m. error_json ''No email content provided'' = error_json m)"
proof -
  have r: "cli_run demo_env no_entities parse_fail 1 [] (\<lambda>_. None) =
             (error_json ''No email content provided'', 1, \<lambda>_. None)"
    by (simp add: cli_run_def cli_main_def)
  show ?thesis using cli_output_shape [OF r] r by simp
qed

text \<open>
  C30. \<open>--similar q n\<close> with the count written in decimal searches with \<open>top_n = n\<close> on the
  analyzer the bootstrap produced, prints the results and saves nothing.
\<close>

theorem cli_similar_count:
  assumes "bootstrap env now st = Inr (a, st1)"
    and "get_similar_emails env now q (int n) a = Inr (res, a')"
  shows "cli_run env rx parse now [''--similar'', q, digits_of n] st = (similar_json res, 0, st1)"
  using assms py_int_digits_of [of n] by (simp add: cli_run_def cli_main_def)

theorem cli_similar_count_witness:
  "bootstrap demo_env 2 store5 = Inr (st5, store5)
   \<and> get_similar_emails demo_env 2 ''aa'' (int 3) st5 =
       Inr ([(JStr ''aa'', 1), (JStr ''aa'', 1), (JStr ''aa'', 1)], log_event 2 (Similarity_search ''aa...'' 3) st5)
   \<and> cli_run demo_env no_entities parse_fail 2 [''--similar'', ''aa'', digits_of 3] store5 =
       (similar_json [(JStr ''aa'', 1), (JStr ''aa'', 1), (JStr ''aa'', 1)], 0, store5)"
proof -
  have s: "get_similar_emails demo_env 2 ''aa'' (int 3) st5 =
       Inr ([(JStr ''aa'', 1), (JStr ''aa'', 1), (JStr ''aa'', 1)], log_event 2 (Similarity_search ''aa...'' 3) st5)"
    using st5_similar_3 by simp
  show ?thesis using cli_similar_count [OF store5_boot s] store5_boot s by simp
qed

section \<open>Templates and statistics\<close>

text \<open>
  C31. Any dollar sign followed by a word or space character is taken for a placeholder:
  the pattern \<open>\$([\w\s]+)\<close> of line 77 has no closing delimiter, so a price such as
  \<open>$100\<close> anywhere in the text makes \<open>suggest_template\<close> return the text unchanged as
  already templated, without extracting entities or logging (spec 4.4 names \<open>$name\<close>
  placeholders, not amounts).
\<close>

theorem template_dollar_amount:
  assumes "is_var_char c"
  shows "extract_variables (u @ CHR ''$'' # c # r) \<noteq> []
         \<and> suggest_template env rx now (u @ CHR ''$'' # c # r) a =
             (\<lparr>template = u @ CHR ''$'' # c # r,
               variables = Var_names (extract_variables (u @ CHR ''$'' # c # r)),
               message = ''Template already contains variables.''\<rparr>, a)"
proof -
  have "findall_delim ''$'' [] (u @ CHR ''$'' # c # r) \<noteq> []"
    using findall_delim_open_found [OF assms, of "CHR ''$''" u r] by simp
  then have "extract_variables (u @ CHR ''$'' # c # r) \<noteq> []"
    by (simp add: extract_variables_def)
  then show ?thesis by (simp add: suggest_template_def)
qed

theorem template_dollar_amount_witness:
  "is_var_char CHR ''1'' \<and> extract_variables ''Pay $100 today'' = [''100 today'']
   \<and> suggest_template demo_env python_entities 1 ''Pay $100 today'' analyzer_init =
       (\<lparr>template = ''Pay $100 today'', variables = Var_names [''100 today''],
         message = ''Template already contains variables.''\<rparr>, analyzer_init)"
proof -
  have c: "is_var_char CHR ''1''" by (simp add: is_var_char_def is_word_char_def)
  have v: "extract_variables ''Pay $100 today'' = [''100 today'']" by code_simp
  show ?thesis
    using template_dollar_amount [OF c, of "''Pay ''" "''00 today''" demo_env python_entities 1 analyzer_init] c v by simp
qed

text \<open>
  C32. The regular-expression half of the entity extractor (spec 4.5): every one of the six
  categories is a key of the result, in the source's order and ahead of the spaCy labels,
  so a category absent from the text maps to an empty list; without spaCy every value is
  a substring of the text, a date has the shape \<open>D[/-]D[/-]D\<close> (one or two, one or two,
  two to four digits) and a phone number is ten digits with at most one dash or dot
  between the groups of three, three and four.
\<close>

theorem entities_regex_sound:
  "prefix [''dates'', ''times'', ''emails'', ''phone_numbers'', ''urls'', ''names'']
          (map fst (extract_entities env python_entities txt))
   \<and> (ner env = None \<longrightarrow> (k, vs) \<in> set (extract_entities env python_entities txt) \<longrightarrow> v \<in> set vs \<longrightarrow>
        sublist v txt
        \<and> (k = ''dates'' \<longrightarrow> (\<exists>d1 c1 d2 c2 d3. v = d1 @ c1 # d2 @ c2 # d3
             \<and> 1 \<le> length d1 \<and> length d1 \<le> 2 \<and> 1 \<le> length d2 \<and> length d2 \<le> 2
             \<and> 2 \<le> length d3 \<and> length d3 \<le> 4 \<and> (\<forall>c \<in> set (d1 @ d2 @ d3). is_digit c)
             \<and> c1 \<in> {CHR ''/'', CHR ''-''} \<and> c2 \<in> {CHR ''/'', CHR ''-''}))
        \<and> (k = ''phone_numbers'' \<longrightarrow> (\<exists>a s1 b s2 c. v = a @ s1 @ b @ s2 @ c
             \<and> length a = 3 \<and> length b = 3 \<and> length c = 4 \<and> (\<forall>x \<in> set (a @ b @ c). is_digit x)
             \<and> length s1 \<le> 1 \<and> length s2 \<le> 1 \<and> (\<forall>x \<in> set (s1 @ s2). x = CHR ''-'' \<or> x = CHR ''.''))))"
  (is "?keys \<and> (?none \<longrightarrow> ?kv \<longrightarrow> ?v \<longrightarrow> ?sound)")
proof
  show ?keys using extract_entities_keys [of python_entities "txt" env] by (simp add: python_entities_def)
  show "?none \<longrightarrow> ?kv \<longrightarrow> ?v \<longrightarrow> ?sound"
  proof (intro impI)
    assume ?none ?kv ?v
    then have "(k, vs) \<in> set (python_entities txt)" by (simp add: extract_entities_def)
    from python_entities_sound [OF this \<open>?v\<close>] dates_lang [of v] phone_lang [of v] show ?sound
      by blast
  qed
qed

theorem entities_regex_sound_witness:
  "extract_entities demo_env python_entities ''Due 01/15/2023, call 555.123.4567 or 555.123.4567'' =
     [(''dates'', [''01/15/2023'']), (''times'', []), (''emails'', []),
      (''phone_numbers'', [''555.123.4567'', ''555.123.4567'']), (''urls'', []), (''names'', [])]
   \<and> sublist ''555.123.4567'' ''Due 01/15/2023, call 555.123.4567 or 555.123.4567''
   \<and> (\<exists>a s1 b s2 c. ''555.123.4567'' = a @ s1 @ b @ s2 @ c
         \<and> length a = 3 \<and> length b = 3 \<and> length c = 4 \<and> (\<forall>x \<in> set (a @ b @ c). is_digit x)
         \<and> length s1 \<le> 1 \<and> length s2 \<le> 1 \<and> (\<forall>x \<in> set (s1 @ s2). x = CHR ''-'' \<or> x = CHR ''.''))"
proof -
  have e: "extract_entities demo_env python_entities ''Due 01/15/2023, call 555.123.4567 or 555.123.4567'' =
     [(''dates'', [''01/15/2023'']), (''times'', []), (''emails'', []),
      (''phone_numbers'', [''555.123.4567'', ''555.123.4567'']), (''urls'', []), (''names'', [])]"
    by (simp add: extract_entities_def demo_env_def due_entities)
  have n: "ner demo_env = None" by (simp add: demo_env_def)
  from entities_regex_sound [of demo_env "''Due 01/15/2023, call 555.123.4567 or 555.123.4567''"
        "''phone_numbers''" "[''555.123.4567'', ''555.123.4567'']" "''555.123.4567''"] e n
  have "sublist ''555.123.4567'' ''Due 01/15/2023, call 555.123.4567 or 555.123.4567''
   \<and> (\<exists>a s1 b s2 c. ''555.123.4567'' = a @ s1 @ b @ s2 @ c
         \<and> length a = 3 \<and> length b = 3 \<and> length c = 4 \<and> (\<forall>x \<in> set (a @ b @ c). is_digit x)
         \<and> length s1 \<le> 1 \<and> length s2 \<le> 1 \<and> (\<forall>x \<in> set (s1 @ s2). x = CHR ''-'' \<or> x = CHR ''.''))"
    by simp
  with e show ?thesis by blast
qed

text \<open>
  C33. The scenario of spec 8 as a property: on a text with no placeholder, without spaCy,
  the first date the pattern of line 106 finds is named \<open>date1\<close> and maps to that
  substring (the later categories name \<open>time1\<close>, \<open>email1\<close>, ..., never \<open>date1\<close>), and
  one template suggestion counting the variables is logged.
\<close>

theorem template_first_date:
  assumes "ner env = None" and "extract_variables txt = []"
    and "findall_rx dates_rx [] txt = d # ds"
  shows "\<exists>m. suggest_template env python_entities now txt a =
              (\<lparr>template = fst (template_entities (python_entities txt) txt), variables = Var_map m,
                message = ''Generated template with suggested variables.''\<rparr>,
               log_event now (Template_suggestion (length m)) a)
           \<and> map_of m ''date1'' = Some d"
proof -
  obtain t m where tm: "template_entities (python_entities txt) txt = (t, m)" by fastforce
  then have "map_of m ''date1'' = Some d" using python_entities_first_date [OF assms(3)] by simp
  moreover have "suggest_template env python_entities now txt a =
      (\<lparr>template = t, variables = Var_map m,
        message = ''Generated template with suggested variables.''\<rparr>,
       log_event now (Template_suggestion (length m)) a)"
    using assms(1,2) tm by (simp add: suggest_template_def extract_entities_def)
  ultimately show ?thesis using tm by auto
qed

theorem template_first_date_witness:
  "ner demo_env = None \<and> extract_variables ''Meet on 03/10/2023'' = []
   \<and> findall_rx dates_rx [] ''Meet on 03/10/2023'' = [''03/10/2023'']
   \<and> (\<exists>m. suggest_template demo_env python_entities 1 ''Meet on 03/10/2023'' analyzer_init =
              (\<lparr>template = fst (template_entities (python_entities ''Meet on 03/10/2023'') ''Meet on 03/10/2023''),
                variables = Var_map m, message = ''Generated template with suggested variables.''\<rparr>,
               log_event 1 (Template_suggestion (length m)) analyzer_init)
           \<and> map_of m ''date1'' = Some ''03/10/2023'')"
proof -
  have n: "ner demo_env = None" by (simp add: demo_env_def)
  show ?thesis
    using template_first_date [OF n meet_variables meet_dates, of 1 analyzer_init] n meet_variables meet_dates
    by blast
qed

end
