(* ===== verification/Example.thy ===== *)
theory Example
  imports Fixtures
begin

text \<open>
  The example script under \<open>if __name__ == "__main__"\<close> of \<open>src/ml/email_analyzer.py\<close>
  (lines 318-369): a fresh analyzer is fitted on five sample emails, then a new email is
  searched, templated, scored and scanned for entities, the model is saved and the
  statistics are printed.  The printed lines are values of \<open>out_line\<close> in the order the
  script prints them; the text of the f-strings (\<open>:.2f\<close>, the \<open>str\<close> of a list or dict,
  the leading newlines of the headings) is not rendered.  An uncaught exception ends the
  script; only \<open>fit\<close> and \<open>get_similar_emails\<close> can raise, and both run before the first
  line is printed, so a failed run prints nothing.  The three calls that log read the
  clock: \<open>t1\<close>, \<open>t2\<close>, \<open>t3\<close>.
\<close>

definition example_emails :: "string list" where
  "example_emails =
     [''Dear John, Your invoice #12345 is due on 01/15/2023. Please make the payment at your earliest convenience.'',
      ''Hi Sarah, Just a reminder that our meeting is scheduled for tomorrow at 2:30 PM. Looking forward to seeing you.'',
      ''Hello Team, The quarterly report is now available. Please review it by Friday and provide your feedback.'',
      ''Dear Customer, Thank you for your recent purchase. Your order #54321 will be shipped on Monday.'',
      ''Hi David, I hope this email finds you well. I wanted to follow up on our discussion about the project timeline.'']"

definition example_new_email :: string where
  "example_new_email =
     ''Hello Alex, Your appointment is confirmed for 03/10/2023 at 10:00 AM. Please arrive 15 minutes early.''"

datatype out_line =
    Out_text string
  | Out_similarity real
  | Out_email jval
  | Out_template string
  | Out_variables template_vars
  | Out_message string
  | Out_sentiment sentiment
  | Out_entities string "string list"
  | Out_total nat
  | Out_trained bool
  | Out_last "timestamp option"

text \<open>Lines 337-359: the results, the template, the sentiment and the non-empty entity
  categories.\<close>

definition report_lines ::
  "(jval \<times> real) list \<Rightarrow> template_result \<Rightarrow> sentiment \<Rightarrow> (string \<times> string list) list
     \<Rightarrow> out_line list" where
  "report_lines similar ts sent ents =
     Out_text ''Similar emails:''
     # concat (map (\<lambda>(e, s). [Out_similarity s, Out_email e, Out_text []]) similar)
     @ [Out_text ''Template suggestion:'', Out_template (template ts), Out_variables (variables ts),
        Out_message (message ts), Out_sentiment sent, Out_text ''Extracted entities:'']
     @ map (\<lambda>(k, vs). Out_entities k vs) (filter (\<lambda>(k, vs). vs \<noteq> []) ents)"

text \<open>Lines 366-369: \<open>stats['total_events']\<close>, \<open>stats['model_trained']\<close>,
  \<open>stats['last_update']\<close> of either dictionary \<open>get_learning_stats\<close> returns.\<close>

definition stats_lines :: "stats \<Rightarrow> out_line list" where
  "stats_lines s =
     Out_text ''Learning stats:''
     # (case s of
          Stats_none \<Rightarrow> [Out_total 0, Out_trained False, Out_last None]
        | Stats n _ trained t _ \<Rightarrow> [Out_total n, Out_trained trained, Out_last (Some t)])"

definition example_main ::
  "nlp_env \<Rightarrow> (string \<Rightarrow> (string \<times> string list) list) \<Rightarrow> timestamp \<Rightarrow> timestamp \<Rightarrow> timestamp
     \<Rightarrow> store \<Rightarrow> py_error + (out_line list \<times> analyzer \<times> store)" where
  "example_main env rx t1 t2 t3 st =
     (case fit env t1 example_emails analyzer_init of
        Inl (e, _) \<Rightarrow> Inl e
      | Inr (_, a1) \<Rightarrow>
          (case get_similar_emails env t2 example_new_email 3 a1 of
             Inl (e, _) \<Rightarrow> Inl e
           | Inr (similar, a2) \<Rightarrow>
               (let (ts, a3) = suggest_template env rx t3 example_new_email a2;
                    sent = analyze_sentiment env example_new_email;
                    ents = extract_entities env rx example_new_email;
                    st' = snd (save_model ''email_analyzer_model.joblib'' a3 st)
                in Inr (report_lines similar ts sent ents @ stats_lines (get_learning_stats a3),
                        a3, st'))))"

section \<open>Lemmas\<close>

lemma example_new_email_no_vars: "extract_variables example_new_email = []"
  by (simp add: extract_variables_def example_new_email_def findall_delim_absent)

lemma length_example_emails: "length example_emails = 5"
  by (simp add: example_emails_def)

lemma save_model_path:
  "model a \<noteq> None \<Longrightarrow> snd (save_model path a st) path = Some (Pickled (snapshot a))"
  by (simp add: save_model_def)

text \<open>After the fit of the five sample emails: a reachable state with a cluster model and one
  ledger entry, on which the default search returns three results and logs them.\<close>

lemma example_after_fit:
  assumes "fit env t1 example_emails analyzer_init = Inr (u, a1)"
  shows "reachable env rx a1" and "model a1 \<noteq> None"
    and "map event (learning_history a1) = [Model_training 5]"
    and "\<exists>res. get_similar_emails env t2 example_new_email 3 a1 =
             Inr (res, log_event t2 (Similarity_search (query_prefix example_new_email) 3) a1)
           \<and> length res = 3"
proof -
  show r: "reachable env rx a1"
    by (rule reachable.step [OF reachable.init analyzer_step.fit [OF _ assms]])
       (simp add: analyzer_init_def)
  obtain m where m: "fitted (vectorizer a1) = Some m"
    "emails a1 = Some (map JStr example_emails)"
    "email_vectors a1 = Some (map (\<lambda>d. tfidf_row m (sk_analyze (preprocess_text env (JStr d)))) example_emails)"
    "model a1 = Some \<lparr>n_clusters = 5, fit_rows = Some 5\<rparr>"
    "learning_history a1 = [\<lparr>event = Model_training 5, timestamp = t1\<rparr>]"
    using fit_Inr [OF assms] by (auto simp: length_example_emails analyzer_init_def)
  show "model a1 \<noteq> None" "map event (learning_history a1) = [Model_training 5]"
    using m by simp_all
  have rc: "rows_consistent a1" using reachable_invariants_raw [OF r] by blast
  obtain res where g: "get_similar_emails env t2 example_new_email 3 a1 =
      Inr (res, log_event t2 (Similarity_search (query_prefix example_new_email) (length res)) a1)"
    using get_similar_emails_consistent [OF rc m(2,1,3)] by (simp add: Let_def)
  moreover have "length res = 3"
    using get_similar_emails_count [OF rc m(2) g] by (simp add: length_example_emails)
  ultimately show "\<exists>res. get_similar_emails env t2 example_new_email 3 a1 =
             Inr (res, log_event t2 (Similarity_search (query_prefix example_new_email) 3) a1)
           \<and> length res = 3" by auto
qed

text \<open>A sample email keeps a token after normalisation, so the fit succeeds.\<close>

lemma example_emails_tokens:
  "\<not> list_all (\<lambda>d. sk_analyze (preprocess_text demo_env (JStr d)) = []) example_emails"
proof -
  have "sk_analyze (preprocess_text demo_env (JStr (hd example_emails))) \<noteq> []" by code_simp
  then show ?thesis by (simp add: example_emails_def)
qed

text \<open>
  C34. The example script runs to completion unless \<open>fit\<close> finds no token in any sample
  email, and then it dies with the empty-vocabulary \<open>ValueError\<close> before printing
  anything.  A completed run leaves a reachable analyzer (so the invariants of C1 and C2
  hold for it) whose snapshot is the model file, with a ledger of exactly the fit of
  five emails, one search that returned three results (\<open>top_n = 3\<close> of five documents,
  the best dropped) and one template suggestion; the printed statistics are three events,
  a trained model and the time of the suggestion.
\<close>

theorem example_main_outcome:
  "case example_main env rx tf tq tt st of
     Inl e \<Rightarrow> e = ValueError ''empty vocabulary; perhaps the documents only contain stop words''
              \<and> list_all (\<lambda>d. sk_analyze (preprocess_text env (JStr d)) = []) example_emails
   | Inr (out, a, st') \<Rightarrow>
       reachable env rx a
       \<and> st' ''email_analyzer_model.joblib'' = Some (Pickled (snapshot a))
       \<and> (\<exists>n. map event (learning_history a) =
              [Model_training 5, Similarity_search (query_prefix example_new_email) 3, Template_suggestion n])
       \<and> (\<exists>pre. out = pre @ [Out_text ''Learning stats:'', Out_total 3, Out_trained True, Out_last (Some tt)])"
proof (cases "fit env tf example_emails analyzer_init")
  case (Inl r)
  then obtain e a' where f: "fit env tf example_emails analyzer_init = Inl (e, a')" by (cases r) auto
  then show ?thesis using fit_Inl [of env tf example_emails analyzer_init e a']
    by (simp add: example_main_def list_all_iff)
next
  case (Inr r)
  then obtain u a1 where f: "fit env tf example_emails analyzer_init = Inr (u, a1)" by (cases r) auto
  note a1 = example_after_fit [OF f]
  obtain res where g: "get_similar_emails env tq example_new_email 3 a1 =
      Inr (res, log_event tq (Similarity_search (query_prefix example_new_email) 3) a1)"
    using a1(4) by blast
  define a2 where "a2 = log_event tq (Similarity_search (query_prefix example_new_email) 3) a1"
  obtain ts a3 where s: "suggest_template env rx tt example_new_email a2 = (ts, a3)" by fastforce
  define n where "n = length (snd (template_entities (extract_entities env rx example_new_email) example_new_email))"
  have a3: "a3 = log_event tt (Template_suggestion n) a2"
    using suggest_template_logs [OF example_new_email_no_vars, of env rx tt a2] s by (simp add: n_def)
  have r2: "reachable env rx a2"
    unfolding a2_def by (rule reachable.step [OF a1(1) analyzer_step.similar [OF g]])
  have r3: "reachable env rx a3" by (rule reachable.step [OF r2 analyzer_step.template [OF s]])
  have m3: "model a3 \<noteq> None" using a1(2) by (simp add: a3 a2_def log_event_def)
  have h3: "map event (learning_history a3) =
      [Model_training 5, Similarity_search (query_prefix example_new_email) 3, Template_suggestion n]"
    using a1(3) by (simp add: a3 a2_def log_event_def)
  have st3: "stats_lines (get_learning_stats a3) =
      [Out_text ''Learning stats:'', Out_total 3, Out_trained True, Out_last (Some tt)]"
  proof -
    have "length (learning_history a3) = 3" using arg_cong [OF h3, of length] by simp
    moreover have "learning_history a3 \<noteq> []" "timestamp (last (learning_history a3)) = tt"
      by (simp_all add: a3 log_event_def)
    ultimately show ?thesis using m3 by (simp add: get_learning_stats_def stats_lines_def)
  qed
  have e: "example_main env rx tf tq tt st =
      Inr (report_lines res ts (analyze_sentiment env example_new_email)
             (extract_entities env rx example_new_email) @ stats_lines (get_learning_stats a3),
           a3, snd (save_model ''email_analyzer_model.joblib'' a3 st))"
    using f g s by (simp add: example_main_def a2_def [symmetric])
  show ?thesis
    using r3 save_model_path [OF m3, of "''email_analyzer_model.joblib''" st] h3 st3
    by (simp add: e)
qed

theorem example_main_outcome_witness:
  "\<exists>out a st'. example_main demo_env python_entities 1 2 3 Map.empty = Inr (out, a, st')
     \<and> reachable demo_env python_entities a
     \<and> st' ''email_analyzer_model.joblib'' = Some (Pickled (snapshot a))
     \<and> (\<exists>pre. out = pre @ [Out_text ''Learning stats:'', Out_total 3, Out_trained True,
                              Out_last (Some 3)])"
  using example_main_outcome [where env = demo_env and rx = python_entities and tf = 1 and tq = 2
      and tt = 3 and st = Map.empty] example_emails_tokens
  by (auto split: sum.splits)

end
