(* ===== verification/Spec2Isabelle.thy ===== *)
theory Spec2Isabelle
  imports Properties Example
begin

text \<open>
  \<^bold>\<open>A verification library for the email analyzer.\<close>
  The program is \<open>src/ml/email_analyzer.py\<close>, the class \<open>EmailAnalyzer\<close>, driven one request
  per process by \<open>src/ml/email_analyzer_api.py\<close>.  An analyzer holds a TF-IDF vectorizer,
  a corpus of emails, their vector matrix, a KMeans cluster model and a ledger of learning
  events.  \<open>fit\<close> builds vocabulary, matrix and clusters from a batch; \<open>get_similar_emails\<close>
  ranks the corpus by cosine similarity; \<open>learn_from_task\<close> appends one email and
  retrains the clusters every 5 documents; \<open>suggest_template\<close> turns entities into
  placeholders; \<open>get_learning_stats\<close> summarises the ledger; \<open>save_model\<close> and
  \<open>load_model\<close> persist the whole state.

  \<^bold>\<open>Theories.\<close>
  \<^item> \<open>Prelude\<close>: Python's values and string operations on ASCII text: exceptions
    (\<open>py_error\<close>), decoded JSON (\<open>jval\<close>, truthiness, \<open>dict.get\<close>), slicing with negative
    bounds, \<open>xs[i]\<close>, \<open>lower\<close>, \<open>strip\<close>, \<open>in\<close>, \<open>str.replace(old, new, 1)\<close>, the
    \<open>\w\<close> and \<open>\s\<close> classes and maximal runs (\<open>str.split()\<close>, \<open>\w\w+\<close>).
  \<^item> \<open>Vectors\<close>: dot products, L2 normalisation and scikit-learn's \<open>cosine_similarity\<close>
    (line 166); similarities of non-negative rows lie in \<open>[0, 1]\<close>.
  \<^item> \<open>Vectorizer\<close>: \<open>TfidfVectorizer(max_features=1000)\<close> as scikit-learn computes it
    (tokens \<open>\b\w\w+\b\<close> of the lower-cased text, sorted vocabulary cut to the most
    frequent terms, smoothed idf \<open>ln((n+1)/(df+1)) + 1\<close>, L2-normalised rows);
    \<open>tfidf_wf\<close> is what a fit produces.
  \<^item> \<open>Ranking\<close>: numpy's \<open>argsort\<close> as a contract (\<open>is_argsort\<close>: a permutation sorting the
    scores) with a stable instance (\<open>argsort\<close>, refinement \<open>argsort_is_argsort\<close>), and the
    window \<open>argsort()[-(top_n+1):-1][::-1]\<close> (\<open>top_similar\<close>, line 169).
  \<^item> \<open>Text\<close>: \<open>preprocess_text\<close> (lines 54-66) and \<open>analyze_sentiment\<close> (lines 86-100);
    NLTK's \<open>word_tokenize\<close>, the stop words, VADER's compound score and spaCy are the
    fields of \<open>nlp_env\<close>.
  \<^item> \<open>Ledger\<close>: ledger entries and the per-kind counting of \<open>get_learning_stats\<close>.
  \<^item> \<open>Analyzer\<close>: the instance as the record \<open>analyzer\<close>; \<open>fit\<close> (lines 133-154),
    \<open>get_similar_emails\<close> (156-185), \<open>learn_from_task\<close> with \<open>append_vector\<close>
    (228-262), \<open>get_learning_stats\<close> (264-286).  A method returns
    \<open>'a outcome\<close>: \<open>Inr (result, state)\<close>, or \<open>Inl (exception, state at the raise)\<close>, so
    the partial updates a Python exception leaves behind are part of the model.  KMeans is
    what the program observes of it: the cluster count, the rows it was fitted on and the
    \<open>ValueError\<close> on fewer rows than clusters.  The invariants \<open>rows_consistent\<close> and
    \<open>clusters_fresh\<close> are kept by every operation.
  \<^item> \<open>Regex\<close>: the part of Python's \<open>re\<close> the entity patterns use, as a backtracking
    matcher \<open>mt\<close> in continuation-passing style that tries the alternatives in the order
    the \<open>re\<close> engine does (greedy bounded repetition of a character class, \<open>\b\<close>, negative
    lookbehind, sequence, alternation, optional group), \<open>findall_rx\<close> for \<open>re.findall\<close>,
    and the six patterns of lines 106-111 with \<open>python_entities\<close>, the regex dictionary
    of \<open>extract_entities\<close>.  \<open>in_lang\<close> is the language a pattern describes (its context
    conditions dropped); \<open>mt_in_lang\<close> and \<open>findall_rx_sound\<close> show that every match is a
    substring of the text in that language.
  \<^item> \<open>Template\<close>: \<open>extract_variables\<close> (\<open>re.findall\<close> of the five placeholder
    patterns), the merge in \<open>extract_entities\<close> and \<open>suggest_template\<close> (lines 187-226);
    the regex half of \<open>extract_entities\<close> is a parameter, \<open>python_entities\<close> in the claims.
  \<^item> \<open>Machine\<close>: \<open>analyzer_step\<close>, the operations that change state, and \<open>reachable\<close>,
    the states a process reaches from a fresh analyzer whose only batch fit happens while
    it has no cluster model (the bootstrap of the CLI); invariants by rule induction.
  \<^item> \<open>Persistence\<close>: \<open>save_model\<close>, \<open>load_model\<close> and the load in \<open>__init__\<close> over a
    store mapping paths to pickled snapshots.
  \<^item> \<open>Api\<close>: the program \<open>email_analyzer_api.py\<close>: \<open>bootstrap\<close> (load, train and save on
    the five sample emails), \<open>cli_main\<close> (the dispatch of lines 34-98 with the printed JSON
    values), \<open>cli_run\<close> (the exception guard of lines 100-106) and \<open>deployed\<close>, the stores
    produced by successive runs from an empty file system; \<open>int()\<close> and \<open>str(e)\<close> are in
    \<open>Prelude\<close>.  Runs compose with the state machine: every analyzer a deployment loads
    is reachable.
  \<^item> \<open>Fixtures\<close>: the concrete inputs of the witnesses; \<open>Properties\<close>: claims C24-C33.
  \<^item> \<open>Example\<close>: the example script under \<open>__main__\<close> (lines 318-369) as \<open>example_main\<close>,
    the composition of \<open>fit\<close>, \<open>get_similar_emails\<close>, \<open>suggest_template\<close>,
    \<open>analyze_sentiment\<close>, \<open>extract_entities\<close>, \<open>save_model\<close> and \<open>get_learning_stats\<close>
    on a fresh analyzer, with the printed lines as \<open>out_line\<close> values in print order;
    claim C34.

  \<^bold>\<open>Claims.\<close>
  In this theory: C1-C2 the invariants of reachable states (rows agree with the corpus;
  the staleness window of the clusters); C3-C6 similarity search (no exception, the exact
  window of scores, the best match dropped, the result count for every \<open>top_n\<close>); C7-C9
  incremental learning (append, retrain policy, the branches that learn nothing); C10-C11
  batch fit (not exception-safe; the cluster policy); C12-C13 the ledger (append-only;
  statistics); C14-C15 persistence (round trip; partial load); C16-C18 templates (round
  trip of \<open>{{x}}\<close>; the literal placeholder of line 212; the regex \<open>dates\<close> and spaCy
  \<open>DATE\<close> categories colliding on \<open>date1\<close>); C19-C23 the CLI (every loaded analyzer
  reachable; exit 0 on malformed \<open>--learn\<close>; \<open>--stats\<close> alone; only learning persists;
  learning persists across runs).  In \<open>Properties\<close>: C24 rows are the vectors of their
  documents; C25 the fitted vocabulary; C26 the slice of line 169 equals the reference
  ranking with the best document skipped; C27 descending results; C28 five learns always
  retrain (liveness); C29 the shape of every printed value; C30 the count of
  \<open>--similar\<close>; C31 every dollar amount taken for a placeholder; C32 the regex entity
  categories (all six keys first; values are substrings; the shapes of dates and phone
  numbers); C33 the first date found is \<open>date1\<close> (the scenario of spec 8, for every text).
  In \<open>Example\<close>: C34 the example script completes unless the fit finds no token, leaving
  a reachable, saved analyzer and printing three events.

  Scores are exact real numbers, not float64.  The count and the slice structure of the
  results do not depend on the scores; statements about which scores are returned hold of
  the real-valued scores, and two scores that differ only by float64 rounding may be
  ordered otherwise by the program.  No claim bounds a score from above: a float64
  self-cosine can be \<open>1.0000000000000002\<close>.

  \<^bold>\<open>Witnesses.\<close>  Real arithmetic with \<open>sqrt\<close> and \<open>ln\<close> is evaluated by \<open>simp\<close> on
  corpora where every idf is \<open>ln 1 + 1 = 1\<close> and every row has norm 1: \<open>st5\<close> (five
  copies of \<open>"aa"\<close>, fitted from a fresh analyzer), \<open>st4\<close> (four copies, no cluster model)
  and \<open>st2\<close> (two orthogonal documents).  Text-only witnesses evaluate by \<open>code_simp\<close>.
  No bound or fuel is needed: every loop of the program is a structural recursion or one
  of the terminating scans \<open>findall_delim\<close> and \<open>findall_rx\<close> (measure: length of the
  rest of the text; \<open>findall_rx\<close> advances past a non-empty match or by one character);
  the matcher \<open>mt\<close> is a primitive recursion on the pattern, each repetition trying
  finitely many counts.

  \<^bold>\<open>Not modelled.\<close>  The constructs of \<open>re\<close> that no pattern of the program uses, and
  the Unicode extent of \<open>\d\<close>, \<open>\w\<close> and \<open>\s\<close> (texts are ASCII); NLTK, VADER and spaCy
  internals (fields of \<open>nlp_env\<close>); the centroids of KMeans (k-means++ seeded by
  \<open>random_state=42\<close> and Lloyd's iterations inside scikit-learn), which no code of the
  program reads: the cluster model is what the program observes of it; logging and
  \<open>nltk.download\<close> (lines 18-30) and the CLI's logging; \<open>json.loads\<close> (the parameter
  \<open>parse\<close>), the text of \<open>json.dumps\<close> (values are printed as \<open>jval\<close>) and of the example
  script's f-strings (printed as \<open>out_line\<close>); I/O failures of \<open>joblib.dump\<close>;
  float64 rounding (scores, idf and norms are reals); the order numpy's unstable sorts give
  to ties (the ranking is the contract \<open>is_argsort\<close>, and \<open>limit_features\<close> cuts ties in
  vocabulary order) and the order of \<open>list(set(...))\<close> (\<open>remdups\<close>; the claims use only
  its set of values).  Timestamps are natural numbers supplied by the caller.
\<close>

section \<open>The vector space and the cluster model\<close>

text \<open>
  C1. In every state a session reaches, the corpus and the matrix of email vectors agree:
  both absent, or both present with one row per document, each row as wide as the fitted
  vocabulary and non-negative (spec 3: row count equals corpus length after any mutation).
\<close>

theorem reachable_rows_consistent:
  assumes "reachable env rx a"
  shows "rows_consistent a"
  using reachable_invariants_raw [OF assms] by blast

theorem reachable_rows_consistent_witness:
  "reachable demo_env no_entities st5 \<and> rows_consistent st5"
  using reachable_rows_consistent [OF st5_reachable] st5_reachable by simp

text \<open>
  C2. In every reachable state a cluster model, if there is one, has 5 clusters and was
  fitted on at least 5 rows, fewer than 5 rows before the current matrix: the staleness
  window of the retrain-every-multiple-of-5 policy (spec 4.2).
\<close>

theorem reachable_cluster_staleness:
  assumes "reachable env rx a" and "model a = Some km"
  shows "\<exists>r X. fit_rows km = Some r \<and> email_vectors a = Some X \<and> n_clusters km = 5
           \<and> 5 \<le> r \<and> r \<le> length X \<and> length X < r + 5"
  using reachable_invariants_raw [OF assms(1)] assms(2) clusters_fresh_window by blast

theorem reachable_cluster_staleness_witness:
  "reachable demo_env no_entities st5 \<and> model st5 = Some \<lparr>n_clusters = 5, fit_rows = Some 5\<rparr>
   \<and> (\<exists>r X. fit_rows \<lparr>n_clusters = 5, fit_rows = Some 5\<rparr> = Some r \<and> email_vectors st5 = Some X
           \<and> n_clusters \<lparr>n_clusters = 5, fit_rows = Some (5::nat)\<rparr> = 5
           \<and> 5 \<le> r \<and> r \<le> length X \<and> length X < r + 5)"
  using reachable_cluster_staleness [OF st5_reachable, of "\<lparr>n_clusters = 5, fit_rows = Some 5\<rparr>"]
    st5_reachable by (simp add: st5_def)

section \<open>Similarity search\<close>

text \<open>
  C3. \<open>get_similar_emails\<close> never raises in a reachable state: the query is vectorised
  with the fitted vocabulary, its width matches the matrix, and every index the ranking
  returns is a valid index of the corpus (no \<open>IndexError\<close> at line 173).
\<close>

theorem similar_no_exception:
  assumes "reachable env rx a"
  shows "\<exists>res a'. get_similar_emails env now txt k a = Inr (res, a')"
proof (cases "emails a")
  case None
  then show ?thesis by (simp add: get_similar_emails_unfitted)
next
  case (Some es)
  have rc: "rows_consistent a" using reachable_invariants_raw [OF assms] by blast
  then obtain m X where "fitted (vectorizer a) = Some m" "email_vectors a = Some X"
    using rows_consistent_SomeD [OF rc Some] by blast
  with rc Some show ?thesis by (simp add: get_similar_emails_consistent Let_def)
qed

theorem similar_no_exception_witness:
  "reachable demo_env no_entities st5
   \<and> (\<exists>res a'. get_similar_emails demo_env 2 ''aa'' 3 st5 = Inr (res, a'))"
  using similar_no_exception [OF st5_reachable] st5_reachable by blast

text \<open>
  C4. The scores \<open>get_similar_emails\<close> returns are the window of the ascending scores
  that ends just before the top one, in descending order: for \<open>top_n = k \<ge> 0\<close> and
  \<open>n\<close> documents, ranks 2 to \<open>k + 1\<close> (spec 4.3: the best match is always dropped);
  one \<open>similarity_search\<close> entry is logged.
\<close>

theorem similar_scores_window:
  assumes "rows_consistent a" and "emails a = Some es" and "fitted (vectorizer a) = Some m"
    and "email_vectors a = Some X" and "0 \<le> k"
    and "get_similar_emails env now txt k a = Inr (res, a')"
  shows "map snd res = rev (drop (window_start (length es) k)
                              (butlast (sort (cosine_similarity (query_vector env m txt) X))))
         \<and> a' = log_event now (Similarity_search (query_prefix txt) (length res)) a"
proof -
  let ?sims = "cosine_similarity (query_vector env m txt) X"
  have len: "length ?sims = length es"
    using rows_consistent_SomeD [OF assms(1,2)] assms(3,4) by auto
  have res: "res = map (\<lambda>i. (es ! i, ?sims ! i)) (top_similar (argsort ?sims) k)"
    and a': "a' = log_event now (Similarity_search (query_prefix txt) (length res)) a"
    using assms(6) get_similar_emails_consistent [OF assms(1-4)] by (auto simp: Let_def)
  have "map snd res = rev (drop (window_start (length ?sims) k) (butlast (sort ?sims)))"
  proof (cases "?sims = []")
    case True
    then show ?thesis by (simp add: res argsort_def)
  next
    case False
    then show ?thesis
      using top_similar_scores [OF argsort_is_argsort assms(5) False] by (simp add: res comp_def)
  qed
  with len a' show ?thesis by simp
qed

theorem similar_scores_window_witness:
  "rows_consistent st2 \<and> emails st2 = Some [JStr ''aa'', JStr ''bb'']
   \<and> fitted (vectorizer st2) = Some \<lparr>vocabulary = [''aa'', ''bb''], idf = [1, 1]\<rparr>
   \<and> email_vectors st2 = Some [[1, 0], [0, 1]] \<and> (0::int) \<le> 3
   \<and> get_similar_emails demo_env 2 ''aa'' 3 st2 =
        Inr ([(JStr ''bb'', 0)], log_event 2 (Similarity_search ''aa...'' 1) st2)
   \<and> map snd [(JStr ''bb'', 0::real)] = rev (drop (window_start 2 3) (butlast (sort [1, 0::real])))"
proof -
  have h: "emails st2 = Some [JStr ''aa'', JStr ''bb'']"
    "fitted (vectorizer st2) = Some \<lparr>vocabulary = [''aa'', ''bb''], idf = [1, 1]\<rparr>"
    "email_vectors st2 = Some [[1, 0], [0, 1]]" by (simp_all add: st2_def)
  from similar_scores_window [OF st2_consistent h, of 3 demo_env 2 "''aa''", OF _ st2_similar]
  have "map snd [(JStr ''bb'', 0::real)] = rev (drop (window_start 2 3) (butlast (sort [1, 0::real])))"
    by (simp add: st2_cosine window_start_def)
  with h st2_consistent st2_similar show ?thesis by (simp add: window_start_def)
qed

text \<open>
  C5. When one document scores strictly higher than every other, it is never returned:
  every returned score is below the best one (the slice \<open>[-(top_n+1):-1]\<close> at line 169
  drops the last index of the ascending order, whatever \<open>top_n\<close> is).
\<close>

theorem similar_drops_unique_best:
  assumes "rows_consistent a" and "emails a = Some es" and "fitted (vectorizer a) = Some m"
    and "email_vectors a = Some X" and "get_similar_emails env now txt k a = Inr (res, a')"
    and "j < length es"
    and "\<forall>i < length es. i \<noteq> j \<longrightarrow>
           cosine_similarity (query_vector env m txt) X ! i < cosine_similarity (query_vector env m txt) X ! j"
  shows "list_all (\<lambda>r. snd r < cosine_similarity (query_vector env m txt) X ! j) res"
proof -
  let ?s = "cosine_similarity (query_vector env m txt) X"
  let ?p = "argsort ?s"
  note r = get_similar_emails_result [OF assms(1-5)]
  have adm: "is_argsort ?s ?p" by (rule argsort_is_argsort)
  have ne: "?p \<noteq> []" using is_argsort_perm(1) [OF adm] r(3) assms(6) by auto
  have lp: "last ?p < length es" using is_argsort_perm(3) [OF adm] r(3) last_in_set [OF ne] by auto
  have "last ?p = j"
  proof (rule ccontr)
    assume "last ?p \<noteq> j"
    then have "?s ! last ?p < ?s ! j" using assms(7) lp by blast
    moreover have "?s ! j \<le> ?s ! last ?p" using is_argsort_last_max [OF adm] assms(6) r(3) by simp
    ultimately show False by simp
  qed
  then have "\<forall>i \<in> set (top_similar ?p k). i < length es \<and> i \<noteq> j"
    using top_similar_valid [OF adm] top_similar_not_last [OF adm] r(3) by fastforce
  with assms(7) show ?thesis by (auto simp: r(1) list_all_iff)
qed

theorem similar_drops_unique_best_witness:
  "get_similar_emails demo_env 2 ''aa'' 3 st2 =
     Inr ([(JStr ''bb'', 0)], log_event 2 (Similarity_search ''aa...'' 1) st2)
   \<and> [1, 0::real] ! 1 < [1, 0] ! 0
   \<and> list_all (\<lambda>r. snd r < (1::real)) [(JStr ''bb'', 0)]"
proof -
  have q: "\<forall>i < 2. i \<noteq> 0 \<longrightarrow> [1, 0::real] ! i < [1, 0] ! 0"
    by (simp add: numeral_2_eq_2 less_Suc_eq)
  have "list_all (\<lambda>r. snd r < (1::real)) [(JStr ''bb'', 0)]"
    using similar_drops_unique_best [OF st2_consistent st2_fields st2_similar, of 0] q
    by (simp add: st2_cosine)
  with st2_similar show ?thesis by simp
qed

text \<open>
  C6. The number of results on a fitted corpus of \<open>n\<close> documents, for every \<open>top_n = k\<close>:
  \<open>min k (n - 1)\<close> for \<open>k \<ge> 0\<close>, not \<open>min k n\<close> (spec 4.3 promises the top \<open>k\<close>); a
  negative \<open>k\<close> is not rejected: the slice counts from the front and the search returns
  \<open>n - 1 - (-k - 1)\<close> results, so \<open>k = -1\<close> returns every document but the best (spec 4.3
  does not say what a non-positive count does).
\<close>

theorem similar_result_count:
  assumes "reachable env rx a" and "emails a = Some es"
    and "get_similar_emails env now txt k a = Inr (res, a')"
  shows "length res = (if 0 \<le> k then min (nat k) (length es - 1)
                       else length es - 1 - nat (- k - 1))"
  using get_similar_emails_count [OF _ assms(2,3)] reachable_invariants_raw [OF assms(1)] by blast

theorem similar_result_count_witness:
  "reachable demo_env no_entities st5
   \<and> emails st5 = Some [JStr ''aa'', JStr ''aa'', JStr ''aa'', JStr ''aa'', JStr ''aa'']
   \<and> get_similar_emails demo_env 2 ''aa'' 3 st5 =
        Inr ([(JStr ''aa'', 1), (JStr ''aa'', 1), (JStr ''aa'', 1)],
             log_event 2 (Similarity_search ''aa...'' 3) st5)
   \<and> length [(JStr ''aa'', 1::real), (JStr ''aa'', 1), (JStr ''aa'', 1)] = min (nat 3) (5 - 1)
   \<and> get_similar_emails demo_env 3 ''aa'' (-1) st5 =
        Inr ([(JStr ''aa'', 1), (JStr ''aa'', 1), (JStr ''aa'', 1), (JStr ''aa'', 1)],
             log_event 3 (Similarity_search ''aa...'' 4) st5)
   \<and> length [(JStr ''aa'', 1::real), (JStr ''aa'', 1), (JStr ''aa'', 1), (JStr ''aa'', 1)]
        = 5 - 1 - nat (- (-1) - 1)"
  using similar_result_count [OF st5_reachable st5_emails st5_similar_3]
    similar_result_count [OF st5_reachable st5_emails st5_similar_neg]
    st5_reachable st5_emails st5_similar_3 st5_similar_neg by simp

section \<open>Incremental learning\<close>

text \<open>
  C7. In a reachable state with a corpus, learning a task with a non-empty message never
  raises and returns \<open>True\<close>: the message is appended to the corpus, its row (under the
  frozen vocabulary) to the matrix, the vectorizer is unchanged, and exactly one
  \<open>task_learning\<close> entry is logged (spec 4.1 \<open>append\<close>, 4.7, 9).
\<close>

theorem learn_appends_message:
  assumes "reachable env rx a" and "emails a = Some es"
    and "py_truthy (dict_get kvs ''message'' (JStr []))"
  shows "\<exists>m X a'. fitted (vectorizer a) = Some m \<and> email_vectors a = Some X
           \<and> learn_from_task env now (JObj kvs) a = Inr (True, a')
           \<and> vectorizer a' = vectorizer a
           \<and> emails a' = Some (es @ [dict_get kvs ''message'' (JStr [])])
           \<and> email_vectors a' =
                Some (X @ [tfidf_row m (sk_analyze (preprocess_text env (dict_get kvs ''message'' (JStr []))))])
           \<and> learning_history a' = learning_history a @
                [\<lparr>event = Task_learning (dict_get kvs ''_id'' (JStr ''unknown''))
                           (py_truthy (dict_get kvs ''template'' (JStr []))), timestamp = now\<rparr>]"
proof -
  have rc: "rows_consistent a" using reachable_invariants_raw [OF assms(1)] by blast
  then obtain m X where mX: "fitted (vectorizer a) = Some m" "email_vectors a = Some X"
    using rows_consistent_SomeD [OF rc assms(2)] by blast
  show ?thesis
    using learn_from_task_consistent [OF rc assms(2) mX assms(3), of env now] mX
    by (simp add: Let_def log_event_def)
qed

theorem learn_appends_message_witness:
  "reachable demo_env no_entities st4 \<and> py_truthy (dict_get task_aa ''message'' (JStr []))
   \<and> (\<exists>m X a'. fitted (vectorizer st4) = Some m \<and> email_vectors st4 = Some X
         \<and> learn_from_task demo_env 2 (JObj task_aa) st4 = Inr (True, a')
         \<and> emails a' = Some [JStr ''aa'', JStr ''aa'', JStr ''aa'', JStr ''aa'', JStr ''aa''])"
proof -
  have e: "emails st4 = Some [JStr ''aa'', JStr ''aa'', JStr ''aa'', JStr ''aa'']" by (simp add: st4_def)
  have t: "py_truthy (dict_get task_aa ''message'' (JStr []))" by (simp add: task_aa_def dict_get_def)
  show ?thesis
    using learn_appends_message [OF st4_reachable e t, of 2] st4_reachable t
    by (simp add: task_aa_def dict_get_def) blast
qed

text \<open>
  C8. After a successful learn in a reachable state, the cluster model is refitted on all
  rows exactly when the new corpus length is a multiple of 5, and otherwise kept, stale
  (spec 4.2, retrain trigger policy).
\<close>

theorem learn_retrain_policy:
  assumes "reachable env rx a" and "emails a = Some es"
    and "learn_from_task env now task a = Inr (True, a')"
  shows "model a' = (if Suc (length es) mod 5 = 0
                     then Some \<lparr>n_clusters = 5, fit_rows = Some (Suc (length es))\<rparr> else model a)"
proof -
  obtain kvs where task: "task = JObj kvs"
    using assms(3) learn_from_task_not_object [of task env now a] by auto
  have msg: "py_truthy (dict_get kvs ''message'' (JStr []))"
    using assms(3) learn_from_task_no_message [of kvs env now a] task by auto
  have rc: "rows_consistent a" using reachable_invariants_raw [OF assms(1)] by blast
  then obtain m X where mX: "fitted (vectorizer a) = Some m" "email_vectors a = Some X"
    using rows_consistent_SomeD [OF rc assms(2)] by blast
  have "5 \<le> Suc (length es) \<and> Suc (length es) mod 5 = 0 \<longleftrightarrow> Suc (length es) mod 5 = 0" by presburger
  then show ?thesis
    using learn_from_task_consistent [OF rc assms(2) mX msg, of env now] assms(3) task
    by (clarsimp simp: Let_def log_event_def)
qed

theorem learn_retrain_policy_witness:
  "reachable demo_env no_entities st4
   \<and> emails st4 = Some [JStr ''aa'', JStr ''aa'', JStr ''aa'', JStr ''aa'']
   \<and> learn_from_task demo_env 2 (JObj task_aa) st4 = Inr (True, st4_learned)
   \<and> model st4_learned = Some \<lparr>n_clusters = 5, fit_rows = Some 5\<rparr>"
proof -
  have e: "emails st4 = Some [JStr ''aa'', JStr ''aa'', JStr ''aa'', JStr ''aa'']" by (simp add: st4_def)
  show ?thesis using learn_retrain_policy [OF st4_reachable e st4_learn] st4_reachable e st4_learn
    by simp
qed

text \<open>
  C9. In a reachable state, learning a task object returns \<open>False\<close> exactly when there is
  no corpus or the message is falsy, and then the state, ledger included, is unchanged
  (spec 8: with no prior corpus it returns false and records no ledger entry).
\<close>

theorem learn_false_unchanged:
  assumes "reachable env rx a"
  shows "learn_from_task env now (JObj kvs) a = Inr (False, a') \<longleftrightarrow>
           a' = a \<and> (emails a = None \<or> \<not> py_truthy (dict_get kvs ''message'' (JStr [])))"
proof (cases "emails a")
  case None
  then show ?thesis by (auto simp: learn_from_task_no_corpus)
next
  case (Some es)
  show ?thesis
  proof (cases "py_truthy (dict_get kvs ''message'' (JStr []))")
    case True
    have rc: "rows_consistent a" using reachable_invariants_raw [OF assms(1)] by blast
    then obtain m X where mX: "fitted (vectorizer a) = Some m" "email_vectors a = Some X"
      using rows_consistent_SomeD [OF rc Some] by blast
    show ?thesis using learn_from_task_consistent [OF rc Some mX True, of env now] Some True
      by (simp add: Let_def)
  next
    case False
    then show ?thesis by (auto simp: learn_from_task_no_message)
  qed
qed

theorem learn_false_unchanged_witness:
  "reachable demo_env no_entities analyzer_init
   \<and> learn_from_task demo_env 1 (JObj [(''message'', JStr ''hello'')]) analyzer_init
        = Inr (False, analyzer_init)
   \<and> learning_history analyzer_init = []"
  using learn_false_unchanged [OF reachable.init [of demo_env no_entities], where now = 1
      and kvs = "[(''message'', JStr ''hello'')]" and a' = analyzer_init]
    reachable.init [of demo_env no_entities]
  by (simp add: analyzer_init_def)

section \<open>Batch fit\<close>

text \<open>
  C10. \<open>fit\<close> is not exception-safe: it raises exactly when every document normalises
  to no token, and by then \<open>self.emails\<close> (line 135) is already replaced while the
  matrix is not (and the vectorizer is left unfitted), so a state whose matrix had another length is left inconsistent
  (spec 3: row count equals corpus length after any mutation).
\<close>

theorem fit_failure_breaks_rows:
  assumes "fit env now docs a = Inl (e, a')" and "email_vectors a = Some X"
    and "length X \<noteq> length docs"
  shows "\<not> rows_consistent a' \<and> emails a' = Some (map JStr docs) \<and> email_vectors a' = Some X
         \<and> e = ValueError ''empty vocabulary; perhaps the documents only contain stop words''"
proof -
  have a': "a' = a\<lparr>emails := Some (map JStr docs), vectorizer := (vectorizer a)\<lparr>fitted := None\<rparr>\<rparr>"
    and e: "e = ValueError ''empty vocabulary; perhaps the documents only contain stop words''"
    using assms(1) by (simp_all add: fit_Inl)
  have "\<not> rows_consistent a'"
  proof
    assume "rows_consistent a'"
    from rows_consistent_SomeD [OF this] show False using a' assms(2,3) by auto
  qed
  with a' e assms(2) show ?thesis by simp
qed

theorem fit_failure_breaks_rows_witness:
  "fit demo_env 2 [''a''] st5 =
     Inl (ValueError ''empty vocabulary; perhaps the documents only contain stop words'',
          st5\<lparr>emails := Some [JStr ''a''], vectorizer := (vectorizer st5)\<lparr>fitted := None\<rparr>\<rparr>)
   \<and> email_vectors st5 = Some [[1], [1], [1], [1], [1]]
   \<and> \<not> rows_consistent (st5\<lparr>emails := Some [JStr ''a''], vectorizer := (vectorizer st5)\<lparr>fitted := None\<rparr>\<rparr>)"
proof -
  have f: "fit demo_env 2 [''a''] st5 =
             Inl (ValueError ''empty vocabulary; perhaps the documents only contain stop words'',
                  st5\<lparr>emails := Some [JStr ''a''], vectorizer := (vectorizer st5)\<lparr>fitted := None\<rparr>\<rparr>)"
    by (simp add: fit_eval text_eval st5_def)
  have x: "email_vectors st5 = Some [[1], [1], [1], [1], [1]]" by (simp add: st5_def)
  show ?thesis using fit_failure_breaks_rows [OF f x] f x by simp
qed

text \<open>
  C11. After a successful \<open>fit\<close> the cluster model is a fresh 5-cluster model on all
  documents when there are at least 5, and otherwise the previous model is kept, not
  reset to "untrained" (spec 4.2 says fewer than 5 documents give no clustering); one
  \<open>model_training\<close> entry is logged.
\<close>

theorem fit_cluster_policy:
  assumes "fit env now docs a = Inr (u, a')"
  shows "model a' = (if 5 \<le> length docs then Some \<lparr>n_clusters = 5, fit_rows = Some (length docs)\<rparr>
                     else model a)
         \<and> learning_history a' = learning_history a @ [\<lparr>event = Model_training (length docs), timestamp = now\<rparr>]"
  using fit_Inr [OF assms] by auto

theorem fit_cluster_policy_witness:
  "\<exists>a'. fit demo_env 2 [''bb''] st5 = Inr ((), a') \<and> model a' = Some \<lparr>n_clusters = 5, fit_rows = Some 5\<rparr>
        \<and> emails a' = Some [JStr ''bb'']"
proof -
  obtain a' where f: "fit demo_env 2 [''bb''] st5 = Inr ((), a')"
    by (simp add: fit_eval text_eval st5_def)
  have "model a' = model st5" using fit_cluster_policy [OF f] by simp
  moreover have "emails a' = Some [JStr ''bb'']" using fit_Inr [OF f] by auto
  ultimately show ?thesis using f by (simp add: st5_def)
qed

section \<open>The learning ledger\<close>

text \<open>
  C12. The ledger is append-only: every step of the analyzer keeps the entries it had,
  unchanged and in order, and appends at most one (spec 3 and 4.7).
\<close>

theorem step_ledger_append_only:
  assumes "analyzer_step env rx a a'"
  shows "\<exists>new. learning_history a' = learning_history a @ new \<and> length new \<le> 1"
  using assms
proof (cases rule: analyzer_step.cases)
  case (fit now docs u)
  then show ?thesis using fit_Inr [OF fit(2)] by auto
next
  case (similar now q k res)
  then show ?thesis using get_similar_emails_history [OF similar(1)] by (auto simp: analyzer_simps)
next
  case (learn now task b)
  then show ?thesis using learn_from_task_history [OF learn(1)] by fastforce
next
  case (template now q r)
  then show ?thesis using suggest_template_state [OF template(1)] by (auto simp: analyzer_simps)
qed

theorem step_ledger_append_only_witness:
  "analyzer_step demo_env no_entities st4 st4_learned
   \<and> (\<exists>new. learning_history st4_learned = learning_history st4 @ new \<and> length new \<le> 1)"
proof -
  have s: "analyzer_step demo_env no_entities st4 st4_learned"
    by (rule analyzer_step.learn [OF st4_learn])
  show ?thesis using step_ledger_append_only [OF s] s by simp
qed

text \<open>
  C13. The statistics agree with the ledger: the total is the sum of the per-kind counts,
  each kind that occurs is counted once with its number of entries, \<open>model_trained\<close>
  tells whether a cluster model exists, and \<open>last_update\<close> is the last entry's time
  (spec 4.7).
\<close>

theorem stats_consistent:
  assumes "get_learning_stats a = Stats n_events counts trained updated n_emails"
  shows "n_events = sum_list (map snd counts) \<and> distinct (map fst counts)
         \<and> (\<forall>k. map_of counts k =
               (let n = length (filter (\<lambda>e. event_name (event e) = k) (learning_history a))
                in if n = 0 then None else Some n))
         \<and> trained = (model a \<noteq> None) \<and> updated = timestamp (last (learning_history a))"
  using assms
  by (auto simp: get_learning_stats_def sum_event_counts distinct_event_counts map_of_event_counts
      split: if_splits)

theorem stats_consistent_witness:
  "get_learning_stats st4_learned = Stats 2 [(''model_training'', 1), (''task_learning'', 1)] True 2 5
   \<and> (2::nat) = sum_list (map snd [(''model_training'', 1::nat), (''task_learning'', 1)])"
proof -
  have g: "get_learning_stats st4_learned = Stats 2 [(''model_training'', 1), (''task_learning'', 1)] True 2 5"
    by (simp add: get_learning_stats_def st4_learned_def event_counts_def bump_count_def count_of_def)
  show ?thesis using stats_consistent [OF g] g by simp
qed

section \<open>Persistence\<close>

text \<open>
  C14. Saving and restarting restores the analyzer exactly: after a successful
  \<open>save_model\<close>, \<open>load_model\<close> on the same path succeeds with the saved state, and a new
  analyzer built on that store is that state (spec 3: persisted and restored as one unit).
\<close>

theorem save_load_roundtrip:
  assumes "save_model path a st = (True, st')"
  shows "load_model path st' b = (True, a) \<and> analyzer_new path st' = a"
proof -
  have st': "st' = st(path \<mapsto> Pickled (snapshot a))" using assms by (simp add: save_model_True)
  then show ?thesis by (simp add: load_snapshot analyzer_new_def)
qed

theorem save_load_roundtrip_witness:
  "save_model ''model.pkl'' st5 (\<lambda>_. None) = (True, [''model.pkl'' \<mapsto> Pickled (snapshot st5)])
   \<and> analyzer_new ''model.pkl'' [''model.pkl'' \<mapsto> Pickled (snapshot st5)] = st5"
proof -
  have s: "save_model ''model.pkl'' st5 (\<lambda>_. None) = (True, [''model.pkl'' \<mapsto> Pickled (snapshot st5)])"
    by (simp add: save_model_def st5_def)
  show ?thesis using save_load_roundtrip [OF s] s by simp
qed

text \<open>
  C15. \<open>load_model\<close> is not all-or-nothing: a snapshot without the \<open>emails\<close> key leaves
  the model, vectorizer and matrix loaded but no corpus, a state that is not consistent
  (spec 5: persistence load is all-or-nothing).
\<close>

theorem partial_load_inconsistent:
  assumes "st path = Some (Pickled p)" and "p_model p = Some m" and "p_vectorizer p = Some v"
    and "p_email_vectors p = Some (Some X)" and "p_emails p = None"
  shows "load_model path st analyzer_init = (False, analyzer_init\<lparr>model := m, vectorizer := v, email_vectors := Some X\<rparr>)
         \<and> \<not> rows_consistent (analyzer_new path st)"
proof -
  have l: "load_model path st analyzer_init = (False, analyzer_init\<lparr>model := m, vectorizer := v, email_vectors := Some X\<rparr>)"
    using assms by (simp add: load_model_def)
  then have "analyzer_new path st = analyzer_init\<lparr>model := m, vectorizer := v, email_vectors := Some X\<rparr>"
    using assms(1) by (simp add: analyzer_new_def)
  then have "\<not> rows_consistent (analyzer_new path st)"
    by (simp add: rows_consistent_def analyzer_init_def)
  with l show ?thesis by simp
qed

theorem partial_load_inconsistent_witness:
  "\<not> rows_consistent (analyzer_new ''model.pkl''
       [''model.pkl'' \<mapsto> Pickled \<lparr>p_model = Some None, p_vectorizer = Some vectorizer_init,
                                     p_email_vectors = Some (Some [[1]]), p_emails = None,
                                     p_history = None\<rparr>])"
  using partial_load_inconsistent [of "[''model.pkl'' \<mapsto> Pickled \<lparr>p_model = Some None,
      p_vectorizer = Some vectorizer_init, p_email_vectors = Some (Some [[1]]), p_emails = None,
      p_history = None\<rparr>]" "''model.pkl''" _ None vectorizer_init "[[1]]"]
  by simp

section \<open>Templates\<close>

text \<open>
  C16. A text that contains a placeholder \<open>{{x}}\<close>, \<open>x\<close> a word, is returned unchanged with
  \<open>x\<close> among its variables (spec 8, template round trip), and, unlike what spec 4.4
  says of every call, no ledger entry is appended.
\<close>

theorem template_roundtrip:
  assumes "x \<noteq> []" and "list_all is_word_char x"
  shows "x \<in> set (extract_variables (u @ ''{{'' @ x @ ''}}'' @ w))
         \<and> suggest_template env rx now (u @ ''{{'' @ x @ ''}}'' @ w) a =
              (\<lparr>template = u @ ''{{'' @ x @ ''}}'' @ w,
                variables = Var_names (extract_variables (u @ ''{{'' @ x @ ''}}'' @ w)),
                message = ''Template already contains variables.''\<rparr>, a)"
proof -
  have m: "x \<in> set (extract_variables (u @ ''{{'' @ x @ ''}}'' @ w))"
    by (rule extract_variables_mem [OF assms])
  then have "extract_variables (u @ ''{{'' @ x @ ''}}'' @ w) \<noteq> []" by auto
  with m show ?thesis by (simp add: suggest_template_def)
qed

theorem template_roundtrip_witness:
  "''x'' \<noteq> [] \<and> list_all is_word_char ''x''
   \<and> suggest_template demo_env no_entities 1 ''Hi {{x}}'' st5 =
        (\<lparr>template = ''Hi {{x}}'', variables = Var_names [''x''],
          message = ''Template already contains variables.''\<rparr>, st5)"
proof -
  have w: "''x'' \<noteq> [] \<and> list_all is_word_char ''x''" by (simp add: is_word_char_def)
  have v: "extract_variables ''Hi {{x}}'' = [''x'']" by code_simp
  show ?thesis
    using template_roundtrip [of "''x''" "''Hi ''" "[]" demo_env no_entities 1 st5] w v by simp
qed

text \<open>
  C17. When the text has no placeholder, the generated template is the text with first
  occurrences of entity values replaced, each by the same literal \<open>{{{var_name}}}\<close>
  (line 212: in an f-string \<open>{{{{{{var_name}}}}}}\<close> is that constant, not the variable's
  name), and one \<open>template_suggestion\<close> entry counts the recorded variables.
\<close>

theorem template_literal_placeholder:
  assumes "extract_variables txt = []" and "suggest_template env rx now txt a = (r, a')"
  shows "\<exists>ws d. template r = fold (\<lambda>w t. replace_first w ''{{{var_name}}}'' t) ws txt
              \<and> set ws \<subseteq> (\<Union>(ty, vs) \<in> set (extract_entities env rx txt). set vs)
              \<and> variables r = Var_map d \<and> a' = log_event now (Template_suggestion (length d)) a"
proof -
  obtain t d where td: "template_entities (extract_entities env rx txt) txt = (t, d)" by fastforce
  have r: "template r = t" "variables r = Var_map d"
    and a': "a' = log_event now (Template_suggestion (length d)) a"
    using assms td by (auto simp: suggest_template_def)
  obtain ws where "t = fold (\<lambda>w t. replace_first w placeholder t) ws txt"
    "set ws \<subseteq> (\<Union>(ty, vs) \<in> set (extract_entities env rx txt). set vs)"
    using template_entities_text [of "extract_entities env rx txt" "txt"] td by auto
  then show ?thesis using r a' by (auto simp: placeholder_def)
qed

theorem template_literal_placeholder_witness:
  "extract_variables ''Call Alex'' = []
   \<and> suggest_template demo_env python_entities 4 ''Call Alex'' analyzer_init =
        (\<lparr>template = ''Call {{{var_name}}}'', variables = Var_map [(''name1'', ''Alex'')],
          message = ''Generated template with suggested variables.''\<rparr>,
         log_event 4 (Template_suggestion 1) analyzer_init)
   \<and> ''Call {{{var_name}}}'' = fold (\<lambda>w t. replace_first w ''{{{var_name}}}'' t) [''Alex''] ''Call Alex''"
proof -
  have v: "extract_variables ''Call Alex'' = []" by code_simp
  have "''Call {{{var_name}}}'' = fold (\<lambda>w t. replace_first w ''{{{var_name}}}'' t) [''Alex''] ''Call Alex''"
    by code_simp
  moreover note template_literal_placeholder [OF v call_alex_template]
  ultimately show ?thesis using v call_alex_template by simp
qed

text \<open>
  C18. Category names collide: the regular-expression category \<open>dates\<close> and a spaCy label
  \<open>DATE\<close> both name their first variable \<open>date1\<close>.  On a text with no placeholder where
  the date pattern finds something and spaCy reports one date entity \<open>v\<close>, the regex
  categories (de-duplicated) first record one of the found dates as \<open>date1\<close>; when \<open>v\<close>
  is still in the text after their replacements, the spaCy category then replaces it too
  and overwrites \<open>date1\<close> with \<open>v\<close>, so the regex date is replaced in the text yet lost
  from the variables.
\<close>

theorem template_label_collision:
  assumes "extract_variables txt = []" and "ner env = Some nlp" and "nlp txt = [(l, v)]"
    and "py_lower l = ''date''" and "findall_rx dates_rx [] txt \<noteq> []"
  shows "\<exists>t1 m1. template_entities (map (\<lambda>(k, vs). (k, remdups vs)) (python_entities txt)) txt = (t1, m1)
           \<and> (\<exists>e \<in> set (findall_rx dates_rx [] txt). map_of m1 ''date1'' = Some e)
           \<and> (py_contains v t1 \<longrightarrow>
                 suggest_template env python_entities now txt a =
                   (\<lparr>template = replace_first v placeholder t1,
                     variables = Var_map (AList.update ''date1'' v m1),
                     message = ''Generated template with suggested variables.''\<rparr>,
                    log_event now (Template_suggestion (length (AList.update ''date1'' v m1))) a)
                 \<and> map_of (AList.update ''date1'' v m1) ''date1'' = Some v)"
proof -
  obtain t1 m1 where tm:
    "template_entities (map (\<lambda>(k, vs). (k, remdups vs)) (python_entities txt)) txt = (t1, m1)"
    by fastforce
  have ee: "extract_entities env python_entities txt =
              map (\<lambda>(k, vs). (k, remdups vs)) (python_entities txt) @ [(''date'', [v])]"
    using assms(2-4)
    by (simp add: extract_entities_def group_labels_def merge_groups_def python_entities_def)
  have te: "template_entities (map (\<lambda>(k, vs). (k, remdups vs)) (python_entities txt) @ [(''date'', [v])]) txt
              = template_values ''date'' 0 [v] (t1, m1)"
    using tm by (simp add: template_entities_def var_base_def)
  show ?thesis
  proof (intro exI conjI impI)
    show "template_entities (map (\<lambda>(k, vs). (k, remdups vs)) (python_entities txt)) txt = (t1, m1)"
      by (rule tm)
    show "\<exists>e \<in> set (findall_rx dates_rx [] txt). map_of m1 ''date1'' = Some e"
      using python_entities_first_date_dedup [OF assms(5)] tm by simp
  next
    assume "py_contains v t1"
    then show "suggest_template env python_entities now txt a =
                 (\<lparr>template = replace_first v placeholder t1,
                   variables = Var_map (AList.update ''date1'' v m1),
                   message = ''Generated template with suggested variables.''\<rparr>,
                  log_event now (Template_suggestion (length (AList.update ''date1'' v m1))) a)"
      using assms(1) ee te by (simp add: suggest_template_def digits_of_1 [unfolded One_nat_def])
    show "map_of (AList.update ''date1'' v m1) ''date1'' = Some v" by (simp add: update_conv')
  qed
qed

theorem template_label_collision_witness:
  "extract_variables ''Meet tomorrow on 03/10/2023'' = []
   \<and> ner env_ner = Some (\<lambda>t. [(''DATE'', ''tomorrow'')]) \<and> py_lower ''DATE'' = ''date''
   \<and> findall_rx dates_rx [] ''Meet tomorrow on 03/10/2023'' = [''03/10/2023'']
   \<and> py_contains ''tomorrow'' ''Meet tomorrow on {{{var_name}}}''
   \<and> suggest_template env_ner python_entities 3 ''Meet tomorrow on 03/10/2023'' analyzer_init =
        (\<lparr>template = replace_first ''tomorrow'' placeholder ''Meet tomorrow on {{{var_name}}}'',
          variables = Var_map (AList.update ''date1'' ''tomorrow'' [(''date1'', ''03/10/2023'')]),
          message = ''Generated template with suggested variables.''\<rparr>,
         log_event 3 (Template_suggestion 1) analyzer_init)
   \<and> suggest_template env_ner python_entities 3 ''Meet tomorrow on 03/10/2023'' analyzer_init =
        (\<lparr>template = ''Meet {{{var_name}}} on {{{var_name}}}'', variables = Var_map [(''date1'', ''tomorrow'')],
          message = ''Generated template with suggested variables.''\<rparr>,
         log_event 3 (Template_suggestion 1) analyzer_init)"
proof -
  have n: "ner env_ner = Some (\<lambda>t. [(''DATE'', ''tomorrow'')])" by (simp add: env_ner_def)
  have l: "py_lower ''DATE'' = ''date''" by code_simp
  have c: "py_contains ''tomorrow'' ''Meet tomorrow on {{{var_name}}}''" by code_simp
  have "findall_rx dates_rx [] ''Meet tomorrow on 03/10/2023'' \<noteq> []" by (simp add: tomorrow_dates)
  from template_label_collision [OF tomorrow_no_vars n _ l this, of "''tomorrow''" 3 analyzer_init]
  have "suggest_template env_ner python_entities 3 ''Meet tomorrow on 03/10/2023'' analyzer_init =
        (\<lparr>template = replace_first ''tomorrow'' placeholder ''Meet tomorrow on {{{var_name}}}'',
          variables = Var_map (AList.update ''date1'' ''tomorrow'' [(''date1'', ''03/10/2023'')]),
          message = ''Generated template with suggested variables.''\<rparr>,
         log_event 3 (Template_suggestion (length (AList.update ''date1'' ''tomorrow'' [(''date1'', ''03/10/2023'')]))) analyzer_init)"
    using tomorrow_regex_template c by simp
  then show ?thesis using tomorrow_no_vars n l tomorrow_dates c tomorrow_template by simp
qed

section \<open>The command-line program\<close>

text \<open>
  C19. Every analyzer a deployment loads is reachable, so the invariants of C1 and C2 hold
  in every run of the CLI: starting from an empty file system, the model file only ever
  holds the snapshot of a reachable analyzer with a cluster model (bootstrap fit, then
  saves after successful learns).
\<close>

theorem deployed_loads_reachable:
  assumes "deployed env rx parse st"
  shows "reachable env rx (analyzer_new model_path st)
         \<and> rows_consistent (analyzer_new model_path st) \<and> clusters_fresh (analyzer_new model_path st)"
proof -
  from assms have "st model_path = None \<or>
      (\<exists>b. st model_path = Some (Pickled (snapshot b)) \<and> reachable env rx b \<and> model b \<noteq> None)"
  proof (induction rule: deployed.induct)
    case fresh
    then show ?case by simp
  next
    case (run st now args out code st')
    then show ?case using run_keeps_snapshot by blast
  qed
  then have "reachable env rx (analyzer_new model_path st)"
  proof (elim disjE exE conjE)
    assume "st model_path = None"
    then show ?thesis by (simp add: analyzer_new_def reachable.init)
  next
    fix b
    assume "st model_path = Some (Pickled (snapshot b))" "reachable env rx b"
    then show ?thesis by (simp add: analyzer_new_snapshot)
  qed
  then show ?thesis using reachable_invariants_raw by blast
qed

theorem deployed_loads_reachable_witness:
  "deployed demo_env no_entities parse_fail (\<lambda>_. None)
   \<and> reachable demo_env no_entities (analyzer_new model_path (\<lambda>_. None))
   \<and> rows_consistent (analyzer_new model_path (\<lambda>_. None))"
  using deployed_loads_reachable [OF deployed.fresh [of demo_env no_entities parse_fail]]
    deployed.fresh [of demo_env no_entities parse_fail]
  by simp

text \<open>
  C20. \<open>--learn\<close> with input that is not JSON, or JSON that is not an object, prints an
  error object but exits with status 0 and saves nothing (spec 7(a): malformed input is
  reported with a non-zero exit).
\<close>

theorem cli_learn_malformed_exit_zero:
  assumes "bootstrap env now st = Inr (a, st1)"
    and "parse j = Inl m \<or> (parse j = Inr v \<and> (\<forall>kvs. v \<noteq> JObj kvs))"
  shows "\<exists>msg. cli_run env rx parse now (''--learn'' # j # rest) st =
                 (error_json (''Failed to learn from task data: '' @ msg), 0, st1)"
  using assms(2)
proof
  assume "parse j = Inl m"
  then show ?thesis using assms(1) by (auto simp: cli_run_def cli_main_def)
next
  assume v: "parse j = Inr v \<and> (\<forall>kvs. v \<noteq> JObj kvs)"
  then show ?thesis using assms(1) learn_from_task_not_object [of v env now a]
    by (auto simp: cli_run_def cli_main_def)
qed

theorem cli_learn_malformed_exit_zero_witness:
  "bootstrap demo_env 2 store5 = Inr (st5, store5)
   \<and> parse_fail ''{oops'' = Inl ''Expecting value: line 1 column 1 (char 0)''
   \<and> (\<exists>msg. cli_run demo_env no_entities parse_fail 2 [''--learn'', ''{oops''] store5 =
              (error_json (''Failed to learn from task data: '' @ msg), 0, store5))"
proof -
  have p: "parse_fail ''{oops'' = Inl ''Expecting value: line 1 column 1 (char 0)''"
    by (simp add: parse_fail_def)
  show ?thesis using cli_learn_malformed_exit_zero [OF store5_boot, of parse_fail, OF disjI1 [OF p]]
    store5_boot p by simp
qed

text \<open>
  C21. \<open>--stats\<close> as the only argument is not the statistics command: with one argument
  the program analyses it as an email text, and prints the analysis object (spec 6 lists
  \<open><program> --stats\<close>; the code needs a second, ignored argument, line 35).
\<close>

theorem cli_stats_alone_is_analysis:
  assumes "bootstrap env now st = Inr (a, st1)"
    and "cli_run env rx parse now [''--stats''] st = (out, code, st')"
  shows "\<exists>kvs. out = JObj kvs
           \<and> map fst kvs = [''sentiment'', ''template'', ''variables'', ''message'', ''entities'', ''confidence'']
           \<and> code = 0 \<and> st' = st1"
  using assms by (auto simp: cli_run_def cli_main_def analysis_json_def Let_def)

theorem cli_stats_alone_is_analysis_witness:
  "bootstrap demo_env 2 store5 = Inr (st5, store5)
   \<and> (\<exists>kvs. fst (cli_run demo_env no_entities parse_fail 2 [''--stats''] store5) = JObj kvs
        \<and> map fst kvs = [''sentiment'', ''template'', ''variables'', ''message'', ''entities'', ''confidence''])"
proof -
  obtain out code st' where r: "cli_run demo_env no_entities parse_fail 2 [''--stats''] store5 = (out, code, st')"
    by (cases "cli_run demo_env no_entities parse_fail 2 [''--stats''] store5") auto
  show ?thesis using cli_stats_alone_is_analysis [OF store5_boot r] store5_boot r by auto
qed

text \<open>
  C22. Only the bootstrap and a successful \<open>--learn\<close> write the model file: every other run
  leaves the store as the bootstrap left it, so the ledger entries of searches and template
  suggestions are never persisted (spec 3: ledger persisted with the snapshot).
\<close>

theorem cli_only_learn_persists:
  assumes "bootstrap env now st = Inr (a, st1)" and "args \<noteq> []"
    and "hd args \<noteq> ''--learn'' \<or> length args < 2"
    and "cli_run env rx parse now args st = (out, code, st')"
  shows "st' = st1"
  using assms
  by (cases args) (auto simp: cli_run_def cli_main_def Let_def split: if_splits option.splits sum.splits)

theorem cli_only_learn_persists_witness:
  "bootstrap demo_env 2 store5 = Inr (st5, store5)
   \<and> cli_run demo_env no_entities parse_fail 2 [''--similar'', ''aa''] store5 =
       (similar_json [(JStr ''aa'', 1), (JStr ''aa'', 1), (JStr ''aa'', 1)], 0, store5)
   \<and> get_similar_emails demo_env 2 ''aa'' 3 st5 \<noteq> Inr ([(JStr ''aa'', 1), (JStr ''aa'', 1), (JStr ''aa'', 1)], st5)"
proof -
  have r: "cli_run demo_env no_entities parse_fail 2 [''--similar'', ''aa''] store5 =
       (similar_json [(JStr ''aa'', 1), (JStr ''aa'', 1), (JStr ''aa'', 1)], 0, store5)"
    by (simp add: cli_run_def cli_main_def store5_boot st5_similar_3)
  have "store5 = store5" using cli_only_learn_persists [OF store5_boot _ _ r] by simp
  moreover have "get_similar_emails demo_env 2 ''aa'' 3 st5 \<noteq>
                   Inr ([(JStr ''aa'', 1), (JStr ''aa'', 1), (JStr ''aa'', 1)], st5)"
    by (simp only: st5_similar_3) (simp add: log_event_def st5_def)
  ultimately show ?thesis using r store5_boot by simp
qed

text \<open>
  C23. A successful \<open>--learn\<close> prints success, saves the learned analyzer, and the next run
  loads exactly that analyzer (spec 6 and 3: persisted and restored as one unit).
\<close>

theorem cli_learn_persists:
  assumes "st model_path = Some (Pickled (snapshot b))" and "reachable env rx b" and "model b \<noteq> None"
    and "parse j = Inr task" and "learn_from_task env now task b = Inr (True, b')"
  shows "cli_run env rx parse now (''--learn'' # j # rest) st =
           (JObj [(''success'', JBool True), (''message'', JStr ''Learned from task data'')], 0,
            st(model_path \<mapsto> Pickled (snapshot b')))
         \<and> analyzer_new model_path (st(model_path \<mapsto> Pickled (snapshot b'))) = b'"
proof -
  have boot: "bootstrap env now st = Inr (b, st)"
    using assms(1,3) by (auto simp: bootstrap_def analyzer_new_snapshot)
  have "model b' \<noteq> None"
  proof -
    obtain kvs where t: "task = JObj kvs"
      using assms(5) learn_from_task_not_object [of task env now b] by (cases task) auto
    have rc: "rows_consistent b" using reachable_invariants_raw [OF assms(2)] by blast
    have msg: "py_truthy (dict_get kvs ''message'' (JStr []))"
      using assms(5) learn_from_task_no_message [of kvs env now b] t by auto
    obtain es where es: "emails b = Some es"
      using assms(5) learn_from_task_no_corpus [of b env now kvs] t by (cases "emails b") auto
    obtain m X where "fitted (vectorizer b) = Some m" "email_vectors b = Some X"
      using rows_consistent_SomeD [OF rc es] by blast
    from learn_from_task_consistent [OF rc es this msg, of env now] assms(5) t assms(3)
    show ?thesis by (auto simp: Let_def log_event_def)
  qed
  then show ?thesis using boot assms(4,5)
    by (simp add: cli_run_def cli_main_def save_model_def analyzer_new_def load_snapshot)
qed

theorem cli_learn_persists_witness:
  "store5 model_path = Some (Pickled (snapshot st5)) \<and> reachable demo_env no_entities st5
   \<and> model st5 \<noteq> None \<and> parse_task ''{}'' = Inr (JObj task_aa)
   \<and> learn_from_task demo_env 3 (JObj task_aa) st5 = Inr (True, st6)
   \<and> analyzer_new model_path (store5(model_path \<mapsto> Pickled (snapshot st6))) = st6"
proof -
  have h: "store5 model_path = Some (Pickled (snapshot st5))" "model st5 \<noteq> None"
    "parse_task ''{}'' = Inr (JObj task_aa)"
    by (simp_all add: store5_def st5_def parse_task_def)
  show ?thesis using cli_learn_persists [where parse = parse_task and j = "''{}''" and rest = "[]" and st = store5,
      OF h(1) st5_reachable h(2) h(3) st5_learn]
    h st5_reachable st5_learn by simp
qed

end
